(* ===== verification/Prelude.thy ===== *)
theory Prelude
  imports Main "HOL-Library.Char_ord" "HOL-Library.List_Lexorder" "HOL-Library.Multiset"
    "HOL-Library.Sublist"
begin

text \<open>
  Shared vocabulary of the development: the Python runtime notions every component of
  \<open>src/scripts\<close> uses. A Python \<open>dict\<close> is an association list with Python's update
  semantics (\<open>dict_set\<close>: an existing key keeps its position, a new key is appended), so
  that iteration order, which \<open>export_to_grasshopper\<close> and \<open>save_state\<close> expose, is
  kept. Exceptions are values of \<open>py_error\<close>; an operation that mutates its object
  and may raise half-way returns an \<open>outcome\<close>, which keeps the state reached when the
  exception escaped. The collections \<open>dict_simps\<close> and \<open>outcome_simps\<close> carry the
  component proofs.
\<close>

named_theorems dict_simps "rewrite rules for Python dictionaries as association lists"
named_theorems outcome_simps "rewrite rules for runs that may raise"

subsection \<open>Basic types\<close>

text \<open>
  Timestamps are the instants \<open>datetime.now()\<close> returns, read as a count of
  microseconds; \<open>isoformat\<close> and \<open>fromisoformat\<close> are an order-preserving bijection
  on the strings the program writes, so the model keeps the instant.
  An object id is a Python value that is a string or \<open>None\<close>: \<open>None\<close> is what
  \<open>item.get("id")\<close> yields for an item without an id.
\<close>

type_synonym timestamp = nat
type_synonym py_id = "string option"

datatype py_error = KeyError | TypeError | JSONDecodeError | IndexError | AttributeError | OSError | ValueError

text \<open>A JSON file the program reads: absent, not parseable by \<open>json.load\<close>, or
  holding a value.\<close>

datatype 'a file_state = Missing | Corrupt | Stored 'a

datatype ('a, 's) outcome = Ok 'a 's | Raised py_error 's

primrec outcome_state :: "('a, 's) outcome \<Rightarrow> 's" where
  "outcome_state (Ok a s) = s"
| "outcome_state (Raised e s) = s"

lemma Inr_pair_eq: "x = Inr (a, b) \<Longrightarrow> x = Inr (a', b') \<Longrightarrow> a = a' \<and> b = b'"
  by simp

subsection \<open>Python dictionaries\<close>

type_synonym ('k, 'v) pydict = "('k \<times> 'v) list"

abbreviation dict_get :: "('k, 'v) pydict \<Rightarrow> 'k \<Rightarrow> 'v option" where
  "dict_get d \<equiv> map_of d"

text \<open>\<open>d[k] = v\<close>: overwrite in place, or append a new key at the end.\<close>

fun dict_set :: "('k, 'v) pydict \<Rightarrow> 'k \<Rightarrow> 'v \<Rightarrow> ('k, 'v) pydict" where
  "dict_set [] k v = [(k, v)]"
| "dict_set ((k', v') # d) k v = (if k' = k then (k, v) # d else (k', v') # dict_set d k v)"

definition dict_keys :: "('k, 'v) pydict \<Rightarrow> 'k list" where
  "dict_keys d = map fst d"

text \<open>A well-formed dictionary has each key once.\<close>

definition dict_wf :: "('k, 'v) pydict \<Rightarrow> bool" where
  "dict_wf d \<longleftrightarrow> distinct (dict_keys d)"

lemma map_of_dict_set [simp, dict_simps]: "map_of (dict_set d k v) = (map_of d)(k \<mapsto> v)"
  by (induction d) (auto simp: fun_eq_iff)

lemma dict_keys_dict_set [dict_simps]:
  "dict_keys (dict_set d k v) = (if k \<in> set (dict_keys d) then dict_keys d else dict_keys d @ [k])"
  by (induction d) (force simp: dict_keys_def)+

lemma set_dict_keys_dict_set [simp, dict_simps]:
  "set (dict_keys (dict_set d k v)) = insert k (set (dict_keys d))"
  by (auto simp: dict_keys_dict_set)

lemma dict_wf_dict_set [simp, dict_simps]: "dict_wf d \<Longrightarrow> dict_wf (dict_set d k v)"
  by (auto simp: dict_wf_def dict_keys_dict_set)

lemma dict_wf_Nil [simp, dict_simps]: "dict_wf []"
  by (simp add: dict_wf_def dict_keys_def)

lemma set_dict_set_sub: "set (dict_set d k v) \<subseteq> insert (k, v) (set d)"
  by (induction d) (auto split: if_splits)

lemma dict_set_member:
  "(k', v') \<in> set (dict_set d k v) \<Longrightarrow> (k', v') = (k, v) \<or> (k', v') \<in> set d"
  using set_dict_set_sub by fastforce

text \<open>A property of every entry survives \<open>d[k] = v\<close> of an entry that has it.\<close>

lemma dict_set_forall:
  "\<forall>(k, v) \<in> set d. Q k v \<Longrightarrow> Q k0 v0 \<Longrightarrow> \<forall>(k, v) \<in> set (dict_set d k0 v0). Q k v"
  using dict_set_member by fastforce

lemma dict_wf_map_of_iff [dict_simps]:
  "dict_wf d \<Longrightarrow> map_of d k = Some v \<longleftrightarrow> (k, v) \<in> set d"
  by (simp add: dict_wf_def dict_keys_def)

lemma length_dict_set [dict_simps]:
  "length (dict_set d k v) = (if k \<in> set (dict_keys d) then length d else Suc (length d))"
  by (induction d) (force simp: dict_keys_def)+

text \<open>\<open>del d[k]\<close>; the callers test \<open>k in d\<close> first, so the \<open>KeyError\<close> of a
  missing key does not arise.\<close>

definition dict_del :: "('k, 'v) pydict \<Rightarrow> 'k \<Rightarrow> ('k, 'v) pydict" where
  "dict_del d k = filter (\<lambda>kv. fst kv \<noteq> k) d"

lemma map_of_dict_del [simp, dict_simps]: "map_of (dict_del d k) = (map_of d)(k := None)"
  by (induction d) (auto simp: dict_del_def)

lemma dict_set_fresh [dict_simps]: "k \<notin> set (dict_keys d) \<Longrightarrow> dict_set d k v = d @ [(k, v)]"
  by (induction d) (auto simp: dict_keys_def)

text \<open>Assigning the pairs of a list one after the other, as a \<open>for\<close> loop of
  \<open>d[k] = v\<close> statements does.\<close>

definition dict_set_all :: "('k, 'v) pydict \<Rightarrow> ('k \<times> 'v) list \<Rightarrow> ('k, 'v) pydict" where
  "dict_set_all d kvs = fold (\<lambda>(k, v) d. dict_set d k v) kvs d"

lemma dict_set_all_Cons [simp, dict_simps]:
  "dict_set_all d ((k, v) # kvs) = dict_set_all (dict_set d k v) kvs"
  by (simp add: dict_set_all_def)

lemma dict_set_all_Nil [simp, dict_simps]: "dict_set_all d [] = d"
  by (simp add: dict_set_all_def)

lemma dict_set_all_wf [dict_simps]: "dict_wf d \<Longrightarrow> dict_wf (dict_set_all d kvs)"
  by (induction kvs arbitrary: d) auto

lemma dict_set_all_of_dict:
  "dict_wf kvs \<Longrightarrow> dict_set_all [] kvs = kvs"
proof -
  have "dict_wf (d @ kvs) \<Longrightarrow> dict_set_all d kvs = d @ kvs" for d
  proof (induction kvs arbitrary: d)
    case Nil
    then show ?case by simp
  next
    case (Cons kv kvs)
    obtain k v where kv: "kv = (k, v)" by (cases kv)
    with Cons.prems have "k \<notin> set (dict_keys d)"
      by (auto simp: dict_wf_def dict_keys_def)
    then have "dict_set d k v = d @ [(k, v)]"
      by (induction d) (auto simp: dict_keys_def)
    with Cons kv show ?case by simp
  qed
  then show "dict_wf kvs \<Longrightarrow> dict_set_all [] kvs = kvs" by simp
qed

lemma map_of_dict_set_all [simp, dict_simps]:
  "map_of (dict_set_all d kvs) = map_of d ++ map_of (rev kvs)"
  by (induction kvs arbitrary: d) (auto simp: map_add_def fun_eq_iff split: option.splits)

lemma map_of_rev_wf [dict_simps]:
  assumes "dict_wf kvs" shows "map_of (rev kvs) = map_of kvs"
proof (rule ext)
  fix k
  have d: "distinct (map fst kvs)" "distinct (map fst (rev kvs))"
    using assms by (simp_all add: dict_wf_def dict_keys_def rev_map [symmetric])
  show "map_of (rev kvs) k = map_of kvs k"
  proof (cases "map_of kvs k")
    case None
    then have "k \<notin> fst ` set (rev kvs)" by (simp add: map_of_eq_None_iff)
    with None show ?thesis by (metis map_of_eq_None_iff)
  next
    case (Some v)
    with d(1) have "(k, v) \<in> set (rev kvs)" by (simp add: map_of_eq_Some_iff)
    with Some show ?thesis by (simp add: map_of_eq_Some_iff [OF d(2)])
  qed
qed

subsection \<open>List comprehensions whose body may raise\<close>

text \<open>\<open>[f(x) for x in xs]\<close> where \<open>f\<close> may raise: the first exception escapes.\<close>

primrec py_map :: "('a \<Rightarrow> py_error + 'b) \<Rightarrow> 'a list \<Rightarrow> py_error + 'b list" where
  "py_map f [] = Inr []"
| "py_map f (x # xs) =
     (case f x of
        Inl e \<Rightarrow> Inl e
      | Inr y \<Rightarrow> (case py_map f xs of Inl e \<Rightarrow> Inl e | Inr ys \<Rightarrow> Inr (y # ys)))"

lemma py_map_cong [fundef_cong]:
  assumes "xs = ys" and fg: "\<And>x. x \<in> set ys \<Longrightarrow> f x = g x"
  shows "py_map f xs = py_map g ys"
proof -
  have "py_map f ys = py_map g ys" using fg by (induction ys) (auto split: sum.split)
  with assms(1) show ?thesis by simp
qed

lemma py_map_Inr [outcome_simps]:
  "(\<And>x. x \<in> set xs \<Longrightarrow> f x = Inr (g x)) \<Longrightarrow> py_map f xs = Inr (map g xs)"
  by (induction xs) auto

lemma py_map_length [outcome_simps]: "py_map f xs = Inr ys \<Longrightarrow> length ys = length xs"
  by (induction xs arbitrary: ys) (auto split: sum.splits)

text \<open>A map whose function succeeds exactly on a domain \<open>P\<close>, with results \<open>g\<close>,
  succeeds exactly on lists within the domain.\<close>

lemma py_map_Inr_graph:
  assumes "\<And>x y. x \<in> set xs \<Longrightarrow> f x = Inr y \<longleftrightarrow> P x \<and> y = g x"
  shows "py_map f xs = Inr ys \<longleftrightarrow> list_all P xs \<and> ys = map g xs"
  using assms
proof (induction xs arbitrary: ys)
  case (Cons x xs)
  have fx: "f x = Inr y \<longleftrightarrow> P x \<and> y = g x" for y using Cons.prems by simp
  have IH: "py_map f xs = Inr zs \<longleftrightarrow> list_all P xs \<and> zs = map g xs" for zs
    using Cons by simp
  show ?case
  proof (cases "f x")
    case (Inl e)
    then show ?thesis using fx [of "g x"] by simp
  next
    case (Inr y)
    then show ?thesis using fx [of y] IH by (cases "py_map f xs") auto
  qed
qed auto

text \<open>The same for whether the map succeeds at all.\<close>

lemma py_map_defined:
  assumes "\<And>x. x \<in> set xs \<Longrightarrow> (\<exists>y. f x = Inr y) \<longleftrightarrow> P x"
  shows "(\<exists>ys. py_map f xs = Inr ys) \<longleftrightarrow> list_all P xs"
  using assms
proof (induction xs)
  case (Cons x xs)
  then show ?case by (cases "f x"; cases "py_map f xs") force+
qed auto

lemma find_append_Some: "find P xs = Some x \<Longrightarrow> find P (xs @ ys) = Some x"
  by (induction xs) auto

subsection \<open>Runs that may raise\<close>

text \<open>
  A Python \<open>for\<close> loop over a list whose body may raise: the items are processed in
  order, each with the state the previous one left, and the first exception escapes with
  the state reached so far (the mutations before it are not undone).
\<close>

fun run_items :: "('s \<Rightarrow> 'i \<Rightarrow> ('a, 's) outcome) \<Rightarrow> 's \<Rightarrow> 'i list \<Rightarrow> ('a list, 's) outcome" where
  "run_items f s [] = Ok [] s"
| "run_items f s (i # is) =
     (case f s i of
        Raised e s' \<Rightarrow> Raised e s'
      | Ok a s' \<Rightarrow> (case run_items f s' is of
                     Ok as s'' \<Rightarrow> Ok (a # as) s''
                   | Raised e s'' \<Rightarrow> Raised e s''))"

text \<open>A property every step keeps holds in the state a run ends in, raised or not.\<close>

lemma run_items_invariant:
  assumes "\<And>s i. P s \<Longrightarrow> P (outcome_state (f s i))" and "P s"
  shows "P (outcome_state (run_items f s is))"
  using assms(2)
proof (induction "is" arbitrary: s)
  case Nil
  then show ?case by simp
next
  case (Cons i "is")
  have P1: "P (outcome_state (f s i))" using assms(1) Cons.prems .
  show ?case
  proof (cases "f s i")
    case (Ok a s')
    with P1 have "P s'" by simp
    then have "P (outcome_state (run_items f s' is))" by (rule Cons.IH)
    with Ok show ?thesis by (auto split: outcome.splits)
  next
    case (Raised e s')
    with P1 show ?thesis by simp
  qed
qed

text \<open>The same, for a property the steps keep only on the items of the list.\<close>

lemma run_items_invariant_on:
  assumes "\<And>s i. P s \<Longrightarrow> i \<in> set is \<Longrightarrow> P (outcome_state (f s i))" and "P s"
  shows "P (outcome_state (run_items f s is))"
  using assms
proof (induction "is" arbitrary: s)
  case Nil
  then show ?case by simp
next
  case (Cons i "is")
  have P1: "P (outcome_state (f s i))" using Cons.prems by simp
  show ?case
  proof (cases "f s i")
    case (Ok a s')
    with P1 have "P s'" by simp
    with Cons.prems have "P (outcome_state (run_items f s' is))" by (intro Cons.IH) auto
    with Ok show ?thesis by (auto split: outcome.splits)
  next
    case (Raised e s')
    with P1 show ?thesis by simp
  qed
qed

text \<open>A relation every step establishes between its start and end states, and that
  composes, relates the start of a run to its end.\<close>

lemma run_items_trans:
  assumes step: "\<And>s i. R s (outcome_state (f s i))"
    and refl: "\<And>s. R s s" and trans: "\<And>a b c. R a b \<Longrightarrow> R b c \<Longrightarrow> R a c"
  shows "R s (outcome_state (run_items f s is))"
proof (induction "is" arbitrary: s)
  case Nil
  then show ?case by (simp add: refl)
next
  case (Cons i "is")
  show ?case
  proof (cases "f s i")
    case (Ok a s')
    from step [of s i] Ok have "R s s'" by simp
    moreover have "R s' (outcome_state (run_items f s' is))" by (rule Cons.IH)
    ultimately show ?thesis using Ok trans by (auto split: outcome.splits)
  next
    case (Raised e s')
    from step [of s i] Raised show ?thesis by simp
  qed
qed

text \<open>When no step on an item of the list raises, the run does not raise; a run that
  does not raise ran every item's step without raising.\<close>

lemma run_items_Ok:
  assumes "\<And>s i. i \<in> set is \<Longrightarrow> \<exists>a s'. f s i = Ok a s'"
  shows "\<exists>as s'. run_items f s is = Ok as s'"
  using assms
proof (induction "is" arbitrary: s)
  case Nil
  then show ?case by simp
next
  case (Cons i "is")
  from Cons.prems obtain a s' where fi: "f s i = Ok a s'" by fastforce
  from Cons.IH [of s'] Cons.prems obtain as s'' where "run_items f s' is = Ok as s''" by auto
  with fi show ?case by simp
qed

text \<open>A run raises when the list holds an item whose step raises in every state of an
  invariant that the other items' steps keep.\<close>

lemma run_items_Raised:
  assumes "i \<in> set is" and "P s"
    and keep: "\<And>s j a s'. P s \<Longrightarrow> j \<noteq> i \<Longrightarrow> f s j = Ok a s' \<Longrightarrow> P s'"
    and raise: "\<And>s. P s \<Longrightarrow> \<exists>e s'. f s i = Raised e s'"
  shows "\<exists>e s'. run_items f s is = Raised e s'"
  using assms(1,2)
proof (induction "is" arbitrary: s)
  case (Cons j "is")
  show ?case
  proof (cases "f s j")
    case (Ok a s')
    then have ji: "j \<noteq> i" using raise [OF Cons.prems(2)] by auto
    with Cons.prems(1) have i: "i \<in> set is" by simp
    have P': "P s'" using keep [OF Cons.prems(2) ji Ok] .
    obtain e s'' where "run_items f s' is = Raised e s''" using Cons.IH [OF i P'] by blast
    with Ok show ?thesis by simp
  qed simp
qed simp

text \<open>Items a step cannot tell apart under \<open>g\<close> give the same run.\<close>

lemma run_items_cong_map:
  assumes "\<And>s x. f s x = f s (g x)" and "map g xs = map g ys"
  shows "run_items f s xs = run_items f s ys"
  using assms(2)
proof (induction xs arbitrary: ys s)
  case Nil
  then show ?case by simp
next
  case (Cons x xs)
  then obtain y ys' where ys: "ys = y # ys'" and gy: "g x = g y" and r: "map g xs = map g ys'"
    by (cases ys) auto
  have "f s x = f s y" using assms(1) [of s x] assms(1) [of s y] gy by simp
  then show ?case using Cons.IH [OF r] ys by (simp split: outcome.split)
qed

lemma run_items_Ok_member:
  "run_items f s is = Ok as s' \<Longrightarrow> i \<in> set is \<Longrightarrow> \<exists>t a t'. f t i = Ok a t'"
  by (induction "is" arbitrary: s as) (auto split: outcome.splits)

lemma run_items_Ok_length [outcome_simps]:
  "run_items f s is = Ok as s' \<Longrightarrow> length as = length is"
  by (induction "is" arbitrary: s as) (auto split: outcome.splits)

end
