(* ===== verification/ContentHash.thy ===== *)
theory ContentHash
  imports Prelude
begin

text \<open>
  The content hasher of \<open>merge_engine.py\<close>: \<open>DataObject._compute_hash\<close> serialises
  \<open>{"type": ..., "properties": ..., "geometry": ...}\<close> with
  \<open>json.dumps(..., sort_keys=True)\<close> and hashes the text with MD5. JSON values are the
  datatype \<open>json\<close>; the serialiser \<open>dumps\<close> follows the standard library's encoder
  with its default separators (\<open>", "\<close> and \<open>": "\<close>), \<open>ensure_ascii\<close> escaping and
  keys sorted at every depth. MD5 itself is a parameter \<open>md5\<close> of the model: the
  program only calls it. The main result, \<open>dumps_json_eq\<close>, is that values equal up to
  the order of their keys, at any depth, serialise to the same text, so that the digest
  is deterministic whatever the insertion order of the dictionaries.
\<close>

subsection \<open>JSON values\<close>

text \<open>Numbers are Python integers (floats are not modelled); an object is a dictionary
  with string keys.\<close>

datatype json =
    JNull
  | JBool bool
  | JNum int
  | JStr string
  | JArr "json list"
  | JObj "(string, json) pydict"

text \<open>Python's truth value of a JSON value: \<open>None\<close>, \<open>False\<close>, zero and empty
  strings, lists and dictionaries are false.\<close>

fun py_truthy :: "json \<Rightarrow> bool" where
  "py_truthy JNull = False"
| "py_truthy (JBool b) = b"
| "py_truthy (JNum i) = (i \<noteq> 0)"
| "py_truthy (JStr s) = (s \<noteq> [])"
| "py_truthy (JArr xs) = (xs \<noteq> [])"
| "py_truthy (JObj kvs) = (kvs \<noteq> [])"

subsection \<open>The standard library's serialiser\<close>

definition hex_digit :: "nat \<Rightarrow> char" where
  "hex_digit n = (if n < 10 then char_of (48 + n) else char_of (87 + n))"

text \<open>\<open>'\\u{0:04x}'.format(n)\<close> for a character below 256.\<close>

definition hex4 :: "char \<Rightarrow> string" where
  "hex4 c = [CHR ''0'', CHR ''0'', hex_digit (of_char c div 16), hex_digit (of_char c mod 16)]"

text \<open>\<open>ESCAPE_ASCII\<close>/\<open>ESCAPE_DCT\<close> of \<open>json.encoder\<close>: backslash and double quote
  are escaped, the five named control characters get their short escape, every other
  character outside \<open>' '..'~'\<close> becomes \<open>\\uXXXX\<close>.\<close>

definition escape_char :: "char \<Rightarrow> string" where
  "escape_char c =
     (if c = CHR 0x5C then [CHR 0x5C, CHR 0x5C]
      else if c = CHR 0x22 then [CHR 0x5C, CHR 0x22]
      else if c = CHR 0x08 then [CHR 0x5C, CHR ''b'']
      else if c = CHR 0x0C then [CHR 0x5C, CHR ''f'']
      else if c = CHR 0x0A then [CHR 0x5C, CHR ''n'']
      else if c = CHR 0x0D then [CHR 0x5C, CHR ''r'']
      else if c = CHR 0x09 then [CHR 0x5C, CHR ''t'']
      else if 32 \<le> (of_char c :: nat) \<and> (of_char c :: nat) \<le> 126 then [c]
      else [CHR 0x5C, CHR ''u''] @ hex4 c)"

definition py_encode_str :: "string \<Rightarrow> string" where
  "py_encode_str s = [CHR 0x22] @ concat (map escape_char s) @ [CHR 0x22]"

fun nat_str :: "nat \<Rightarrow> string" where
  "nat_str n = (if n < 10 then [hex_digit n] else nat_str (n div 10) @ [hex_digit (n mod 10)])"

declare nat_str.simps [simp del]

definition int_str :: "int \<Rightarrow> string" where
  "int_str i = (if i < 0 then CHR ''-'' # nat_str (nat (- i)) else nat_str (nat i))"

text \<open>\<open>sep.join(parts)\<close>.\<close>

fun py_join :: "string \<Rightarrow> string list \<Rightarrow> string" where
  "py_join sep [] = []"
| "py_join sep [x] = x"
| "py_join sep (x # xs) = x @ sep @ py_join sep xs"

text \<open>\<open>json.dumps(v, sort_keys=True)\<close>: object members are emitted in the order of
  their keys (\<open>sorted(dct.items())\<close>; keys of a dictionary are distinct, so the values
  are never compared).\<close>

function dumps :: "json \<Rightarrow> string" where
  "dumps JNull = ''null''"
| "dumps (JBool b) = (if b then ''true'' else ''false'')"
| "dumps (JNum i) = int_str i"
| "dumps (JStr s) = py_encode_str s"
| "dumps (JArr xs) = ''['' @ py_join '', '' (map dumps xs) @ '']''"
| "dumps (JObj kvs) =
     ''{'' @ py_join '', '' (map (\<lambda>(k, v). py_encode_str k @ '': '' @ dumps v) (sort_key fst kvs))
       @ ''}''"
  by pat_completeness auto
termination
  by (relation "measure size")
    (auto simp: less_Suc_eq_le intro: size_list_estimation' [where y = "size _"])

subsection \<open>The digest\<close>

text \<open>\<open>DataObject._compute_hash\<close> (merge_engine.py, lines 33--40).\<close>

definition compute_hash ::
  "(string \<Rightarrow> string) \<Rightarrow> string \<Rightarrow> (string, json) pydict \<Rightarrow> (string, json) pydict \<Rightarrow> string" where
  "compute_hash md5 obj_type properties geometry =
     md5 (dumps (JObj [(''type'', JStr obj_type), (''properties'', JObj properties),
                       (''geometry'', JObj geometry)]))"

subsection \<open>Equality up to key order\<close>

text \<open>Two JSON values hold the same content when they are the same atom, arrays of
  pairwise equal elements, or dictionaries with the same keys whose values at each key
  are equal: equality of the dictionaries Python builds, whatever order their keys were
  inserted in.\<close>

inductive json_eq :: "json \<Rightarrow> json \<Rightarrow> bool" where
  eq_null: "json_eq JNull JNull"
| eq_bool: "json_eq (JBool b) (JBool b)"
| eq_num: "json_eq (JNum i) (JNum i)"
| eq_str: "json_eq (JStr s) (JStr s)"
| eq_arr: "length xs = length ys \<Longrightarrow> \<forall>x y. (x, y) \<in> set (zip xs ys) \<longrightarrow> json_eq x y \<Longrightarrow>
    json_eq (JArr xs) (JArr ys)"
| eq_obj: "dict_wf kvs \<Longrightarrow> dict_wf kws \<Longrightarrow> set (dict_keys kvs) = set (dict_keys kws) \<Longrightarrow>
    \<forall>k v w. (k, v) \<in> set kvs \<longrightarrow> (k, w) \<in> set kws \<longrightarrow> json_eq v w \<Longrightarrow>
    json_eq (JObj kvs) (JObj kws)"

subsection \<open>Lemmas on sorting and mapping\<close>

lemma map_eq_zip:
  "length xs = length ys \<Longrightarrow> (\<And>x y. (x, y) \<in> set (zip xs ys) \<Longrightarrow> f x = f y) \<Longrightarrow>
   map f xs = map f ys"
proof (induction xs arbitrary: ys)
  case Nil
  then show ?case by simp
next
  case (Cons x xs)
  then show ?case by (cases ys) auto
qed

lemma map_eq_on_keys:
  "map fst as = map fst bs \<Longrightarrow>
   (\<And>k v w. (k, v) \<in> set as \<Longrightarrow> (k, w) \<in> set bs \<Longrightarrow> g k v = g k w) \<Longrightarrow>
   map (\<lambda>(k, v). g k v) as = map (\<lambda>(k, v). g k v) bs"
proof (induction as arbitrary: bs)
  case Nil
  then show ?case by simp
next
  case (Cons a as)
  then show ?case by (cases bs) (auto simp: split_beta)
qed

lemma distinct_map_sort_key: "distinct (map f (sort_key f xs)) = distinct (map f xs)"
  by (induction xs) (simp_all add: distinct_insort_key)

text \<open>Sorting two dictionaries with the same keys by key lines their keys up.\<close>

lemma sort_keys_agree:
  assumes "dict_wf kvs" and "dict_wf kws" and "set (dict_keys kvs) = set (dict_keys kws)"
  shows "map fst (sort_key fst kvs) = map fst (sort_key fst kws)"
proof (rule sorted_distinct_set_unique)
  show "sorted (map fst (sort_key fst kvs))" and "sorted (map fst (sort_key fst kws))"
    by simp_all
  show "distinct (map fst (sort_key fst kvs))" and "distinct (map fst (sort_key fst kws))"
    using assms(1,2) by (simp_all add: distinct_map_sort_key dict_wf_def dict_keys_def)
  show "set (map fst (sort_key fst kvs)) = set (map fst (sort_key fst kws))"
    using assms(3) by (simp add: dict_keys_def)
qed

subsection \<open>Determinism of the serialiser\<close>

text \<open>Rule induction on \<open>json_eq\<close>: atoms serialise alike; arrays element by element;
  dictionaries are sorted, after which their keys agree position by position and the
  values at each key serialise alike by the induction hypothesis.\<close>

lemma dumps_json_eq: "json_eq a b \<Longrightarrow> dumps a = dumps b"
proof (induction rule: json_eq.induct)
  case (eq_arr xs ys)
  then have "map dumps xs = map dumps ys" by (intro map_eq_zip) auto
  then show ?case by simp
next
  case (eq_obj kvs kws)
  let ?g = "\<lambda>k v. py_encode_str k @ '': '' @ dumps v"
  have "map (\<lambda>(k, v). ?g k v) (sort_key fst kvs) = map (\<lambda>(k, v). ?g k v) (sort_key fst kws)"
  proof (rule map_eq_on_keys)
    show "map fst (sort_key fst kvs) = map fst (sort_key fst kws)"
      using eq_obj.hyps(1-3) by (rule sort_keys_agree)
    show "?g k v = ?g k w" if "(k, v) \<in> set (sort_key fst kvs)" "(k, w) \<in> set (sort_key fst kws)"
      for k v w using that eq_obj.IH by simp
  qed
  then show ?case by simp
qed simp_all

lemma json_eq_refl_atoms [intro]:
  "json_eq JNull JNull" "json_eq (JBool b) (JBool b)" "json_eq (JNum i) (JNum i)"
  "json_eq (JStr s) (JStr s)"
  by (auto intro: json_eq.intros)

text \<open>The serialiser reproduces the standard library's text, for instance on the content
  of a wall with one property and an empty geometry.\<close>

lemma dumps_wall_example:
  "dumps (JObj [(''type'', JStr ''Wall''), (''properties'', JObj [(''h'', JNum 12)]),
                (''geometry'', JObj [])])
   = ''{\"geometry\": {}, \"properties\": {\"h\": 12}, \"type\": \"Wall\"}''"
  by code_simp

subsection \<open>Determinism of the digest\<close>

text \<open>C8: two objects whose properties and geometry hold the same content, whatever the
  order their keys were inserted in and at any depth, get the same digest from
  \<open>_compute_hash\<close>, for every hash function applied to the serialised text.\<close>

theorem compute_hash_deterministic:
  assumes "json_eq (JObj p) (JObj p')" and "json_eq (JObj g) (JObj g')"
  shows "compute_hash md5 t p g = compute_hash md5 t p' g'"
proof -
  have "json_eq (JObj [(''type'', JStr t), (''properties'', JObj p), (''geometry'', JObj g)])
                (JObj [(''type'', JStr t), (''properties'', JObj p'), (''geometry'', JObj g')])"
    using assms by (intro json_eq.eq_obj) (auto simp: dict_wf_def dict_keys_def)
  then have "dumps (JObj [(''type'', JStr t), (''properties'', JObj p), (''geometry'', JObj g)])
           = dumps (JObj [(''type'', JStr t), (''properties'', JObj p'), (''geometry'', JObj g')])"
    by (rule dumps_json_eq)
  then show ?thesis by (simp only: compute_hash_def)
qed

theorem compute_hash_deterministic_witness:
  "json_eq (JObj [(''h'', JNum 3), (''material'', JStr ''Brick'')])
           (JObj [(''material'', JStr ''Brick''), (''h'', JNum 3)])
   \<and> json_eq (JObj [(''type'', JStr ''LineString''), (''coordinates'', JArr [JNum 0, JNum 10])])
             (JObj [(''coordinates'', JArr [JNum 0, JNum 10]), (''type'', JStr ''LineString'')])
   \<and> compute_hash (\<lambda>s. s) ''Wall'' [(''h'', JNum 3), (''material'', JStr ''Brick'')]
        [(''type'', JStr ''LineString''), (''coordinates'', JArr [JNum 0, JNum 10])]
     = compute_hash (\<lambda>s. s) ''Wall'' [(''material'', JStr ''Brick''), (''h'', JNum 3)]
        [(''coordinates'', JArr [JNum 0, JNum 10]), (''type'', JStr ''LineString'')]"
proof -
  have p: "json_eq (JObj [(''h'', JNum 3), (''material'', JStr ''Brick'')])
           (JObj [(''material'', JStr ''Brick''), (''h'', JNum 3)])"
    by (intro json_eq.eq_obj) (auto simp: dict_wf_def dict_keys_def)
  have a: "json_eq (JArr [JNum 0, JNum 10]) (JArr [JNum 0, JNum 10])"
    by (intro json_eq.eq_arr) auto
  have g: "json_eq (JObj [(''type'', JStr ''LineString''), (''coordinates'', JArr [JNum 0, JNum 10])])
             (JObj [(''coordinates'', JArr [JNum 0, JNum 10]), (''type'', JStr ''LineString'')])"
    using a by (intro json_eq.eq_obj) (auto simp: dict_wf_def dict_keys_def)
  show ?thesis using p g compute_hash_deterministic [OF p g] by simp
qed

end
