(* ===== verification/DataObject.thy ===== *)
theory DataObject
  imports ContentHash
begin

text \<open>
  The entity model of \<open>merge_engine.py\<close>: class \<open>DataObject\<close> (lines 19--66) as the
  record \<open>data_object\<close>, its constructor as \<open>new_data_object\<close>, and its dictionary
  form as the record \<open>obj_dict\<close>, whose fields are \<open>None\<close> where the key is absent.
  The external calls the constructor makes (\<open>datetime.now()\<close>, \<open>hashlib.md5\<close>, and
  \<open>uuid.uuid4()\<close> for the engine) come from a record \<open>sys_env\<close> passed to every
  operation. The lemmas show that \<open>from_dict\<close> inverts \<open>to_dict\<close>, that it raises
  \<open>KeyError\<close> exactly when \<open>"id"\<close> or \<open>"type"\<close> is missing, and that it trusts a
  supplied \<open>"hash"\<close> over the content.
\<close>

record sys_env =
  md5 :: "string \<Rightarrow> string"
  now :: timestamp
  uuid4 :: "nat \<Rightarrow> string"

record data_object =
  obj_id :: py_id
  obj_type :: string
  properties :: "(string, json) pydict"
  geometry :: "(string, json) pydict"
  source :: string
  version :: int
  timestamp :: timestamp
  hash :: string

text \<open>\<open>DataObject.__init__\<close>: version 1, the current time, the digest of the content.\<close>

definition new_data_object ::
  "sys_env \<Rightarrow> py_id \<Rightarrow> string \<Rightarrow> (string, json) pydict \<Rightarrow> (string, json) pydict \<Rightarrow> string \<Rightarrow>
   data_object" where
  "new_data_object env i t props geom src =
     \<lparr>obj_id = i, obj_type = t, properties = props, geometry = geom, source = src,
      version = 1, timestamp = now env, hash = compute_hash (md5 env) t props geom\<rparr>"

text \<open>
  A raw record as the program's dictionaries hold it (the items of a batch, the output of
  \<open>to_dict\<close> and \<open>export_to_grasshopper\<close>, the objects of a checkpoint): each field is
  \<open>None\<close> when the key is absent. The id is a \<open>py_id option\<close>, since a key
  \<open>"id"\<close> may be present with the value \<open>None\<close>. The keys \<open>"deleted"\<close> and
  \<open>"deleted_timestamp"\<close> are the soft-delete marks of \<open>gh_helper.py\<close>.
\<close>

record obj_dict =
  d_id :: "py_id option"
  d_type :: "string option"
  d_properties :: "(string, json) pydict option"
  d_geometry :: "(string, json) pydict option"
  d_version :: "int option"
  d_timestamp :: "timestamp option"
  d_hash :: "string option"
  d_source :: "string option"
  d_revit_id :: "json option"
  d_gh_guid :: "py_id option"
  d_deleted :: "bool option"
  d_deleted_timestamp :: "timestamp option"

definition empty_dict :: obj_dict where
  "empty_dict =
     \<lparr>d_id = None, d_type = None, d_properties = None, d_geometry = None, d_version = None,
      d_timestamp = None, d_hash = None, d_source = None, d_revit_id = None, d_gh_guid = None,
      d_deleted = None, d_deleted_timestamp = None\<rparr>"

text \<open>\<open>dict.get(key, default)\<close>.\<close>

abbreviation get_or :: "'a option \<Rightarrow> 'a \<Rightarrow> 'a" where
  "get_or x d \<equiv> (case x of None \<Rightarrow> d | Some v \<Rightarrow> v)"

text \<open>\<open>DataObject.to_dict\<close> (lines 42--52).\<close>

definition to_dict :: "data_object \<Rightarrow> obj_dict" where
  "to_dict obj =
     empty_dict\<lparr>d_id := Some (obj_id obj), d_type := Some (obj_type obj),
       d_properties := Some (properties obj), d_geometry := Some (geometry obj),
       d_version := Some (version obj), d_timestamp := Some (timestamp obj),
       d_hash := Some (hash obj), d_source := Some (source obj)\<rparr>"

text \<open>\<open>DataObject.from_dict\<close> (lines 54--66): \<open>data["id"]\<close> and \<open>data["type"]\<close>
  raise \<open>KeyError\<close> when absent; the other keys default. The stored version, timestamp
  and hash overwrite the ones the constructor set.\<close>

definition from_dict :: "sys_env \<Rightarrow> obj_dict \<Rightarrow> py_error + data_object" where
  "from_dict env d =
     (case d_id d of
        None \<Rightarrow> Inl KeyError
      | Some i \<Rightarrow>
          (case d_type d of
             None \<Rightarrow> Inl KeyError
           | Some t \<Rightarrow>
               (let obj = new_data_object env i t (get_or (d_properties d) [])
                            (get_or (d_geometry d) []) (get_or (d_source d) ''unknown'')
                in Inr (obj\<lparr>version := get_or (d_version d) 1,
                            timestamp := get_or (d_timestamp d) (now env),
                            hash := get_or (d_hash d) (hash obj)\<rparr>))))"

lemma from_dict_Inr_iff:
  "from_dict env d = Inr obj \<longleftrightarrow>
     (\<exists>i t. d_id d = Some i \<and> d_type d = Some t \<and>
        obj = \<lparr>obj_id = i, obj_type = t, properties = get_or (d_properties d) [],
               geometry = get_or (d_geometry d) [], source = get_or (d_source d) ''unknown'',
               version = get_or (d_version d) 1, timestamp = get_or (d_timestamp d) (now env),
               hash = get_or (d_hash d)
                 (compute_hash (md5 env) t (get_or (d_properties d) []) (get_or (d_geometry d) []))\<rparr>)"
  by (auto simp: from_dict_def new_data_object_def split: option.splits)

lemma from_dict_obj_id: "from_dict env d = Inr obj \<Longrightarrow> d_id d = Some (obj_id obj)"
  by (auto simp: from_dict_Inr_iff)

lemma from_dict_to_dict_eq [simp]: "from_dict env (to_dict obj) = Inr obj"
  by (simp add: from_dict_def to_dict_def empty_dict_def new_data_object_def)

subsection \<open>Properties of the dictionary form\<close>

text \<open>C9: \<open>from_dict\<close> inverts \<open>to_dict\<close>: writing an object to its dictionary and
  reading it back gives the same object, whatever the clock and the hash function, since
  every field is read back from the dictionary.\<close>

theorem from_dict_to_dict: "from_dict env (to_dict obj) = Inr obj"
  by (rule from_dict_to_dict_eq)

text \<open>\<open>from_dict\<close> raises \<open>KeyError\<close> exactly when the dictionary has no
  \<open>"id"\<close> or no \<open>"type"\<close> key; otherwise it returns an object whose digest is the
  supplied \<open>"hash"\<close> when there is one, even when it is not the digest of the content,
  and the digest of the content otherwise.\<close>

theorem from_dict_result:
  "from_dict env d =
     (if d_id d = None \<or> d_type d = None then Inl KeyError
      else Inr \<lparr>obj_id = the (d_id d), obj_type = the (d_type d),
                properties = get_or (d_properties d) [], geometry = get_or (d_geometry d) [],
                source = get_or (d_source d) ''unknown'', version = get_or (d_version d) 1,
                timestamp = get_or (d_timestamp d) (now env),
                hash = get_or (d_hash d) (compute_hash (md5 env) (the (d_type d))
                          (get_or (d_properties d) []) (get_or (d_geometry d) []))\<rparr>)"
  by (auto simp: from_dict_def new_data_object_def split: option.splits)

end
