(* ===== verification/Conflict.thy ===== *)
theory Conflict
  imports DataObject
begin

text \<open>
  Class \<open>ConflictResolver\<close> of \<open>merge_engine.py\<close> (lines 129--190). A three-way
  comparison of the baseline \<open>original\<close> with the Revit and the Grasshopper versions of
  an object, by digest only (\<open>detect_conflict\<close>), and a resolution (\<open>resolve\<close>) that
  returns the changed side when only one side changed, and otherwise dispatches on the
  strategy name through the dictionary \<open>strategies\<close>, falling back to last-write-wins
  for an unknown name. A resolver returns the winning object or \<open>None\<close> (the manual
  strategy), so the model's resolvers return \<open>data_object option\<close>.
  The abstract specification is the three-way outcome of the design (\<open>spec_detect\<close>):
  \<open>detect_conflict\<close> refines it exactly. \<open>resolve\<close> is characterised on every branch;
  it never builds a merged object, and on a convergent edit it returns the baseline.
\<close>

datatype conflict_type = NoConflict | OnlyGhChanged | OnlyRevitChanged | BothChanged

text \<open>The tag strings the code returns.\<close>

primrec conflict_type_name :: "conflict_type \<Rightarrow> string" where
  "conflict_type_name NoConflict = ''no_conflict''"
| "conflict_type_name OnlyGhChanged = ''only_gh_changed''"
| "conflict_type_name OnlyRevitChanged = ''only_revit_changed''"
| "conflict_type_name BothChanged = ''both_changed''"

text \<open>\<open>ConflictResolver.detect_conflict\<close> (lines 139--151).\<close>

definition detect_conflict :: "data_object \<Rightarrow> data_object \<Rightarrow> data_object \<Rightarrow> bool \<times> conflict_type" where
  "detect_conflict original revit_version gh_version =
     (if hash revit_version = hash gh_version then (False, NoConflict)
      else if hash revit_version = hash original then (False, OnlyGhChanged)
      else if hash gh_version = hash original then (False, OnlyRevitChanged)
      else (True, BothChanged))"

type_synonym resolver = "data_object \<Rightarrow> data_object \<Rightarrow> data_object \<Rightarrow> data_object option"

text \<open>\<open>_last_write_wins\<close> (lines 170--178): Revit wins only when strictly later.\<close>

definition last_write_wins :: resolver where
  "last_write_wins original revit gh =
     (if timestamp revit > timestamp gh then Some revit else Some gh)"

text \<open>\<open>_revit_priority\<close> (lines 180--184) and \<open>_manual_resolution\<close> (186--190).
  The docstring of \<open>_manual_resolution\<close> (line 188) says it "returns both versions for
  user to decide"; its code logs an error and returns \<open>None\<close>, which is what is modelled.\<close>

definition revit_priority :: resolver where
  "revit_priority original revit gh = Some revit"

definition manual_resolution :: resolver where
  "manual_resolution original revit gh = None"

text \<open>The dictionary \<open>self.strategies\<close> built by \<open>__init__\<close> (lines 132--137).\<close>

definition strategies :: "(string, resolver) pydict" where
  "strategies =
     [(''last_write_wins'', last_write_wins), (''revit_priority'', revit_priority),
      (''manual'', manual_resolution)]"

text \<open>\<open>ConflictResolver.resolve\<close> (lines 153--168).\<close>

definition resolve :: "data_object \<Rightarrow> data_object \<Rightarrow> data_object \<Rightarrow> string \<Rightarrow> data_object option" where
  "resolve original revit_version gh_version strategy =
     (let (conflict_exists, conflict_type) = detect_conflict original revit_version gh_version
      in if \<not> conflict_exists then
           (if conflict_type = OnlyGhChanged then Some gh_version
            else if conflict_type = OnlyRevitChanged then Some revit_version
            else Some original)
         else
           (case dict_get strategies strategy of
              Some resolver \<Rightarrow> resolver original revit_version gh_version
            | None \<Rightarrow> last_write_wins original revit_version gh_version))"

subsection \<open>The abstract three-way outcome\<close>

text \<open>
  The design's classification of a candidate pair against its baseline, by digests only:
  convergent edits are no change, a side equal to the baseline means only the other side
  changed, anything else is a true conflict. \<open>A\<close> is the origin (Revit), \<open>B\<close> the
  processing client (Grasshopper).
\<close>

datatype spec_outcome = NoChange | OnlyAChanged | OnlyBChanged | TrueConflict

definition spec_detect :: "string \<Rightarrow> string \<Rightarrow> string \<Rightarrow> spec_outcome" where
  "spec_detect d_original d_a d_b =
     (if d_a = d_b then NoChange
      else if d_a = d_original then OnlyBChanged
      else if d_b = d_original then OnlyAChanged
      else TrueConflict)"

primrec outcome_of :: "conflict_type \<Rightarrow> spec_outcome" where
  "outcome_of NoConflict = NoChange"
| "outcome_of OnlyGhChanged = OnlyBChanged"
| "outcome_of OnlyRevitChanged = OnlyAChanged"
| "outcome_of BothChanged = TrueConflict"

subsection \<open>Shared facts\<close>

lemma detect_conflict_cases:
  "detect_conflict b r g = (False, NoConflict) \<longleftrightarrow> hash r = hash g"
  "detect_conflict b r g = (False, OnlyGhChanged) \<longleftrightarrow> hash r \<noteq> hash g \<and> hash r = hash b"
  "detect_conflict b r g = (False, OnlyRevitChanged) \<longleftrightarrow>
     hash r \<noteq> hash g \<and> hash r \<noteq> hash b \<and> hash g = hash b"
  "detect_conflict b r g = (True, BothChanged) \<longleftrightarrow>
     hash r \<noteq> hash g \<and> hash r \<noteq> hash b \<and> hash g \<noteq> hash b"
  by (auto simp: detect_conflict_def)

lemma dict_get_strategies:
  "dict_get strategies s =
     (if s = ''last_write_wins'' then Some last_write_wins
      else if s = ''revit_priority'' then Some revit_priority
      else if s = ''manual'' then Some manual_resolution else None)"
  by (simp add: strategies_def)

lemmas resolve_unfold = resolve_def detect_conflict_def dict_get_strategies
  last_write_wins_def revit_priority_def manual_resolution_def

subsection \<open>Conflict detection\<close>

text \<open>C6: \<open>detect_conflict\<close> implements the design's three-way classification: its tag
  is the abstract outcome of the three digests, and its flag is set exactly on a true
  conflict.\<close>

theorem detect_conflict_refines_spec:
  "outcome_of (snd (detect_conflict b r g)) = spec_detect (hash b) (hash r) (hash g) \<and>
   fst (detect_conflict b r g) = (spec_detect (hash b) (hash r) (hash g) = TrueConflict)"
  by (simp add: detect_conflict_def spec_detect_def)

subsection \<open>Resolution\<close>

text \<open>C1: on a convergent edit (both sides hold the same digest) \<open>resolve\<close> returns the
  baseline, whatever the strategy: when both sides made the same change, the change is
  dropped and the object before the pass is kept.\<close>

theorem resolve_convergent_edit:
  "hash r = hash g \<Longrightarrow> resolve b r g s = Some b"
  by (simp add: resolve_unfold)

text \<open>C2: when exactly one side differs from the baseline, \<open>resolve\<close> returns that
  side's object unchanged, whatever the strategy.\<close>

theorem resolve_one_sided:
  "hash r \<noteq> hash g \<Longrightarrow>
   (hash r = hash b \<longrightarrow> resolve b r g s = Some g) \<and>
   (hash g = hash b \<longrightarrow> resolve b r g s = Some r)"
  by (auto simp: resolve_unfold)

text \<open>C3: on a true conflict \<open>resolve\<close> dispatches on the strategy name:
  \<open>revit_priority\<close> returns the Revit object, \<open>manual\<close> returns no object, and
  \<open>last_write_wins\<close> or any unknown name returns the Revit object when its timestamp is
  strictly later and the Grasshopper object otherwise. The \<open>manual\<close> case contradicts
  the docstring of \<open>_manual_resolution\<close> (line 188), which promises both versions for
  the user to decide: neither candidate is handed back, and the caller receives \<open>None\<close>
  with nothing to decide between.\<close>

theorem resolve_true_conflict:
  "hash r \<noteq> hash g \<Longrightarrow> hash r \<noteq> hash b \<Longrightarrow> hash g \<noteq> hash b \<Longrightarrow>
   resolve b r g s =
     (if s = ''revit_priority'' then Some r
      else if s = ''manual'' then None
      else if timestamp g < timestamp r then Some r else Some g)"
  by (simp add: resolve_unfold)

text \<open>Under last-write-wins a tie of timestamps goes to the Grasshopper object (a case of
  C3).\<close>

theorem resolve_lww_tie:
  "hash r \<noteq> hash g \<Longrightarrow> hash r \<noteq> hash b \<Longrightarrow> hash g \<noteq> hash b \<Longrightarrow>
   timestamp r = timestamp g \<Longrightarrow> resolve b r g ''last_write_wins'' = Some g"
  by (simp add: resolve_unfold)

text \<open>Together, C1--C3 say: \<open>resolve\<close> returns no object exactly under the manual strategy on a true
  conflict.\<close>

theorem resolve_None_iff:
  "resolve b r g s = None \<longleftrightarrow> s = ''manual'' \<and> fst (detect_conflict b r g)"
  by (auto simp: resolve_unfold)

text \<open>\<open>resolve\<close> never builds an object: what it returns is one of its three
  arguments, with that argument's version, source and timestamp.\<close>

theorem resolve_returns_argument:
  "resolve b r g s = Some x \<Longrightarrow> x = b \<or> x = r \<or> x = g"
  by (auto simp: resolve_unfold split: if_splits)

subsection \<open>The design's wall scenario\<close>

text \<open>
  The scenario of the design: wall \<open>w1\<close> with height 3 and a two-point line as
  geometry, version 1, is the baseline; the Revit side changes the height to 4 (version 2);
  the Grasshopper side leaves it, changes it to 5, or makes the same change to 4. The
  digests are computed by \<open>_compute_hash\<close> with the identity as hash function, so that
  two digests are equal exactly when the serialised contents are.
\<close>

definition wall_geom :: "(string, json) pydict" where
  "wall_geom =
     [(''type'', JStr ''LineString''),
      (''coordinates'', JArr [JArr [JNum 0, JNum 0], JArr [JNum 10, JNum 0]])]"

definition wall_at :: "timestamp \<Rightarrow> int \<Rightarrow> string \<Rightarrow> int \<Rightarrow> data_object" where
  "wall_at t h src v =
     (new_data_object \<lparr>md5 = (\<lambda>s. s), now = t, uuid4 = (\<lambda>n. [])\<rparr> (Some ''w1'') ''Wall''
        [(''h'', JNum h)] wall_geom src)\<lparr>version := v\<rparr>"

lemma hash_wall_at: "hash (wall_at t h src v) = compute_hash (\<lambda>s. s) ''Wall'' [(''h'', JNum h)] wall_geom"
  by (simp add: wall_at_def new_data_object_def)

lemma version_wall_at: "version (wall_at t h src v) = v"
  and timestamp_wall_at: "timestamp (wall_at t h src v) = t"
  by (simp_all add: wall_at_def new_data_object_def)

lemma hash_wall_at_inj: "h \<noteq> h' \<Longrightarrow> h \<in> {3, 4, 5} \<Longrightarrow> h' \<in> {3, 4, 5} \<Longrightarrow>
    hash (wall_at t h src v) \<noteq> hash (wall_at t' h' src' v')"
  unfolding hash_wall_at by (elim insertE emptyE; simp; code_simp)

lemmas wall_hashes = hash_wall_at_inj [of 3 4] hash_wall_at_inj [of 4 3] hash_wall_at_inj [of 3 5]
  hash_wall_at_inj [of 5 3] hash_wall_at_inj [of 4 5] hash_wall_at_inj [of 5 4]

theorem resolve_convergent_edit_witness:
  "hash (wall_at 2 4 ''revit'' 2) = hash (wall_at 3 4 ''grasshopper'' 2)
   \<and> hash (wall_at 1 3 ''revit'' 1) \<noteq> hash (wall_at 2 4 ''revit'' 2)
   \<and> resolve (wall_at 1 3 ''revit'' 1) (wall_at 2 4 ''revit'' 2) (wall_at 3 4 ''grasshopper'' 2)
       ''last_write_wins'' = Some (wall_at 1 3 ''revit'' 1)"
proof -
  have h: "hash (wall_at 2 4 ''revit'' 2) = hash (wall_at 3 4 ''grasshopper'' 2)"
    by (simp add: hash_wall_at)
  show ?thesis using h resolve_convergent_edit [OF h] wall_hashes by simp
qed

theorem resolve_one_sided_witness:
  "hash (wall_at 2 4 ''revit'' 2) \<noteq> hash (wall_at 3 3 ''grasshopper'' 1)
   \<and> resolve (wall_at 1 3 ''revit'' 1) (wall_at 2 4 ''revit'' 2) (wall_at 3 3 ''grasshopper'' 1)
       ''manual'' = Some (wall_at 2 4 ''revit'' 2)
   \<and> version (wall_at 2 4 ''revit'' 2) = 2"
proof -
  have n: "hash (wall_at 2 4 ''revit'' 2) \<noteq> hash (wall_at 3 3 ''grasshopper'' 1)"
    using wall_hashes by simp
  show ?thesis
    using n resolve_one_sided [OF n, of "wall_at 1 3 ''revit'' 1" "''manual''"]
    by (simp add: hash_wall_at version_wall_at)
qed

theorem resolve_true_conflict_witness:
  "hash (wall_at 2 4 ''revit'' 2) \<noteq> hash (wall_at 3 5 ''grasshopper'' 2)
   \<and> hash (wall_at 2 4 ''revit'' 2) \<noteq> hash (wall_at 1 3 ''revit'' 1)
   \<and> hash (wall_at 3 5 ''grasshopper'' 2) \<noteq> hash (wall_at 1 3 ''revit'' 1)
   \<and> resolve (wall_at 1 3 ''revit'' 1) (wall_at 2 4 ''revit'' 2) (wall_at 3 5 ''grasshopper'' 2)
       ''revit_priority'' = Some (wall_at 2 4 ''revit'' 2)
   \<and> resolve (wall_at 1 3 ''revit'' 1) (wall_at 2 4 ''revit'' 2) (wall_at 3 5 ''grasshopper'' 2)
       ''last_write_wins'' = Some (wall_at 3 5 ''grasshopper'' 2)"
proof -
  have n1: "hash (wall_at 2 4 ''revit'' 2) \<noteq> hash (wall_at 3 5 ''grasshopper'' 2)"
    and n2: "hash (wall_at 2 4 ''revit'' 2) \<noteq> hash (wall_at 1 3 ''revit'' 1)"
    and n3: "hash (wall_at 3 5 ''grasshopper'' 2) \<noteq> hash (wall_at 1 3 ''revit'' 1)"
    using wall_hashes by simp_all
  show ?thesis
    using n1 n2 n3 resolve_true_conflict [OF n1 n2 n3, of "''revit_priority''"]
      resolve_true_conflict [OF n1 n2 n3, of "''last_write_wins''"]
    by (simp add: timestamp_wall_at)
qed

theorem resolve_lww_tie_witness:
  "hash (wall_at 2 4 ''revit'' 2) \<noteq> hash (wall_at 2 5 ''grasshopper'' 2)
   \<and> hash (wall_at 2 4 ''revit'' 2) \<noteq> hash (wall_at 1 3 ''revit'' 1)
   \<and> hash (wall_at 2 5 ''grasshopper'' 2) \<noteq> hash (wall_at 1 3 ''revit'' 1)
   \<and> timestamp (wall_at 2 4 ''revit'' 2) = timestamp (wall_at 2 5 ''grasshopper'' 2)
   \<and> resolve (wall_at 1 3 ''revit'' 1) (wall_at 2 4 ''revit'' 2) (wall_at 2 5 ''grasshopper'' 2)
       ''last_write_wins'' = Some (wall_at 2 5 ''grasshopper'' 2)"
proof -
  have n1: "hash (wall_at 2 4 ''revit'' 2) \<noteq> hash (wall_at 2 5 ''grasshopper'' 2)"
    and n2: "hash (wall_at 2 4 ''revit'' 2) \<noteq> hash (wall_at 1 3 ''revit'' 1)"
    and n3: "hash (wall_at 2 5 ''grasshopper'' 2) \<noteq> hash (wall_at 1 3 ''revit'' 1)"
    using wall_hashes by simp_all
  have t: "timestamp (wall_at 2 4 ''revit'' 2) = timestamp (wall_at 2 5 ''grasshopper'' 2)"
    by (simp add: timestamp_wall_at)
  show ?thesis using n1 n2 n3 t resolve_lww_tie [OF n1 n2 n3 t] by simp
qed

theorem resolve_None_iff_witness:
  "resolve (wall_at 1 3 ''revit'' 1) (wall_at 2 4 ''revit'' 2) (wall_at 3 5 ''grasshopper'' 2)
     ''manual'' = None"
proof -
  have "fst (detect_conflict (wall_at 1 3 ''revit'' 1) (wall_at 2 4 ''revit'' 2)
              (wall_at 3 5 ''grasshopper'' 2))"
    using wall_hashes by (simp add: detect_conflict_def)
  then show ?thesis by (simp add: resolve_None_iff)
qed

theorem resolve_returns_argument_witness:
  "resolve (wall_at 1 3 ''revit'' 1) (wall_at 2 4 ''revit'' 2) (wall_at 3 5 ''grasshopper'' 2)
     ''revit_priority'' = Some (wall_at 2 4 ''revit'' 2)
   \<and> (wall_at 2 4 ''revit'' 2 = wall_at 1 3 ''revit'' 1 \<or> wall_at 2 4 ''revit'' 2 = wall_at 2 4 ''revit'' 2
      \<or> wall_at 2 4 ''revit'' 2 = wall_at 3 5 ''grasshopper'' 2)"
proof -
  have r: "resolve (wall_at 1 3 ''revit'' 1) (wall_at 2 4 ''revit'' 2) (wall_at 3 5 ''grasshopper'' 2)
     ''revit_priority'' = Some (wall_at 2 4 ''revit'' 2)"
    using wall_hashes by (simp add: resolve_unfold)
  show ?thesis using r resolve_returns_argument [OF r] by simp
qed

end
