(* ===== verification/Ledger.thy ===== *)
theory Ledger
  imports DataObject
begin

text \<open>
  Class \<open>SyncMetadata\<close> of \<open>merge_engine.py\<close> (lines 69--126): the synchronisation
  ledger. Its data is the dictionary \<open>{"version", "created", "objects", "sync_history"}\<close>,
  modelled as the record \<open>ledger_data\<close>; the per-object entries of \<open>"objects"\<close> are
  \<open>obj_meta\<close> records and the events of \<open>"sync_history"\<close> are \<open>sync_event\<close>
  records. The metadata file is a \<open>file_state\<close>: missing, unreadable, or holding the
  ledger last written by \<open>save\<close>. The lemmas show that \<open>register_object\<close> records the
  object's digest as the baseline, that \<open>add_sync_event\<close> only appends, and that
  \<open>_load\<close> replaces an unreadable file by an empty ledger.
\<close>

record obj_meta =
  gh_guid :: py_id
  revit_id :: json
  m_type :: string
  m_version :: int
  m_timestamp :: timestamp
  m_hash :: string
  m_source :: string

record sync_event =
  ev_timestamp :: timestamp
  ev_type :: string
  ev_object_id :: py_id
  ev_from :: string
  ev_to :: string
  ev_status :: string
  ev_details :: string

record ledger_data =
  lg_version :: int
  lg_created :: timestamp
  lg_objects :: "(py_id, obj_meta) pydict"
  lg_history :: "sync_event list"

record sync_metadata =
  md_data :: ledger_data
  md_file :: "ledger_data file_state"

text \<open>The default data of \<open>_load\<close> (lines 84--89).\<close>

definition fresh_ledger :: "timestamp \<Rightarrow> ledger_data" where
  "fresh_ledger t = \<lparr>lg_version = 1, lg_created = t, lg_objects = [], lg_history = []\<rparr>"

text \<open>\<open>SyncMetadata._load\<close> (lines 76--89): a readable file gives its ledger; a missing
  file, or one \<open>json.load\<close> fails on (the bare \<open>except\<close> only logs a warning), gives
  a fresh ledger.\<close>

definition load_ledger :: "timestamp \<Rightarrow> ledger_data file_state \<Rightarrow> ledger_data" where
  "load_ledger t f = (case f of Stored d \<Rightarrow> d | Missing \<Rightarrow> fresh_ledger t | Corrupt \<Rightarrow> fresh_ledger t)"

text \<open>\<open>SyncMetadata.__init__\<close> (lines 72--74).\<close>

definition init_metadata :: "timestamp \<Rightarrow> ledger_data file_state \<Rightarrow> sync_metadata" where
  "init_metadata t f = \<lparr>md_data = load_ledger t f, md_file = f\<rparr>"

text \<open>\<open>SyncMetadata.save\<close> (lines 91--96): the whole data is written to the file.\<close>

definition save_metadata :: "sync_metadata \<Rightarrow> sync_metadata" where
  "save_metadata m = m\<lparr>md_file := Stored (md_data m)\<rparr>"

text \<open>\<open>revit_id or f"rev_{obj.id[:8]}"\<close>: \<open>or\<close> keeps a true value and otherwise
  evaluates the default, whose slice raises \<open>TypeError\<close> on \<open>None\<close>.\<close>

definition revit_id_or_default :: "json option \<Rightarrow> py_id \<Rightarrow> py_error + json" where
  "revit_id_or_default rid i =
     (let default_rid = (case i of None \<Rightarrow> Inl TypeError | Some s \<Rightarrow> Inr (JStr (''rev_'' @ take 8 s)))
      in case rid of
           Some r \<Rightarrow> if py_truthy r then Inr r else default_rid
         | None \<Rightarrow> default_rid)"

text \<open>\<open>SyncMetadata.register_object\<close> (lines 98--108): the entry of the object's id is
  overwritten with its mapping info, version, timestamp, digest and source.\<close>

definition register_object ::
  "data_object \<Rightarrow> json option \<Rightarrow> sync_metadata \<Rightarrow> py_error + sync_metadata" where
  "register_object obj rid m =
     (case revit_id_or_default rid (obj_id obj) of
        Inl e \<Rightarrow> Inl e
      | Inr r \<Rightarrow>
          Inr (m\<lparr>md_data := (md_data m)\<lparr>lg_objects := dict_set (lg_objects (md_data m)) (obj_id obj)
                 \<lparr>gh_guid = obj_id obj, revit_id = r, m_type = obj_type obj,
                  m_version = version obj, m_timestamp = timestamp obj, m_hash = hash obj,
                  m_source = source obj\<rparr>\<rparr>\<rparr>))"

text \<open>\<open>SyncMetadata.get_object_meta\<close> (lines 110--111).\<close>

definition get_object_meta :: "sync_metadata \<Rightarrow> py_id \<Rightarrow> obj_meta option" where
  "get_object_meta m i = dict_get (lg_objects (md_data m)) i"

text \<open>\<open>SyncMetadata.add_sync_event\<close> (lines 113--126): the event is appended to the
  history.\<close>

definition add_sync_event ::
  "timestamp \<Rightarrow> string \<Rightarrow> py_id \<Rightarrow> string \<Rightarrow> string \<Rightarrow> string \<Rightarrow> string \<Rightarrow> sync_metadata \<Rightarrow>
   sync_metadata" where
  "add_sync_event t event_type oid src target status details m =
     m\<lparr>md_data := (md_data m)\<lparr>lg_history := lg_history (md_data m) @
        [\<lparr>ev_timestamp = t, ev_type = event_type, ev_object_id = oid, ev_from = src,
          ev_to = target, ev_status = status, ev_details = details\<rparr>]\<rparr>\<rparr>"

subsection \<open>Facts the engine's proofs use\<close>

named_theorems ledger_simps "effects of the ledger operations on its parts"

lemma add_sync_event_objects [simp, ledger_simps]:
  "lg_objects (md_data (add_sync_event t ty i src tgt st d m)) = lg_objects (md_data m)"
  "md_file (add_sync_event t ty i src tgt st d m) = md_file m"
  by (simp_all add: add_sync_event_def)

lemma add_sync_event_history [simp, ledger_simps]:
  "lg_history (md_data (add_sync_event t ty i src tgt st d m)) =
     lg_history (md_data m) @ [\<lparr>ev_timestamp = t, ev_type = ty, ev_object_id = i, ev_from = src,
        ev_to = tgt, ev_status = st, ev_details = d\<rparr>]"
  by (simp add: add_sync_event_def)

lemma get_object_meta_add_sync_event [simp, ledger_simps]:
  "get_object_meta (add_sync_event t ty i src tgt st d m) = get_object_meta m"
  by (simp add: get_object_meta_def fun_eq_iff)

lemma save_metadata_parts [simp, ledger_simps]:
  "md_data (save_metadata m) = md_data m"
  "md_file (save_metadata m) = Stored (md_data m)"
  "get_object_meta (save_metadata m) = get_object_meta m"
  by (simp_all add: save_metadata_def get_object_meta_def fun_eq_iff)

lemma register_object_Inr:
  "register_object obj rid m = Inr m' \<Longrightarrow>
   \<exists>r. revit_id_or_default rid (obj_id obj) = Inr r \<and>
     get_object_meta m' = (get_object_meta m)(obj_id obj \<mapsto>
       \<lparr>gh_guid = obj_id obj, revit_id = r, m_type = obj_type obj, m_version = version obj,
        m_timestamp = timestamp obj, m_hash = hash obj, m_source = source obj\<rparr>) \<and>
     lg_history (md_data m') = lg_history (md_data m) \<and> md_file m' = md_file m"
  by (auto simp: register_object_def get_object_meta_def split: sum.splits)

text \<open>Whether \<open>item.get("revit_id")\<close> is true.\<close>

definition rid_truthy :: "json option \<Rightarrow> bool" where
  "rid_truthy rid = (case rid of None \<Rightarrow> False | Some r \<Rightarrow> py_truthy r)"

lemma register_object_Inl:
  "register_object obj rid m = Inl e \<longleftrightarrow>
     e = TypeError \<and> obj_id obj = None \<and> \<not> rid_truthy rid"
  by (auto simp: register_object_def revit_id_or_default_def rid_truthy_def Let_def
           split: option.splits sum.splits)

lemma load_ledger_save [simp, ledger_simps]:
  "load_ledger t (md_file (save_metadata m)) = md_data m"
  by (simp add: load_ledger_def)

end
