(* ===== verification/Engine.thy ===== *)
theory Engine
  imports Conflict Ledger
begin

text \<open>
  Class \<open>SyncEngine\<close> of \<open>merge_engine.py\<close> (lines 193--339). Its state is the record
  \<open>engine\<close>: the dictionary \<open>objects\<close> from ids to objects, in insertion order, and
  the \<open>SyncMetadata\<close> ledger. Each method is a function of the state (and of a
  \<open>sys_env\<close> for the clock, MD5 and \<open>uuid4\<close>); a method whose loop may raise returns an
  \<open>outcome\<close> holding the state reached when the exception escaped, since the Python
  object keeps the mutations made before it. A batch item is an \<open>obj_dict\<close>; the
  \<open>i\<close>-th item of a Revit batch draws \<open>uuid4 env i\<close>, since the default of
  \<open>item.get("id", str(uuid.uuid4()))\<close> is evaluated for every item.
\<close>

record engine =
  objects :: "(py_id, data_object) pydict"
  metadata :: sync_metadata

text \<open>\<open>SyncEngine.__init__\<close> (lines 196--202), over the metadata file's state.\<close>

definition init_engine :: "timestamp \<Rightarrow> ledger_data file_state \<Rightarrow> engine" where
  "init_engine t f = \<lparr>objects = [], metadata = init_metadata t f\<rparr>"

subsection \<open>Import from Revit\<close>

text \<open>The id and the object the loop of \<open>import_from_revit\<close> builds for the
  \<open>n\<close>-th item (lines 209--216).\<close>

definition revit_oid :: "sys_env \<Rightarrow> nat \<Rightarrow> obj_dict \<Rightarrow> py_id" where
  "revit_oid env n item = (case d_id item of None \<Rightarrow> Some (uuid4 env n) | Some v \<Rightarrow> v)"

definition revit_object :: "sys_env \<Rightarrow> nat \<Rightarrow> obj_dict \<Rightarrow> data_object" where
  "revit_object env n item =
     new_data_object env (revit_oid env n item) (get_or (d_type item) ''Unknown'')
       (get_or (d_properties item) []) (get_or (d_geometry item) []) ''revit''"

text \<open>The body of the loop (lines 208--223): store the object, register it in the
  ledger (which may raise), log the event.\<close>

definition import_revit_item :: "sys_env \<Rightarrow> engine \<Rightarrow> nat \<times> obj_dict \<Rightarrow> (data_object, engine) outcome" where
  "import_revit_item env s ni =
     (let (n, item) = ni;
          oid = revit_oid env n item;
          obj = revit_object env n item;
          s1 = s\<lparr>objects := dict_set (objects s) oid obj\<rparr>
      in case register_object obj (d_revit_id item) (metadata s1) of
           Inl e \<Rightarrow> Raised e s1
         | Inr m \<Rightarrow>
             Ok obj (s1\<lparr>metadata := add_sync_event (now env) ''import'' oid ''revit'' ''local''
                                      ''success'' [] m\<rparr>))"

text \<open>\<open>SyncEngine.import_from_revit\<close> (lines 204--226): the loop, then \<open>save()\<close>.\<close>

definition import_from_revit :: "sys_env \<Rightarrow> obj_dict list \<Rightarrow> engine \<Rightarrow> (data_object list, engine) outcome" where
  "import_from_revit env revit_data s =
     (case run_items (import_revit_item env) s (enumerate 0 revit_data) of
        Ok imported s' \<Rightarrow> Ok imported (s'\<lparr>metadata := save_metadata (metadata s')\<rparr>)
      | Raised e s' \<Rightarrow> Raised e s')"

subsection \<open>Export to Grasshopper\<close>

text \<open>\<open>SyncEngine.export_to_grasshopper\<close> (lines 228--244): one record per object, in
  the dictionary's order.\<close>

definition export_record :: "engine \<Rightarrow> py_id \<times> data_object \<Rightarrow> obj_dict" where
  "export_record s kv =
     (let (k, obj) = kv; meta = get_object_meta (metadata s) k
      in empty_dict\<lparr>d_id := Some (obj_id obj),
           d_gh_guid := Some (case meta of Some m \<Rightarrow> gh_guid m | None \<Rightarrow> obj_id obj),
           d_type := Some (obj_type obj), d_properties := Some (properties obj),
           d_geometry := Some (geometry obj), d_version := Some (version obj),
           d_timestamp := Some (timestamp obj)\<rparr>)"

definition export_to_grasshopper :: "engine \<Rightarrow> obj_dict list" where
  "export_to_grasshopper s = map (export_record s) (objects s)"

subsection \<open>Import from Grasshopper\<close>

text \<open>The body of the loop of \<open>import_from_grasshopper\<close> (lines 248--274): an unseen id
  creates an object; a known id is replaced by \<open>from_dict(item)\<close>, which may raise, with
  source \<open>"grasshopper"\<close> and the old version plus one. The ledger's entry is not
  touched; only an event is logged.\<close>

definition import_gh_item :: "sys_env \<Rightarrow> engine \<Rightarrow> obj_dict \<Rightarrow> (unit, engine) outcome" where
  "import_gh_item env s item =
     (let oid = (case d_id item of None \<Rightarrow> None | Some v \<Rightarrow> v)
      in case dict_get (objects s) oid of
           None \<Rightarrow>
             (let obj = new_data_object env oid (get_or (d_type item) ''Unknown'')
                          (get_or (d_properties item) []) (get_or (d_geometry item) []) ''grasshopper''
              in Ok () (s\<lparr>objects := dict_set (objects s) oid obj,
                          metadata := add_sync_event (now env) ''create'' oid ''grasshopper''
                                        ''local'' ''success'' [] (metadata s)\<rparr>))
         | Some old_obj \<Rightarrow>
             (case from_dict env item of
                Inl e \<Rightarrow> Raised e s
              | Inr new_obj \<Rightarrow>
                  Ok () (s\<lparr>objects := dict_set (objects s) oid
                             (new_obj\<lparr>source := ''grasshopper'', version := version old_obj + 1\<rparr>),
                           metadata := add_sync_event (now env) ''update'' oid ''grasshopper''
                                         ''local'' ''success'' [] (metadata s)\<rparr>)))"

text \<open>\<open>SyncEngine.import_from_grasshopper\<close> (lines 246--276).\<close>

definition import_from_grasshopper :: "sys_env \<Rightarrow> obj_dict list \<Rightarrow> engine \<Rightarrow> (unit, engine) outcome" where
  "import_from_grasshopper env gh_data s =
     (case run_items (import_gh_item env) s gh_data of
        Ok _ s' \<Rightarrow> Ok () (s'\<lparr>metadata := save_metadata (metadata s')\<rparr>)
      | Raised e s' \<Rightarrow> Raised e s')"

subsection \<open>The synchronisation pass\<close>

text \<open>\<open>_check_conflicts\<close> (lines 297--301) returns no conflict; \<open>_resolve_conflicts\<close>
  (lines 303--307) only logs each one, so it leaves the state as it is.\<close>

definition check_conflicts :: "engine \<Rightarrow> (py_id \<times> string) list" where
  "check_conflicts s = []"

definition resolve_conflicts :: "(py_id \<times> string) list \<Rightarrow> engine \<Rightarrow> engine" where
  "resolve_conflicts conflicts s = s"

text \<open>\<open>SyncEngine.sync_revit_to_gh\<close> (lines 278--295).\<close>

definition sync_revit_to_gh :: "sys_env \<Rightarrow> obj_dict list \<Rightarrow> engine \<Rightarrow> (obj_dict list, engine) outcome" where
  "sync_revit_to_gh env revit_data s =
     (case import_from_revit env revit_data s of
        Raised e s' \<Rightarrow> Raised e s'
      | Ok _ s1 \<Rightarrow>
          (let conflicts = check_conflicts s1;
               s2 = (if conflicts \<noteq> [] then resolve_conflicts conflicts s1 else s1)
           in Ok (export_to_grasshopper s2) s2))"

subsection \<open>Queries and checkpoints\<close>

text \<open>\<open>get_object\<close> and \<open>list_objects\<close> (lines 309--313).\<close>

definition get_object :: "engine \<Rightarrow> py_id \<Rightarrow> data_object option" where
  "get_object s i = dict_get (objects s) i"

definition list_objects :: "engine \<Rightarrow> data_object list" where
  "list_objects s = map snd (objects s)"

text \<open>A checkpoint file as \<open>save_state\<close> writes it: the objects' dictionaries and the
  ledger data.\<close>

record checkpoint =
  cp_objects :: "obj_dict list"
  cp_metadata :: ledger_data

text \<open>\<open>SyncEngine.save_state\<close> (lines 315--324): the content written to the file.\<close>

definition save_state :: "engine \<Rightarrow> checkpoint" where
  "save_state s = \<lparr>cp_objects = map (to_dict \<circ> snd) (objects s), cp_metadata = md_data (metadata s)\<rparr>"

text \<open>\<open>SyncEngine.load_state\<close> (lines 326--339): a missing file leaves the state; an
  unreadable one makes \<open>json.load\<close> raise; otherwise each object read back by
  \<open>from_dict\<close> (which may raise) is stored under its id. The ledger is not loaded.\<close>

definition load_state_item :: "sys_env \<Rightarrow> engine \<Rightarrow> obj_dict \<Rightarrow> (unit, engine) outcome" where
  "load_state_item env s d =
     (case from_dict env d of
        Inl e \<Rightarrow> Raised e s
      | Inr obj \<Rightarrow> Ok () (s\<lparr>objects := dict_set (objects s) (obj_id obj) obj\<rparr>))"

definition load_state :: "sys_env \<Rightarrow> checkpoint file_state \<Rightarrow> engine \<Rightarrow> (unit, engine) outcome" where
  "load_state env f s =
     (case f of
        Missing \<Rightarrow> Ok () s
      | Corrupt \<Rightarrow> Raised JSONDecodeError s
      | Stored cp \<Rightarrow>
          (case run_items (load_state_item env) s (cp_objects cp) of
             Ok _ s' \<Rightarrow> Ok () s'
           | Raised e s' \<Rightarrow> Raised e s'))"

subsection \<open>Well-formedness\<close>

text \<open>The object dictionary has each id once and stores every object under its own id.\<close>

definition engine_wf :: "engine \<Rightarrow> bool" where
  "engine_wf s \<longleftrightarrow> dict_wf (objects s) \<and> (\<forall>k obj. (k, obj) \<in> set (objects s) \<longrightarrow> obj_id obj = k)"

lemma engine_wf_store [intro]:
  "engine_wf s \<Longrightarrow> obj_id obj = k \<Longrightarrow> engine_wf (s\<lparr>objects := dict_set (objects s) k obj, metadata := m\<rparr>)"
  "engine_wf s \<Longrightarrow> obj_id obj = k \<Longrightarrow> engine_wf (s\<lparr>objects := dict_set (objects s) k obj\<rparr>)"
  by (auto simp: engine_wf_def dest: dict_set_member)

lemma engine_wf_metadata [simp]: "engine_wf (s\<lparr>metadata := m\<rparr>) = engine_wf s"
  by (simp add: engine_wf_def)

lemma revit_object_id [simp]: "obj_id (revit_object env n item) = revit_oid env n item"
  by (simp add: revit_object_def new_data_object_def)

lemma import_revit_item_wf: "engine_wf s \<Longrightarrow> engine_wf (outcome_state (import_revit_item env s ni))"
  by (cases ni) (auto simp: import_revit_item_def Let_def split: sum.splits)

lemma import_gh_item_wf: "engine_wf s \<Longrightarrow> engine_wf (outcome_state (import_gh_item env s item))"
  by (auto simp: import_gh_item_def Let_def new_data_object_def from_dict_Inr_iff
           split: option.splits sum.splits)

lemma load_state_item_wf: "engine_wf s \<Longrightarrow> engine_wf (outcome_state (load_state_item env s d))"
  by (auto simp: load_state_item_def split: sum.splits)

lemma engine_wf_init [simp]: "engine_wf (init_engine t f)"
  by (simp add: engine_wf_def init_engine_def)

lemma import_from_revit_wf: "engine_wf s \<Longrightarrow> engine_wf (outcome_state (import_from_revit env items s))"
  using run_items_invariant [of engine_wf "import_revit_item env", OF import_revit_item_wf]
  by (auto simp: import_from_revit_def split: outcome.splits) (metis outcome_state.simps)+

lemma import_from_grasshopper_wf:
  "engine_wf s \<Longrightarrow> engine_wf (outcome_state (import_from_grasshopper env items s))"
  using run_items_invariant [of engine_wf "import_gh_item env", OF import_gh_item_wf]
  by (auto simp: import_from_grasshopper_def split: outcome.splits) (metis outcome_state.simps)+

lemma load_state_wf: "engine_wf s \<Longrightarrow> engine_wf (outcome_state (load_state env f s))"
  using run_items_invariant [of engine_wf "load_state_item env", OF load_state_item_wf]
  by (auto simp: load_state_def split: outcome.splits file_state.splits) (metis outcome_state.simps)+

lemma sync_revit_to_gh_state:
  "outcome_state (sync_revit_to_gh env items s) = outcome_state (import_from_revit env items s)"
  by (simp add: sync_revit_to_gh_def check_conflicts_def split: outcome.splits)

subsection \<open>The engine as a state machine\<close>

text \<open>The state-changing methods a caller (the pipeline, a Grasshopper script) can invoke
  on an engine, and the state each leaves, whether it returned or raised.\<close>

datatype engine_op =
    ImportRevit sys_env "obj_dict list"
  | ImportGh sys_env "obj_dict list"
  | SyncPass sys_env "obj_dict list"
  | LoadState sys_env "checkpoint file_state"

fun engine_step :: "engine \<Rightarrow> engine_op \<Rightarrow> engine" where
  "engine_step s (ImportRevit env xs) = outcome_state (import_from_revit env xs s)"
| "engine_step s (ImportGh env xs) = outcome_state (import_from_grasshopper env xs s)"
| "engine_step s (SyncPass env xs) = outcome_state (sync_revit_to_gh env xs s)"
| "engine_step s (LoadState env f) = outcome_state (load_state env f s)"

text \<open>The states an engine reaches from its construction over any metadata file.\<close>

inductive reachable_engine :: "engine \<Rightarrow> bool" where
  init: "reachable_engine (init_engine t f)"
| step: "reachable_engine s \<Longrightarrow> reachable_engine (engine_step s op)"

lemma engine_step_wf: "engine_wf s \<Longrightarrow> engine_wf (engine_step s op)"
  by (cases op) (simp_all add: import_from_revit_wf import_from_grasshopper_wf load_state_wf
                    sync_revit_to_gh_state)

text \<open>C11: in every state an engine reaches, its object dictionary has each id once and
  stores each object under its own id.\<close>

theorem reachable_engine_wf: "reachable_engine s \<Longrightarrow> engine_wf s"
proof (induction rule: reachable_engine.induct)
  case (init t f)
  show ?case by simp
next
  case (step s op)
  from step.IH show ?case by (rule engine_step_wf)
qed

subsection \<open>The audit trail only grows\<close>

abbreviation history :: "engine \<Rightarrow> sync_event list" where
  "history s \<equiv> lg_history (md_data (metadata s))"

lemma run_items_history:
  assumes "\<And>s i. prefix (history s) (history (outcome_state (f s i)))"
  shows "prefix (history s) (history (outcome_state (run_items f s is)))"
  by (rule run_items_trans [where R = "\<lambda>a b. prefix (history a) (history b)"])
     (auto intro: assms elim: prefix_order.trans)

lemma import_revit_item_history: "prefix (history s) (history (outcome_state (import_revit_item env s ni)))"
  by (cases ni) (auto simp: import_revit_item_def Let_def dest: register_object_Inr split: sum.splits)

lemma import_gh_item_history: "prefix (history s) (history (outcome_state (import_gh_item env s item)))"
  by (auto simp: import_gh_item_def Let_def split: option.splits sum.splits)

lemma load_state_item_history: "prefix (history s) (history (outcome_state (load_state_item env s d)))"
  by (auto simp: load_state_item_def split: sum.splits)

text \<open>C12: no method of the engine removes or rewrites an event of the synchronisation
  history: the history before a step is a prefix of the history after it, whether the
  method returned or raised.\<close>

theorem engine_step_history_prefix: "prefix (history s) (history (engine_step s op))"
proof (cases op)
  case (ImportRevit env xs)
  have "prefix (history s) (history (outcome_state (run_items (import_revit_item env) s (enumerate 0 xs))))"
    by (rule run_items_history) (rule import_revit_item_history)
  with ImportRevit show ?thesis by (auto simp: import_from_revit_def split: outcome.splits)
next
  case (ImportGh env xs)
  have "prefix (history s) (history (outcome_state (run_items (import_gh_item env) s xs)))"
    by (rule run_items_history) (rule import_gh_item_history)
  with ImportGh show ?thesis by (auto simp: import_from_grasshopper_def split: outcome.splits)
next
  case (SyncPass env xs)
  have "prefix (history s) (history (outcome_state (run_items (import_revit_item env) s (enumerate 0 xs))))"
    by (rule run_items_history) (rule import_revit_item_history)
  with SyncPass show ?thesis
    by (auto simp: sync_revit_to_gh_state import_from_revit_def split: outcome.splits)
next
  case (LoadState env f)
  show ?thesis
  proof (cases f)
    case (Stored cp)
    have "prefix (history s) (history (outcome_state (run_items (load_state_item env) s (cp_objects cp))))"
      by (rule run_items_history) (rule load_state_item_history)
    with LoadState Stored show ?thesis by (auto simp: load_state_def split: outcome.splits)
  qed (simp_all add: LoadState load_state_def)
qed

subsection \<open>The ledger baseline\<close>

text \<open>The ledger agrees with the engine at an id when both hold an entry for it and the
  ledger's digest and version are the object's: the baseline the design's conflict check
  reads.\<close>

definition ledger_agrees :: "engine \<Rightarrow> py_id \<Rightarrow> bool" where
  "ledger_agrees s k \<longleftrightarrow>
     (\<exists>obj m. get_object s k = Some obj \<and> get_object_meta (metadata s) k = Some m \<and>
        m_hash m = hash obj \<and> m_version m = version obj)"

text \<open>An id imported from Revit: the ledger agrees and the object is a version 1 from
  Revit.\<close>

definition revit_fresh :: "engine \<Rightarrow> py_id \<Rightarrow> bool" where
  "revit_fresh s k \<longleftrightarrow>
     ledger_agrees s k \<and> (\<exists>obj. get_object s k = Some obj \<and> version obj = 1 \<and> source obj = ''revit'')"

lemma import_revit_item_Ok:
  assumes "import_revit_item env s (n, item) = Ok a s1"
  shows "revit_fresh s1 (revit_oid env n item) \<and> (\<forall>k. revit_fresh s k \<longrightarrow> revit_fresh s1 k) \<and>
    (\<forall>k. ledger_agrees s k \<longrightarrow> ledger_agrees s1 k)"
proof -
  let ?obj = "revit_object env n item"
  from assms obtain m where reg: "register_object ?obj (d_revit_id item) (metadata s) = Inr m"
    and s1: "s1 = s\<lparr>objects := dict_set (objects s) (revit_oid env n item) ?obj,
                   metadata := add_sync_event (now env) ''import'' (revit_oid env n item) ''revit''
                                 ''local'' ''success'' [] m\<rparr>"
    by (auto simp: import_revit_item_def Let_def split: sum.splits)
  from register_object_Inr [OF reg] obtain r where
    meta: "get_object_meta m = (get_object_meta (metadata s))(revit_oid env n item \<mapsto>
       \<lparr>gh_guid = revit_oid env n item, revit_id = r, m_type = obj_type ?obj,
        m_version = version ?obj, m_timestamp = timestamp ?obj, m_hash = hash ?obj,
        m_source = source ?obj\<rparr>)"
    by auto
  have ver: "version ?obj = 1" and src: "source ?obj = ''revit''"
    by (simp_all add: revit_object_def new_data_object_def)
  show ?thesis
    using meta ver src
    by (auto simp: s1 revit_fresh_def ledger_agrees_def get_object_def)
qed

lemma run_import_revit_Ok:
  "run_items (import_revit_item env) s nis = Ok objs s' \<Longrightarrow>
   (\<forall>(n, item) \<in> set nis. revit_fresh s' (revit_oid env n item)) \<and>
   (\<forall>k. revit_fresh s k \<longrightarrow> revit_fresh s' k) \<and>
   (\<forall>k. ledger_agrees s k \<longrightarrow> ledger_agrees s' k)"
proof (induction nis arbitrary: s objs)
  case Nil
  then show ?case by simp
next
  case (Cons ni nis)
  obtain n item where ni: "ni = (n, item)" by (cases ni)
  from Cons.prems ni obtain a s1 objs' where
    step: "import_revit_item env s (n, item) = Ok a s1" and
    rest: "run_items (import_revit_item env) s1 nis = Ok objs' s'"
    by (auto split: outcome.splits)
  from import_revit_item_Ok [OF step] Cons.IH [OF rest] ni show ?case by auto
qed

lemma revit_fresh_save [simp]:
  "revit_fresh (s\<lparr>metadata := save_metadata (metadata s)\<rparr>) k = revit_fresh s k"
  "ledger_agrees (s\<lparr>metadata := save_metadata (metadata s)\<rparr>) k = ledger_agrees s k"
  by (simp_all add: revit_fresh_def ledger_agrees_def get_object_def)

text \<open>C13: after a Revit import that returns, every id of the batch holds a version 1
  object from Revit whose digest and version the ledger holds as its baseline, and ids
  where the ledger agreed before still agree. An object that was already in the engine,
  at any version, is replaced by a version 1.\<close>

theorem import_from_revit_baseline:
  assumes "import_from_revit env items s = Ok objs s'"
  shows "(\<forall>(n, item) \<in> set (enumerate 0 items). revit_fresh s' (revit_oid env n item)) \<and>
         (\<forall>k. ledger_agrees s k \<longrightarrow> ledger_agrees s' k)"
proof -
  from assms obtain s0 where run: "run_items (import_revit_item env) s (enumerate 0 items) = Ok objs s0"
    and s': "s' = s0\<lparr>metadata := save_metadata (metadata s0)\<rparr>"
    by (auto simp: import_from_revit_def split: outcome.splits)
  from run_import_revit_Ok [OF run] s' show ?thesis by simp
qed

lemma in_set_enumerate_ex:
  assumes "x \<in> set xs" obtains n where "(n, x) \<in> set (enumerate 0 xs)"
proof -
  from assms obtain i where i: "i < length xs" "xs ! i = x" by (auto simp: in_set_conv_nth)
  then have "enumerate 0 xs ! i = (i, x)" by (simp add: nth_enumerate_eq)
  with i have "(i, x) \<in> set (enumerate 0 xs)" by (metis length_enumerate nth_mem)
  then show ?thesis by (rule that)
qed

lemma in_set_enumerate_snd: "p \<in> set (enumerate n xs) \<Longrightarrow> snd p \<in> set xs"
proof -
  assume "p \<in> set (enumerate n xs)"
  then have le: "n \<le> fst p" and lt: "fst p < length xs + n" and nth: "xs ! (fst p - n) = snd p"
    by (simp_all add: in_set_enumerate_eq)
  from le lt have "fst p - n < length xs" by arith
  with nth show ?thesis by (metis nth_mem)
qed

lemma import_revit_item_Ok_iff:
  "(\<exists>a s1. import_revit_item env s (n, item) = Ok a s1) \<longleftrightarrow>
     \<not> (d_id item = Some None \<and> \<not> rid_truthy (d_revit_id item))"
proof -
  have "revit_oid env n item = None \<longleftrightarrow> d_id item = Some None"
    by (simp add: revit_oid_def split: option.splits)
  moreover have "register_object (revit_object env n item) (d_revit_id item) m = Inl TypeError \<longleftrightarrow>
      revit_oid env n item = None \<and> \<not> rid_truthy (d_revit_id item)" for m
    by (simp add: register_object_Inl)
  moreover have "(\<exists>a s1. import_revit_item env s (n, item) = Ok a s1) \<longleftrightarrow>
      (\<forall>e. register_object (revit_object env n item) (d_revit_id item) (metadata s) \<noteq> Inl e)"
    by (auto simp: import_revit_item_def Let_def split: sum.splits)
  moreover have "register_object obj rid m = Inl e \<Longrightarrow> e = TypeError" for obj rid m e
    by (simp add: register_object_Inl)
  ultimately show ?thesis by metis
qed

lemma import_from_revit_OkI:
  assumes good: "\<forall>item \<in> set items. d_id item = Some None \<longrightarrow> rid_truthy (d_revit_id item)"
  shows "\<exists>objs s'. import_from_revit env items s = Ok objs s'"
proof -
  have "\<exists>as s'. run_items (import_revit_item env) s (enumerate 0 items) = Ok as s'"
  proof (rule run_items_Ok)
    fix t ni assume mem: "ni \<in> set (enumerate 0 items)"
    obtain n item where ni: "ni = (n, item)" by (cases ni)
    from in_set_enumerate_snd [OF mem] ni have "item \<in> set items" by simp
    with good ni import_revit_item_Ok_iff [of env t n item]
    show "\<exists>a s'. import_revit_item env t ni = Ok a s'" by auto
  qed
  then show ?thesis by (auto simp: import_from_revit_def)
qed

text \<open>C14: \<open>import_from_revit\<close> returns exactly when no item has an \<open>"id"\<close> key holding
  \<open>None\<close> together with a missing or false \<open>"revit_id"\<close>; such an item makes
  \<open>register_object\<close> slice \<open>None\<close> and raise \<open>TypeError\<close>.\<close>

theorem import_from_revit_Ok_iff:
  "(\<exists>objs s'. import_from_revit env items s = Ok objs s') \<longleftrightarrow>
   (\<forall>item \<in> set items. d_id item = Some None \<longrightarrow> rid_truthy (d_revit_id item))"
proof
  assume ok: "\<exists>objs s'. import_from_revit env items s = Ok objs s'"
  then obtain objs s0 where run: "run_items (import_revit_item env) s (enumerate 0 items) = Ok objs s0"
    by (auto simp: import_from_revit_def split: outcome.splits)
  show "\<forall>item \<in> set items. d_id item = Some None \<longrightarrow> rid_truthy (d_revit_id item)"
  proof (intro ballI impI)
    fix item assume mem: "item \<in> set items" and none: "d_id item = Some None"
    from mem obtain n where "(n, item) \<in> set (enumerate 0 items)"
      by (rule in_set_enumerate_ex)
    from run_items_Ok_member [OF run this] obtain t a t' where
      "import_revit_item env t (n, item) = Ok a t'" by blast
    with import_revit_item_Ok_iff [of env t n item] none
    show "rid_truthy (d_revit_id item)" by auto
  qed
next
  assume "\<forall>item \<in> set items. d_id item = Some None \<longrightarrow> rid_truthy (d_revit_id item)"
  then show "\<exists>objs s'. import_from_revit env items s = Ok objs s'" by (rule import_from_revit_OkI)
qed

subsection \<open>Import from Grasshopper\<close>

lemma import_gh_item_meta:
  "get_object_meta (metadata (outcome_state (import_gh_item env s item))) = get_object_meta (metadata s)"
  by (auto simp: import_gh_item_def Let_def split: option.splits sum.splits)

text \<open>C15: importing from Grasshopper never changes the ledger's entries, whether it
  returns or raises: the baseline digest and version of an id stay those of the last
  Revit import, even for the ids Grasshopper updated.\<close>

theorem import_from_grasshopper_keeps_baseline:
  "get_object_meta (metadata (outcome_state (import_from_grasshopper env items s))) =
   get_object_meta (metadata s)"
proof -
  have "get_object_meta (metadata s) =
        get_object_meta (metadata (outcome_state (run_items (import_gh_item env) s items)))"
    by (rule run_items_trans [where R = "\<lambda>a b. get_object_meta (metadata a) = get_object_meta (metadata b)"])
       (simp_all add: import_gh_item_meta)
  then show ?thesis by (auto simp: import_from_grasshopper_def split: outcome.splits)
qed

text \<open>C16: a Grasshopper item whose id is known replaces the object by the one
  \<open>from_dict\<close> reads from the item, with source \<open>"grasshopper"\<close> and the old version
  plus one, whether or not its content differs from the old object's; the ledger's
  entries stay as they were.\<close>

theorem import_gh_update:
  assumes "get_object s k = Some old" and "d_id item = Some k" and "d_type item = Some t"
  shows "\<exists>s'. import_from_grasshopper env [item] s = Ok () s' \<and>
    get_object s' k = Some \<lparr>obj_id = k, obj_type = t, properties = get_or (d_properties item) [],
      geometry = get_or (d_geometry item) [], source = ''grasshopper'', version = version old + 1,
      timestamp = get_or (d_timestamp item) (now env),
      hash = get_or (d_hash item)
        (compute_hash (md5 env) t (get_or (d_properties item) []) (get_or (d_geometry item) []))\<rparr> \<and>
    get_object_meta (metadata s') = get_object_meta (metadata s)"
  using assms
  by (auto simp: import_from_grasshopper_def import_gh_item_def get_object_def from_dict_def
                 new_data_object_def get_object_meta_def split: option.splits)

text \<open>C17: an item without \<open>"id"\<close> is stored under the key \<open>None\<close>; a second one in the
  same batch finds that key, calls \<open>from_dict\<close>, and raises \<open>KeyError\<close>: the first
  object stays in the engine and the metadata file is not written.\<close>

theorem import_gh_idless_items:
  assumes "get_object s None = None" and "d_id a = None" and "d_id b = None"
  shows "\<exists>s'. import_from_grasshopper env [a, b] s = Raised KeyError s' \<and>
    get_object s' None = Some (new_data_object env None (get_or (d_type a) ''Unknown'')
      (get_or (d_properties a) []) (get_or (d_geometry a) []) ''grasshopper'') \<and>
    md_file (metadata s') = md_file (metadata s)"
  using assms
  by (auto simp: import_from_grasshopper_def import_gh_item_def get_object_def from_dict_def)

subsection \<open>The synchronisation pass\<close>

text \<open>A synchronisation pass is a Revit import followed by an export of the
  resulting state: the conflict check finds nothing and no resolver is ever called, so
  the pass's output does not depend on \<open>ConflictResolver\<close> at all.\<close>

theorem sync_revit_to_gh_is_import_then_export:
  "sync_revit_to_gh env items s =
     (case import_from_revit env items s of
        Ok _ s' \<Rightarrow> Ok (export_to_grasshopper s') s'
      | Raised e s' \<Rightarrow> Raised e s')"
  by (simp add: sync_revit_to_gh_def check_conflicts_def split: outcome.splits)

subsection \<open>Checkpoints\<close>

lemma run_load_state_to_dict:
  "run_items (load_state_item env) s (map (to_dict \<circ> snd) kos) =
     Ok (map (\<lambda>_. ()) kos)
       (s\<lparr>objects := dict_set_all (objects s) (map (\<lambda>(k, obj). (obj_id obj, obj)) kos)\<rparr>)"
  by (induction kos arbitrary: s) (auto simp: load_state_item_def)

lemma engine_wf_keyed: "engine_wf t \<Longrightarrow> map (\<lambda>(k, obj). (obj_id obj, obj)) (objects t) = objects t"
  by (auto simp: engine_wf_def intro: map_idI)

text \<open>C19: loading a checkpoint that \<open>save_state\<close> wrote, into an engine with no
  objects, restores exactly the saved engine's objects, in their order.\<close>

theorem load_state_save_state:
  "engine_wf t \<Longrightarrow>
   load_state env (Stored (save_state t)) (s\<lparr>objects := []\<rparr>) = Ok () (s\<lparr>objects := objects t\<rparr>)"
  by (simp add: load_state_def save_state_def run_load_state_to_dict engine_wf_keyed
                dict_set_all_of_dict engine_wf_def)

text \<open>\<open>load_state\<close> never touches the ledger: the metadata saved in a checkpoint
  is not read back, so the engine's ledger after loading is the one it had before.\<close>

theorem load_state_keeps_ledger: "metadata (outcome_state (load_state env f s)) = metadata s"
proof (cases f)
  case (Stored cp)
  have "metadata s = metadata (outcome_state (run_items (load_state_item env) s (cp_objects cp)))"
    by (rule run_items_trans [where R = "\<lambda>a b. metadata a = metadata b"])
       (auto simp: load_state_item_def split: sum.splits)
  with Stored show ?thesis by (auto simp: load_state_def split: outcome.splits)
qed (simp_all add: load_state_def)

lemma run_import_revit_history:
  "run_items (import_revit_item env) s nis = Ok objs s' \<Longrightarrow>
   length (history s') = length (history s) + length nis"
proof (induction nis arbitrary: s objs)
  case Nil
  then show ?case by simp
next
  case (Cons ni nis)
  then obtain a s1 objs' where step: "import_revit_item env s ni = Ok a s1"
    and rest: "run_items (import_revit_item env) s1 nis = Ok objs' s'"
    by (auto split: outcome.splits)
  from step have "length (history s1) = Suc (length (history s))"
    by (cases ni) (auto simp: import_revit_item_def Let_def dest: register_object_Inr split: sum.splits)
  with Cons.IH [OF rest] show ?case by simp
qed

text \<open>C21: an engine built over an unreadable metadata file starts from an empty ledger
  and does not fail; its first Revit import then writes a ledger created now whose
  history holds only the events of that import, in place of the unreadable one.\<close>

theorem corrupt_ledger_replaced:
  assumes "import_from_revit env items (init_engine t Corrupt) = Ok objs s'"
  shows "md_file (metadata s') = Stored (md_data (metadata s')) \<and>
    lg_created (md_data (metadata s')) = t \<and> length (history s') = length items"
proof -
  from assms obtain s0 where run: "run_items (import_revit_item env) (init_engine t Corrupt)
      (enumerate 0 items) = Ok objs s0" and s': "s' = s0\<lparr>metadata := save_metadata (metadata s0)\<rparr>"
    by (auto simp: import_from_revit_def split: outcome.splits)
  have created: "lg_created (md_data (metadata s0)) = t"
  proof -
    have "lg_created (md_data (metadata (init_engine t Corrupt))) =
          lg_created (md_data (metadata (outcome_state (run_items (import_revit_item env)
             (init_engine t Corrupt) (enumerate 0 items)))))"
      by (rule run_items_trans [where R = "\<lambda>a b. lg_created (md_data (metadata a)) =
                                                 lg_created (md_data (metadata b))"])
         (auto simp: import_revit_item_def Let_def register_object_def add_sync_event_def
               split: prod.splits sum.splits)
    with run show ?thesis
      by (simp add: init_engine_def init_metadata_def load_ledger_def fresh_ledger_def)
  qed
  from run_import_revit_history [OF run] have "length (history s0) = length items"
    by (simp add: init_engine_def init_metadata_def load_ledger_def fresh_ledger_def)
  with created s' show ?thesis by simp
qed

subsection \<open>The example of the module\<close>

text \<open>The batch of the module's \<open>__main__\<close> block (a wall with an id and a Revit id),
  with a door that has neither, under a clock at 7, the identity as hash function and
  \<open>uuid4\<close> returning \<open>uuid-\<close> followed by as many \<open>1\<close>s as the item's position.\<close>

definition demo_env :: sys_env where
  "demo_env = \<lparr>md5 = (\<lambda>s. s), now = 7, uuid4 = (\<lambda>n. ''uuid-'' @ replicate n (CHR ''1''))\<rparr>"

definition demo_wall :: obj_dict where
  "demo_wall = empty_dict\<lparr>d_id := Some (Some ''obj_001''), d_type := Some ''Wall'',
     d_revit_id := Some (JStr ''12345''),
     d_properties := Some [(''length'', JNum 10), (''material'', JStr ''Concrete'')],
     d_geometry := Some [(''type'', JStr ''LineString'')]\<rparr>"

definition demo_door :: obj_dict where
  "demo_door = empty_dict\<lparr>d_type := Some ''Door''\<rparr>"

lemma demo_items_simps [simp]:
  "d_id demo_wall = Some (Some ''obj_001'')" "d_id demo_door = None"
  "d_revit_id demo_wall = Some (JStr ''12345'')" "d_revit_id demo_door = None"
  "uuid4 demo_env n = ''uuid-'' @ replicate n (CHR ''1'')"
  by (simp_all add: demo_wall_def demo_door_def empty_dict_def demo_env_def)

lemma demo_import_Ok: "\<exists>objs s'. import_from_revit demo_env [demo_wall, demo_door] s = Ok objs s'"
  by (rule import_from_revit_OkI) simp

theorem reachable_engine_wf_witness:
  "reachable_engine (engine_step (init_engine 0 Missing) (ImportRevit demo_env [demo_wall, demo_door]))
   \<and> engine_wf (engine_step (init_engine 0 Missing) (ImportRevit demo_env [demo_wall, demo_door]))"
proof -
  have r: "reachable_engine (engine_step (init_engine 0 Missing) (ImportRevit demo_env [demo_wall, demo_door]))"
    by (rule reachable_engine.step [OF reachable_engine.init])
  show ?thesis using r reachable_engine_wf [OF r] by simp
qed

theorem import_from_revit_baseline_witness:
  "\<exists>objs s'. import_from_revit demo_env [demo_wall, demo_door] (init_engine 0 Missing) = Ok objs s'
     \<and> revit_fresh s' (Some ''obj_001'') \<and> revit_fresh s' (Some ''uuid-1'')"
proof -
  obtain objs s' where ok: "import_from_revit demo_env [demo_wall, demo_door] (init_engine 0 Missing) = Ok objs s'"
    using demo_import_Ok by blast
  from import_from_revit_baseline [OF ok] have
    "\<forall>(n, item) \<in> set (enumerate 0 [demo_wall, demo_door]). revit_fresh s' (revit_oid demo_env n item)"
    by blast
  then have "revit_fresh s' (Some ''obj_001'') \<and> revit_fresh s' (Some ''uuid-1'')"
    by (simp add: revit_oid_def)
  with ok show ?thesis by blast
qed

theorem import_from_revit_Ok_iff_witness:
  "\<not> (\<exists>objs s'. import_from_revit demo_env [empty_dict\<lparr>d_id := Some None, d_type := Some ''Wall''\<rparr>]
         (init_engine 0 Missing) = Ok objs s')
   \<and> (\<exists>objs s'. import_from_revit demo_env [demo_wall, demo_door] (init_engine 0 Missing) = Ok objs s')"
  using import_from_revit_Ok_iff [of demo_env "[empty_dict\<lparr>d_id := Some None, d_type := Some ''Wall''\<rparr>]"
          "init_engine 0 Missing"]
        import_from_revit_Ok_iff [of demo_env "[demo_wall, demo_door]" "init_engine 0 Missing"]
  by (simp add: empty_dict_def rid_truthy_def)

text \<open>The wall of the conflict scenario, stored at version 1, and a Grasshopper item
  that sends its content back unchanged.\<close>

definition w1_engine :: engine where
  "w1_engine = \<lparr>objects = [(Some ''w1'', wall_at 1 3 ''revit'' 1)], metadata = init_metadata 0 Missing\<rparr>"

definition w1_unchanged :: obj_dict where
  "w1_unchanged = empty_dict\<lparr>d_id := Some (Some ''w1''), d_type := Some ''Wall'',
     d_properties := Some [(''h'', JNum 3)], d_geometry := Some wall_geom\<rparr>"

theorem import_gh_update_witness:
  "\<exists>s'. import_from_grasshopper demo_env [w1_unchanged] w1_engine = Ok () s' \<and>
     (\<exists>obj. get_object s' (Some ''w1'') = Some obj \<and> version obj = 2 \<and>
        hash obj = hash (wall_at 1 3 ''revit'' 1))"
proof -
  have h1: "get_object w1_engine (Some ''w1'') = Some (wall_at 1 3 ''revit'' 1)"
    by (simp add: w1_engine_def get_object_def)
  have h2: "d_id w1_unchanged = Some (Some ''w1'')" and h3: "d_type w1_unchanged = Some ''Wall''"
    by (simp_all add: w1_unchanged_def empty_dict_def)
  from import_gh_update [OF h1 h2 h3, of demo_env] show ?thesis
    by (auto simp: w1_unchanged_def empty_dict_def version_wall_at hash_wall_at demo_env_def)
qed

theorem import_gh_idless_items_witness:
  "\<exists>s'. import_from_grasshopper demo_env [demo_door, demo_door] (init_engine 0 Missing) = Raised KeyError s'
     \<and> get_object s' None \<noteq> None"
proof -
  have h1: "get_object (init_engine 0 Missing) None = None"
    by (simp add: get_object_def init_engine_def)
  from import_gh_idless_items [OF h1, of demo_door demo_door demo_env] show ?thesis by auto
qed

theorem load_state_save_state_witness:
  "engine_wf w1_engine \<and>
   load_state demo_env (Stored (save_state w1_engine)) ((init_engine 0 Missing)\<lparr>objects := []\<rparr>) =
     Ok () ((init_engine 0 Missing)\<lparr>objects := objects w1_engine\<rparr>)"
proof -
  have wf: "engine_wf w1_engine"
    by (simp add: engine_wf_def w1_engine_def dict_wf_def dict_keys_def wall_at_def new_data_object_def)
  show ?thesis using wf load_state_save_state [OF wf] by simp
qed

theorem corrupt_ledger_replaced_witness:
  "\<exists>objs s'. import_from_revit demo_env [demo_wall, demo_door] (init_engine 5 Corrupt) = Ok objs s'
     \<and> lg_created (md_data (metadata s')) = 5 \<and> length (history s') = 2"
proof -
  obtain objs s' where ok: "import_from_revit demo_env [demo_wall, demo_door] (init_engine 5 Corrupt) = Ok objs s'"
    using demo_import_Ok by blast
  with corrupt_ledger_replaced [OF ok] show ?thesis by auto
qed

end
