(* ===== verification/Bridge.thy ===== *)
theory Bridge
  imports DataObject
begin

text \<open>
  The Revit side of \<open>revit_gh_bridge.py\<close>: \<open>RevitExporter\<close> turns the walls, openings
  and floors of a Revit document into batch records (\<open>obj_dict\<close>), each with a fresh id
  made of a category prefix and the first eight characters of a \<open>uuid4\<close>;
  \<open>RevitImporter.prepare_for_revit\<close> turns records coming back from Grasshopper into
  update commands. A Revit element is a record of the keys the exporters read, \<open>None\<close>
  where the key is absent; the \<open>n\<close>-th call of \<open>uuid.uuid4()\<close> in an export is
  \<open>uuids n\<close>. \<open>RevitGHBridge\<close>'s file writes and reads (\<open>export_from_revit\<close>,
  \<open>bridge_import_from_grasshopper\<close>) succeed or raise \<open>OSError\<close> or
  \<open>JSONDecodeError\<close> as the file system and the file's content say. The lemmas
  describe the records of an export (\<open>export_all_records\<close>).
\<close>

record revit_element =
  el_id :: "json option"
  el_name :: "json option"
  el_length :: "json option"
  el_height :: "json option"
  el_material :: "json option"
  el_level :: "json option"
  el_curve_points :: "json option"
  el_element_type :: "string option"
  el_width :: "json option"
  el_family_type :: "json option"
  el_position :: "json option"
  el_thickness :: "json option"
  el_boundary_points :: "json option"

text \<open>\<open>elem.get(key)\<close>: a missing key is \<open>None\<close>, which JSON writes as \<open>null\<close>.\<close>

abbreviation el_get :: "json option \<Rightarrow> json" where
  "el_get x \<equiv> get_or x JNull"

text \<open>\<open>f"{prefix}{str(uuid.uuid4())[:8]}"\<close>.\<close>

definition short_id :: "string \<Rightarrow> string \<Rightarrow> py_id" where
  "short_id pfx u = Some (pfx @ take 8 u)"

text \<open>The record built for one wall (\<open>export_walls\<close>, lines 25--43).\<close>

definition wall_record :: "string \<Rightarrow> revit_element \<Rightarrow> obj_dict" where
  "wall_record u elem =
     empty_dict\<lparr>d_id := Some (short_id ''wall_'' u), d_revit_id := Some (el_get (el_id elem)),
       d_type := Some ''Wall'',
       d_properties := Some [(''name'', get_or (el_name elem) (JStr ''Unknown Wall'')),
                             (''length'', el_get (el_length elem)), (''height'', el_get (el_height elem)),
                             (''material'', get_or (el_material elem) (JStr ''Default'')),
                             (''level'', el_get (el_level elem))],
       d_geometry := Some [(''type'', JStr ''LineString''),
                           (''coordinates'', get_or (el_curve_points elem) (JArr []))]\<rparr>"

text \<open>One door or window (\<open>export_doors_windows\<close>, lines 53--70).\<close>

definition opening_record :: "string \<Rightarrow> revit_element \<Rightarrow> obj_dict" where
  "opening_record u elem =
     empty_dict\<lparr>d_id := Some (short_id ''opening_'' u), d_revit_id := Some (el_get (el_id elem)),
       d_type := Some (get_or (el_element_type elem) ''Opening''),
       d_properties := Some [(''name'', el_get (el_name elem)), (''width'', el_get (el_width elem)),
                             (''height'', el_get (el_height elem)),
                             (''family_type'', el_get (el_family_type elem))],
       d_geometry := Some [(''type'', JStr ''Point''),
                           (''coordinates'', get_or (el_position elem) (JArr [JNum 0, JNum 0]))]\<rparr>"

text \<open>One floor (\<open>export_floors\<close>, lines 80--97).\<close>

definition floor_record :: "string \<Rightarrow> revit_element \<Rightarrow> obj_dict" where
  "floor_record u elem =
     empty_dict\<lparr>d_id := Some (short_id ''floor_'' u), d_revit_id := Some (el_get (el_id elem)),
       d_type := Some ''Floor'',
       d_properties := Some [(''name'', el_get (el_name elem)), (''level'', el_get (el_level elem)),
                             (''thickness'', el_get (el_thickness elem)),
                             (''material'', el_get (el_material elem))],
       d_geometry := Some [(''type'', JStr ''Polygon''),
                           (''coordinates'', get_or (el_boundary_points elem) (JArr []))]\<rparr>"

text \<open>The three exporters (lines 21--101): one record per element, in order, the
  \<open>k\<close>-th element drawing the \<open>(start + k)\<close>-th uuid.\<close>

definition export_walls :: "(nat \<Rightarrow> string) \<Rightarrow> nat \<Rightarrow> revit_element list \<Rightarrow> obj_dict list" where
  "export_walls uuids start elems = map (\<lambda>(n, e). wall_record (uuids n) e) (enumerate start elems)"

definition export_doors_windows :: "(nat \<Rightarrow> string) \<Rightarrow> nat \<Rightarrow> revit_element list \<Rightarrow> obj_dict list" where
  "export_doors_windows uuids start elems = map (\<lambda>(n, e). opening_record (uuids n) e) (enumerate start elems)"

definition export_floors :: "(nat \<Rightarrow> string) \<Rightarrow> nat \<Rightarrow> revit_element list \<Rightarrow> obj_dict list" where
  "export_floors uuids start elems = map (\<lambda>(n, e). floor_record (uuids n) e) (enumerate start elems)"

record revit_doc =
  doc_file_path :: "json option"
  doc_project_name :: "json option"
  doc_epsg :: "json option"
  doc_origin :: "json option"
  doc_walls :: "revit_element list option"
  doc_openings :: "revit_element list option"
  doc_floors :: "revit_element list option"

record revit_export =
  rx_timestamp :: timestamp
  rx_revit_file :: json
  rx_project_name :: json
  rx_epsg :: json
  rx_origin :: json
  rx_elements :: "(string, obj_dict list) pydict"

text \<open>\<open>RevitExporter.export_all\<close> (lines 103--121): the walls draw the first uuids,
  then the openings, then the floors, in the order the dictionary literal is evaluated.\<close>

definition export_all :: "(nat \<Rightarrow> string) \<Rightarrow> timestamp \<Rightarrow> revit_doc \<Rightarrow> revit_export" where
  "export_all uuids t doc =
     (let walls = get_or (doc_walls doc) []; openings = get_or (doc_openings doc) [];
          floors = get_or (doc_floors doc) []
      in \<lparr>rx_timestamp = t, rx_revit_file = el_get (doc_file_path doc),
          rx_project_name = el_get (doc_project_name doc),
          rx_epsg = get_or (doc_epsg doc) (JStr ''EPSG:32633''),
          rx_origin = get_or (doc_origin doc) (JArr [JNum 0, JNum 0, JNum 0]),
          rx_elements = [(''walls'', export_walls uuids 0 walls),
                         (''openings'', export_doors_windows uuids (length walls) openings),
                         (''floors'', export_floors uuids (length walls + length openings) floors)]\<rparr>)"

text \<open>The flattened batch the pipeline hands to the engine (\<open>integration_pipeline.py\<close>,
  lines 97--100): the element lists in the dictionary's order.\<close>

definition flatten_elements :: "revit_export \<Rightarrow> obj_dict list" where
  "flatten_elements rx = concat (map snd (rx_elements rx))"

text \<open>\<open>RevitGHBridge.export_from_revit\<close> (lines 175--191): the export, then two writes
  (the timestamped export file of \<open>save_export\<close> and the snapshot); \<open>write_ok\<close> tells
  whether the file system accepts them, a failed \<open>open\<close> raising \<open>OSError\<close>.\<close>

definition export_from_revit ::
  "(nat \<Rightarrow> string) \<Rightarrow> timestamp \<Rightarrow> bool \<Rightarrow> revit_doc \<Rightarrow> py_error + revit_export" where
  "export_from_revit uuids t write_ok revit_doc =
     (let export_data = export_all uuids t revit_doc
      in if write_ok then Inr export_data else Inl OSError)"

subsection \<open>From Grasshopper back to Revit\<close>

record revit_update =
  ru_revit_id :: json
  ru_type :: "string option"
  ru_geometry :: "(string, json) pydict option"
  ru_properties :: "(string, json) pydict option"
  ru_operation :: string

text \<open>\<open>RevitImporter.prepare_for_revit\<close> (lines 143--161): one \<open>"update"\<close> per record,
  with \<open>obj.get(...)\<close> for each key.\<close>

definition prepare_for_revit :: "obj_dict list \<Rightarrow> revit_update list" where
  "prepare_for_revit gh_modified_data =
     map (\<lambda>obj. \<lparr>ru_revit_id = el_get (d_revit_id obj), ru_type = d_type obj,
                 ru_geometry = d_geometry obj, ru_properties = d_properties obj,
                 ru_operation = ''update''\<rparr>) gh_modified_data"

text \<open>\<open>RevitGHBridge.import_from_grasshopper\<close> (lines 193--209): read the Grasshopper
  file (a missing file raises \<open>FileNotFoundError\<close>, an \<open>OSError\<close>; an unparseable
  one \<open>JSONDecodeError\<close>), prepare the updates, write the audit copy.\<close>

definition bridge_import_from_grasshopper ::
  "bool \<Rightarrow> obj_dict list file_state \<Rightarrow> py_error + revit_update list" where
  "bridge_import_from_grasshopper write_ok gh_file =
     (case gh_file of
        Missing \<Rightarrow> Inl OSError
      | Corrupt \<Rightarrow> Inl JSONDecodeError
      | Stored gh_data \<Rightarrow>
          (let revit_updates = prepare_for_revit gh_data
           in if write_ok then Inr revit_updates else Inl OSError))"

subsection \<open>Properties of the export\<close>

lemma length_export [simp]:
  "length (export_walls uuids n es) = length es"
  "length (export_doors_windows uuids n es) = length es"
  "length (export_floors uuids n es) = length es"
  by (simp_all add: export_walls_def export_doors_windows_def export_floors_def)

lemma nth_export_walls:
  "k < length es \<Longrightarrow> export_walls uuids n es ! k = wall_record (uuids (n + k)) (es ! k)"
  by (simp add: export_walls_def nth_enumerate_eq)

text \<open>The flattened export of a document holds one record per wall, opening and floor
  of the document, in that order, the \<open>i\<close>-th record drawing the \<open>i\<close>-th uuid.\<close>

lemma export_all_flatten:
  "flatten_elements (export_all uuids t doc) =
     map (\<lambda>(n, e). wall_record (uuids n) e) (enumerate 0 (get_or (doc_walls doc) [])) @
     map (\<lambda>(n, e). opening_record (uuids n) e)
       (enumerate (length (get_or (doc_walls doc) [])) (get_or (doc_openings doc) [])) @
     map (\<lambda>(n, e). floor_record (uuids n) e)
       (enumerate (length (get_or (doc_walls doc) []) + length (get_or (doc_openings doc) []))
          (get_or (doc_floors doc) []))"
  by (simp add: flatten_elements_def export_all_def export_walls_def export_doors_windows_def
                export_floors_def Let_def)

lemma d_id_records [simp]:
  "d_id (wall_record u e) = Some (short_id ''wall_'' u)"
  "d_id (opening_record u e) = Some (short_id ''opening_'' u)"
  "d_id (floor_record u e) = Some (short_id ''floor_'' u)"
  "d_revit_id (wall_record u e) = Some (el_get (el_id e))"
  "d_revit_id (opening_record u e) = Some (el_get (el_id e))"
  "d_revit_id (floor_record u e) = Some (el_get (el_id e))"
  by (simp_all add: wall_record_def opening_record_def floor_record_def empty_dict_def)

lemma short_id_eq_iff: "short_id p u = short_id p u' \<longleftrightarrow> take 8 u = take 8 u'"
  by (simp add: short_id_def)

lemma map_enumerate_snd: "map (\<lambda>(n, e). h e) (enumerate k es) = map h es"
  by (induction es arbitrary: k) auto

lemma map_enumerate_fst: "map (\<lambda>(n, e). h n) (enumerate k es) = map h [k..<k + length es]"
proof (induction es arbitrary: k)
  case Nil
  show ?case by simp
next
  case (Cons e es)
  have "[k..<k + length (e # es)] = k # [Suc k..<Suc k + length es]"
    by (simp add: upt_rec)
  with Cons.IH [of "Suc k"] show ?case by simp
qed

lemma export_all_flatten_maps:
  "map f (flatten_elements (export_all uuids t doc)) =
     map (\<lambda>(n, e). f (wall_record (uuids n) e)) (enumerate 0 (get_or (doc_walls doc) [])) @
     map (\<lambda>(n, e). f (opening_record (uuids n) e))
       (enumerate (length (get_or (doc_walls doc) [])) (get_or (doc_openings doc) [])) @
     map (\<lambda>(n, e). f (floor_record (uuids n) e))
       (enumerate (length (get_or (doc_walls doc) []) + length (get_or (doc_openings doc) []))
          (get_or (doc_floors doc) []))"
  by (simp add: export_all_flatten split_def)

text \<open>The batch a Revit export hands to the engine has one record per wall, opening
  and floor of the document, in that order; each keeps the element's \<open>"id"\<close> as its
  \<open>"revit_id"\<close>, and the \<open>i\<close>-th record gets the id made of its category prefix
  and the first eight characters of the \<open>i\<close>-th uuid.\<close>

theorem export_all_records:
  "let walls = get_or (doc_walls doc) []; openings = get_or (doc_openings doc) [];
       floors = get_or (doc_floors doc) []; a = length walls; b = length openings;
       batch = flatten_elements (export_all uuids t doc)
   in map d_revit_id batch = map (\<lambda>e. Some (el_get (el_id e))) (walls @ openings @ floors) \<and>
      map d_id batch =
        map (\<lambda>n. Some (short_id ''wall_'' (uuids n))) [0..<a] @
        map (\<lambda>n. Some (short_id ''opening_'' (uuids n))) [a..<a + b] @
        map (\<lambda>n. Some (short_id ''floor_'' (uuids n))) [a + b..<a + b + length floors]"
proof -
  have rid: "map d_revit_id (flatten_elements (export_all uuids t doc)) =
      map (\<lambda>e. Some (el_get (el_id e)))
        (get_or (doc_walls doc) [] @ get_or (doc_openings doc) [] @ get_or (doc_floors doc) [])"
    by (simp only: export_all_flatten_maps d_id_records map_enumerate_snd map_append)
  have ids: "map d_id (flatten_elements (export_all uuids t doc)) =
      map (\<lambda>n. Some (short_id ''wall_'' (uuids n))) [0..<length (get_or (doc_walls doc) [])] @
      map (\<lambda>n. Some (short_id ''opening_'' (uuids n)))
        [length (get_or (doc_walls doc) [])..<length (get_or (doc_walls doc) []) +
                                                length (get_or (doc_openings doc) [])] @
      map (\<lambda>n. Some (short_id ''floor_'' (uuids n)))
        [length (get_or (doc_walls doc) []) + length (get_or (doc_openings doc) [])..<
         length (get_or (doc_walls doc) []) + length (get_or (doc_openings doc) []) +
         length (get_or (doc_floors doc) [])]"
    by (simp only: export_all_flatten_maps d_id_records map_enumerate_fst add_0)
  from rid ids show ?thesis by (simp only: Let_def)
qed

end
