(* ===== verification/GeoJson.thy ===== *)
theory GeoJson
  imports DataObject
begin

text \<open>
  Class \<open>GeoJSONConverter\<close> of \<open>agol_exporter.py\<close> (lines 17--87): the conversion of
  the records the engine hands to Grasshopper into a GeoJSON \<open>FeatureCollection\<close>, the
  format the pipeline writes when no ArcGIS Online account is configured. A record is an
  \<open>obj_dict\<close>; the conversion may raise \<open>AttributeError\<close> (\<open>.lower()\<close> on a
  geometry type that is not a string), so \<open>gh_to_geojson\<close> returns
  \<open>py_error + json\<close>. The lemmas give the result on every input, show that a record of
  one of the three geometry kinds always yields a feature, and that the record's own
  properties shadow the bookkeeping keys of the feature.
\<close>

subsection \<open>Python's \<open>str.lower\<close>\<close>

text \<open>Lower case of a character: the ASCII capitals are mapped to small letters. The
  geometry kinds the program writes are ASCII; other letters are kept as they are.\<close>

definition lower_char :: "char \<Rightarrow> char" where
  "lower_char c = (if CHR ''A'' \<le> c \<and> c \<le> CHR ''Z'' then char_of (of_char c + (32::nat)) else c)"

definition py_lower :: "string \<Rightarrow> string" where
  "py_lower s = map lower_char s"

subsection \<open>The converter\<close>

text \<open>The three static constructors (lines 20--42).\<close>

definition linestring_to_geojson :: "json \<Rightarrow> (string, json) pydict" where
  "linestring_to_geojson coordinates = [(''type'', JStr ''LineString''), (''coordinates'', coordinates)]"

definition polygon_to_geojson :: "json \<Rightarrow> (string, json) pydict" where
  "polygon_to_geojson coordinates = [(''type'', JStr ''Polygon''), (''coordinates'', coordinates)]"

definition point_to_geojson :: "json \<Rightarrow> (string, json) pydict" where
  "point_to_geojson coordinates = [(''type'', JStr ''Point''), (''coordinates'', coordinates)]"

text \<open>The JSON values \<open>obj.get(key)\<close> yields for the bookkeeping fields of a record:
  \<open>null\<close> for an absent key. A timestamp is written as its instant.\<close>

definition py_id_json :: "py_id option \<Rightarrow> json" where
  "py_id_json x = (case x of Some (Some s) \<Rightarrow> JStr s | _ \<Rightarrow> JNull)"

definition str_json :: "string option \<Rightarrow> json" where
  "str_json x = (case x of Some s \<Rightarrow> JStr s | None \<Rightarrow> JNull)"

definition int_json :: "int option \<Rightarrow> json" where
  "int_json x = (case x of Some i \<Rightarrow> JNum i | None \<Rightarrow> JNull)"

definition ts_json :: "timestamp option \<Rightarrow> json" where
  "ts_json x = (case x of Some t \<Rightarrow> JNum (int t) | None \<Rightarrow> JNull)"

text \<open>\<open>geometry.get("type", "").lower()\<close> (lines 52--53): \<open>.lower()\<close> raises
  \<open>AttributeError\<close> on a value that is not a string.\<close>

definition type_lower :: "(string, json) pydict \<Rightarrow> py_error + string" where
  "type_lower geom =
     (case dict_get geom ''type'' of
        None \<Rightarrow> Inr []
      | Some (JStr s) \<Rightarrow> Inr (py_lower s)
      | Some _ \<Rightarrow> Inl AttributeError)"

definition geom_type :: "obj_dict \<Rightarrow> py_error + string" where
  "geom_type obj = type_lower (get_or (d_geometry obj) [])"

text \<open>The feature's \<open>"properties"\<close> (lines 69--76): the bookkeeping keys, then
  \<open>**obj.get("properties", {})\<close>, whose keys overwrite equal keys in place.\<close>

definition feature_bookkeeping :: "obj_dict \<Rightarrow> (string, json) pydict" where
  "feature_bookkeeping obj =
     [(''id'', py_id_json (d_id obj)), (''gh_guid'', py_id_json (d_gh_guid obj)),
      (''type'', str_json (d_type obj)), (''version'', int_json (d_version obj)),
      (''timestamp'', ts_json (d_timestamp obj))]"

definition feature_properties :: "obj_dict \<Rightarrow> (string, json) pydict" where
  "feature_properties obj = dict_set_all (feature_bookkeeping obj) (get_or (d_properties obj) [])"

text \<open>One pass of the loop of \<open>gh_to_geojson\<close> (lines 51--78): the feature of a record,
  \<open>None\<close> for a record of an unknown kind (\<open>continue\<close>), or the exception.\<close>

definition geojson_feature :: "obj_dict \<Rightarrow> py_error + json option" where
  "geojson_feature obj =
     (case geom_type obj of
        Inl e \<Rightarrow> Inl e
      | Inr t \<Rightarrow>
          (let geometry = get_or (d_geometry obj) [];
               coords = get_or (dict_get geometry ''coordinates'') (JArr []);
               feature = (\<lambda>gj. Some (JObj [(''type'', JStr ''Feature''), (''geometry'', JObj gj),
                                             (''properties'', JObj (feature_properties obj))]))
           in if t = ''linestring'' then Inr (feature (linestring_to_geojson coords))
              else if t = ''polygon'' then Inr (feature (polygon_to_geojson coords))
              else if t = ''point'' then Inr (feature (point_to_geojson coords))
              else Inr None))"

text \<open>The loop (lines 51--78): the first record that raises ends it.\<close>

primrec gh_features :: "obj_dict list \<Rightarrow> py_error + json list" where
  "gh_features [] = Inr []"
| "gh_features (obj # objs) =
     (case geojson_feature obj of
        Inl e \<Rightarrow> Inl e
      | Inr f \<Rightarrow>
          (case gh_features objs of
             Inl e \<Rightarrow> Inl e
           | Inr fs \<Rightarrow> Inr (case f of None \<Rightarrow> fs | Some x \<Rightarrow> x # fs)))"

text \<open>\<open>GeoJSONConverter.gh_to_geojson\<close> (lines 44--87).\<close>

definition feature_collection :: "string \<Rightarrow> json list \<Rightarrow> json" where
  "feature_collection epsg_code features =
     JObj [(''type'', JStr ''FeatureCollection''),
           (''crs'', JObj [(''type'', JStr ''name''), (''properties'', JObj [(''name'', JStr epsg_code)])]),
           (''features'', JArr features)]"

definition gh_to_geojson :: "obj_dict list \<Rightarrow> string \<Rightarrow> py_error + json" where
  "gh_to_geojson gh_objects epsg_code =
     (case gh_features gh_objects of
        Inl e \<Rightarrow> Inl e
      | Inr features \<Rightarrow> Inr (feature_collection epsg_code features))"

subsection \<open>The result of the conversion\<close>

text \<open>Whether \<open>.lower()\<close> can be applied to the record's geometry type: it is absent
  (the default \<open>""\<close>) or a string.\<close>

definition geom_type_str :: "obj_dict \<Rightarrow> bool" where
  "geom_type_str obj \<longleftrightarrow>
     (case dict_get (get_or (d_geometry obj) []) ''type'' of
        None \<Rightarrow> True | Some (JStr s) \<Rightarrow> True | Some _ \<Rightarrow> False)"

text \<open>The feature of a record, \<open>None\<close> for a skipped or raising one.\<close>

definition feature_of :: "obj_dict \<Rightarrow> json option" where
  "feature_of obj = (case geojson_feature obj of Inl _ \<Rightarrow> None | Inr f \<Rightarrow> f)"

text \<open>The lower case of the geometry kinds the program writes.\<close>

lemma py_lower_kinds [simp]:
  "py_lower ''LineString'' = ''linestring''" "py_lower ''Polygon'' = ''polygon''"
  "py_lower ''Point'' = ''point''" "py_lower ''Mesh'' = ''mesh''"
  by code_simp+

lemma geom_type_Inl: "geom_type obj = Inl e \<longleftrightarrow> e = AttributeError \<and> \<not> geom_type_str obj"
  by (auto simp: geom_type_def type_lower_def geom_type_str_def split: option.splits json.splits)

lemma geom_type_str_Inr: "geom_type obj = Inr t \<Longrightarrow> geom_type_str obj"
  using geom_type_Inl [of obj] by (metis sum.distinct(1))

lemma geojson_feature_Inl: "geojson_feature obj = Inl e \<longleftrightarrow> e = AttributeError \<and> \<not> geom_type_str obj"
proof (cases "geom_type obj")
  case (Inl e')
  then show ?thesis using geom_type_Inl [of obj e'] by (auto simp: geojson_feature_def)
next
  case (Inr t)
  then show ?thesis
    by (auto simp: geojson_feature_def Let_def geom_type_str_Inr split: if_splits)
qed

lemma geojson_feature_Inr: "geom_type_str obj \<Longrightarrow> geojson_feature obj = Inr (feature_of obj)"
  by (cases "geojson_feature obj") (auto simp: feature_of_def geojson_feature_Inl)

lemma gh_features_result:
  "gh_features objs =
     (if \<forall>obj \<in> set objs. geom_type_str obj then Inr (List.map_filter feature_of objs)
      else Inl AttributeError)"
proof (induction objs)
  case Nil
  show ?case by simp
next
  case (Cons obj objs)
  show ?case
  proof (cases "geom_type_str obj")
    case True
    with Cons.IH show ?thesis
      by (auto simp: geojson_feature_Inr split: option.splits)
  next
    case False
    then have "geojson_feature obj = Inl AttributeError" by (simp add: geojson_feature_Inl)
    with False show ?thesis by simp
  qed
qed

text \<open>A record whose geometry type is one of the three kinds, in any case, yields a
  feature holding its coordinates and its properties.\<close>

definition known_kind :: "obj_dict \<Rightarrow> bool" where
  "known_kind obj \<longleftrightarrow> geom_type obj \<in> Inr ` {''linestring'', ''polygon'', ''point''}"

lemma known_kind_feature:
  assumes "known_kind obj"
  shows "\<exists>gj. feature_of obj = Some (JObj [(''type'', JStr ''Feature''), (''geometry'', JObj gj),
                                        (''properties'', JObj (feature_properties obj))]) \<and>
              dict_get gj ''coordinates'' =
                Some (get_or (dict_get (get_or (d_geometry obj) []) ''coordinates'') (JArr []))"
  using assms
  by (auto simp: known_kind_def feature_of_def geojson_feature_def Let_def linestring_to_geojson_def
                 polygon_to_geojson_def point_to_geojson_def)

lemma known_kind_str: "known_kind obj \<Longrightarrow> geom_type_str obj"
  by (auto simp: known_kind_def intro: geom_type_str_Inr)

lemma gh_features_known:
  assumes "\<forall>obj \<in> set objs. known_kind obj"
  shows "\<exists>fs. gh_features objs = Inr fs \<and> length fs = length objs"
proof -
  from assms have "\<forall>obj \<in> set objs. feature_of obj \<noteq> None"
    by (auto dest: known_kind_feature)
  then have "length (List.map_filter feature_of objs) = length objs"
    by (induction objs) (auto split: option.splits)
  with assms show ?thesis by (simp add: gh_features_result known_kind_str)
qed

subsection \<open>Properties of the converter\<close>

text \<open>C22: \<open>gh_to_geojson\<close> raises \<open>AttributeError\<close> exactly when some record's
  geometry type is present and not a string; otherwise it returns a
  \<open>FeatureCollection\<close> under the given coordinate system whose features are those
  of the records of a known kind, in the records' order, the others being skipped.\<close>

theorem gh_to_geojson_result:
  "gh_to_geojson objs epsg_code =
     (if \<forall>obj \<in> set objs. geom_type_str obj
      then Inr (feature_collection epsg_code (List.map_filter feature_of objs))
      else Inl AttributeError)"
  by (simp add: gh_to_geojson_def gh_features_result)

text \<open>C23: in a feature's \<open>"properties"\<close>, a key of the record's own properties
  shadows the bookkeeping value of the same key: a Revit parameter called \<open>"type"\<close>,
  \<open>"id"\<close> or \<open>"version"\<close> replaces the object's type, id or version in the GIS
  output.\<close>

theorem feature_properties_shadow:
  assumes "dict_wf (get_or (d_properties obj) [])"
  shows "dict_get (feature_properties obj) k =
           (case dict_get (get_or (d_properties obj) []) k of
              Some v \<Rightarrow> Some v
            | None \<Rightarrow> dict_get (feature_bookkeeping obj) k)"
  using assms by (simp add: feature_properties_def map_of_rev_wf map_add_def)

subsection \<open>Witnesses\<close>

definition gj_point :: obj_dict where
  "gj_point = empty_dict\<lparr>d_id := Some (Some ''p1''), d_type := Some ''Door'',
     d_geometry := Some [(''type'', JStr ''Point''), (''coordinates'', JArr [JNum 1, JNum 2])],
     d_properties := Some [(''type'', JStr ''Single-Flush'')]\<rparr>"

definition gj_mesh :: obj_dict where
  "gj_mesh = empty_dict\<lparr>d_geometry := Some [(''type'', JStr ''Mesh'')]\<rparr>"

theorem gh_to_geojson_result_witness:
  "gh_to_geojson [gj_point, gj_mesh] ''EPSG:32633'' =
     Inr (feature_collection ''EPSG:32633''
       [JObj [(''type'', JStr ''Feature''),
              (''geometry'', JObj [(''type'', JStr ''Point''), (''coordinates'', JArr [JNum 1, JNum 2])]),
              (''properties'', JObj [(''id'', JStr ''p1''), (''gh_guid'', JNull),
                 (''type'', JStr ''Single-Flush''), (''version'', JNull), (''timestamp'', JNull)])]])"
  using gh_to_geojson_result [of "[gj_point, gj_mesh]" "''EPSG:32633''"]
  by (simp add: geom_type_str_def gj_point_def gj_mesh_def empty_dict_def feature_of_def
                geojson_feature_def geom_type_def type_lower_def point_to_geojson_def
                feature_properties_def feature_bookkeeping_def py_id_json_def str_json_def
                int_json_def ts_json_def)

theorem feature_properties_shadow_witness:
  "dict_wf (get_or (d_properties gj_point) []) \<and>
   dict_get (feature_properties gj_point) ''type'' = Some (JStr ''Single-Flush'')"
  using feature_properties_shadow [of gj_point "''type''"]
  by (simp add: gj_point_def empty_dict_def dict_wf_def dict_keys_def)

end
