(* ===== verification/Pipeline.thy ===== *)
theory Pipeline
  imports Engine Bridge GeoJson
begin

text \<open>
  Class \<open>RevitGISIntegrationPipeline\<close> of \<open>integration_pipeline.py\<close> (lines 25--417):
  the five steps Revit export, synchronisation, Grasshopper export, Grasshopper import and
  GIS export, the wait for Grasshopper's output file, and the reports. The pipeline's
  state is the record \<open>pipeline\<close>: its engine, its \<open>pipeline_log\<close>, and the contents of
  the files it writes (checkpoint, Grasshopper input, GeoJSON, report). Everything the
  pipeline learns from outside is a field of the record \<open>world\<close>: the engine's
  \<open>sys_env\<close>, the uuids of the Revit export, whether the files can be written, whether
  Grasshopper's output file exists after a given number of seconds of waiting and what it
  holds, and the \<open>AGOLExporter\<close> when credentials were given. Each step catches every
  exception (\<open>except Exception\<close>), logs it and returns its fallback value; only the
  write of the completion report is outside a \<open>try\<close>, so \<open>run_full_pipeline\<close>
  returns \<open>py_error + _\<close>. Durations and ISO dates of the reports are not modelled.
\<close>

record world =
  w_env :: sys_env
  w_uuids :: "nat \<Rightarrow> string"
  w_write_ok :: bool
  w_gh_exists :: "nat \<Rightarrow> bool"
  w_gh_output :: "obj_dict list file_state"
  w_agol :: "(obj_dict list \<Rightarrow> py_error + bool \<times> string) option"

text \<open>The keys a log entry carries besides \<open>"timestamp"\<close>, \<open>"step"\<close> and
  \<open>"status"\<close>.\<close>

datatype log_extra =
    Count string nat
  | Path string string
  | Message string string
  | Error py_error

record log_entry =
  le_timestamp :: timestamp
  le_step :: string
  le_status :: string
  le_extra :: "log_extra list"

text \<open>The two report dictionaries: \<open>_create_failure_report\<close> (lines 366--375) has no
  \<open>"summary"\<close>; \<open>_create_completion_report\<close> (lines 377--403) has one.\<close>

datatype report =
    Failed "log_entry list"
  | Completed bool "log_entry list"

record pipeline =
  pl_engine :: engine
  pl_log :: "log_entry list"
  pl_checkpoint :: "checkpoint option"
  pl_gh_input :: "obj_dict list option"
  pl_geojson :: "json option"
  pl_report :: "report option"

definition init_pipeline :: "timestamp \<Rightarrow> ledger_data file_state \<Rightarrow> pipeline" where
  "init_pipeline t f =
     \<lparr>pl_engine = init_engine t f, pl_log = [], pl_checkpoint = None, pl_gh_input = None,
      pl_geojson = None, pl_report = None\<rparr>"

text \<open>\<open>self.pipeline_log.append({...})\<close>.\<close>

definition log_step :: "timestamp \<Rightarrow> string \<Rightarrow> string \<Rightarrow> log_extra list \<Rightarrow> pipeline \<Rightarrow> pipeline" where
  "log_step t step status extra p =
     p\<lparr>pl_log := pl_log p @ [\<lparr>le_timestamp = t, le_step = step, le_status = status, le_extra = extra\<rparr>]\<rparr>"

definition py_error_name :: "py_error \<Rightarrow> string" where
  "py_error_name e = (case e of KeyError \<Rightarrow> ''KeyError'' | TypeError \<Rightarrow> ''TypeError''
     | JSONDecodeError \<Rightarrow> ''JSONDecodeError'' | IndexError \<Rightarrow> ''IndexError''
     | AttributeError \<Rightarrow> ''AttributeError'' | OSError \<Rightarrow> ''OSError''
     | ValueError \<Rightarrow> ''ValueError'')"

text \<open>The file names the steps build from the clock.\<close>

definition gh_input_file :: "timestamp \<Rightarrow> string" where
  "gh_input_file t = ''data/gh_inputs/gh_input_'' @ nat_str t @ ''.json''"

definition agol_export_path :: "timestamp \<Rightarrow> string" where
  "agol_export_path t = ''data/exports/agol_export_'' @ nat_str t"

subsection \<open>The five steps\<close>

text \<open>\<open>step_1_revit_export\<close> (lines 51--82).\<close>

definition step_1_revit_export :: "world \<Rightarrow> revit_doc \<Rightarrow> pipeline \<Rightarrow> revit_export option \<times> pipeline" where
  "step_1_revit_export w revit_document p =
     (let t = now (w_env w)
      in case export_from_revit (w_uuids w) t (w_write_ok w) revit_document of
           Inr exported \<Rightarrow>
             (Some exported, log_step t ''revit_export'' ''success''
                [Count ''elements_count'' (sum_list (map (length \<circ> snd) (rx_elements exported)))] p)
         | Inl e \<Rightarrow> (None, log_step t ''revit_export'' ''error'' [Error e] p))"

text \<open>\<open>step_2_sync_and_version\<close> (lines 84--128): flatten, synchronise, write the
  checkpoint. An exception of the engine leaves the engine as it was when it escaped.\<close>

definition step_2_sync_and_version :: "world \<Rightarrow> revit_export \<Rightarrow> pipeline \<Rightarrow> obj_dict list \<times> pipeline" where
  "step_2_sync_and_version w revit_export p =
     (let t = now (w_env w); all_elements = flatten_elements revit_export
      in case sync_revit_to_gh (w_env w) all_elements (pl_engine p) of
           Raised e s \<Rightarrow> ([], log_step t ''sync_versioning'' ''error'' [Error e] (p\<lparr>pl_engine := s\<rparr>))
         | Ok gh_data s \<Rightarrow>
             (if w_write_ok w
              then (gh_data, log_step t ''sync_versioning'' ''success''
                               [Count ''objects_versioned'' (length gh_data)]
                               (p\<lparr>pl_engine := s, pl_checkpoint := Some (save_state s)\<rparr>))
              else ([], log_step t ''sync_versioning'' ''error'' [Error OSError] (p\<lparr>pl_engine := s\<rparr>))))"

text \<open>\<open>step_3_export_grasshopper\<close> (lines 130--170).\<close>

definition step_3_export_grasshopper :: "world \<Rightarrow> obj_dict list \<Rightarrow> pipeline \<Rightarrow> string option \<times> pipeline" where
  "step_3_export_grasshopper w gh_data p =
     (let t = now (w_env w); gh_file = gh_input_file t
      in if w_write_ok w
         then (Some gh_file, log_step t ''export_grasshopper'' ''success''
                 [Path ''file'' gh_file, Count ''objects_exported'' (length gh_data)]
                 (p\<lparr>pl_gh_input := Some gh_data\<rparr>))
         else (None, log_step t ''export_grasshopper'' ''error'' [Error OSError] p))"

text \<open>\<open>step_4_import_grasshopper_modifications\<close> (lines 172--215), called after
  \<open>elapsed\<close> seconds of waiting: a missing file returns \<open>None\<close> without a log entry.\<close>

definition step_4_import_grasshopper_modifications ::
  "world \<Rightarrow> nat \<Rightarrow> pipeline \<Rightarrow> obj_dict list option \<times> pipeline" where
  "step_4_import_grasshopper_modifications w elapsed p =
     (let t = now (w_env w)
      in if \<not> w_gh_exists w elapsed then (None, p)
         else case w_gh_output w of
           Missing \<Rightarrow> (None, log_step t ''import_grasshopper'' ''error'' [Error OSError] p)
         | Corrupt \<Rightarrow> (None, log_step t ''import_grasshopper'' ''error'' [Error JSONDecodeError] p)
         | Stored gh_modified \<Rightarrow>
             (case import_from_grasshopper (w_env w) gh_modified (pl_engine p) of
                Ok _ s \<Rightarrow> (Some gh_modified, log_step t ''import_grasshopper'' ''success''
                            [Count ''objects_modified'' (length gh_modified)] (p\<lparr>pl_engine := s\<rparr>))
              | Raised e s \<Rightarrow> (None, log_step t ''import_grasshopper'' ''error'' [Error e]
                                     (p\<lparr>pl_engine := s\<rparr>))))"

text \<open>\<open>step_5_export_arcgis_online\<close> (lines 217--297), called with \<open>use_agol = True\<close>:
  with an exporter the upload's result is logged, and an exception it raises is caught
  and logged (\<open>except Exception\<close>, lines 289--297); without one \<open>export_to_shapefile\<close> is
  not called, \<open>success\<close> is \<open>False\<close>, and the GeoJSON fallback runs.\<close>

definition step_5_export_arcgis_online ::
  "world \<Rightarrow> obj_dict list \<Rightarrow> pipeline \<Rightarrow> (bool \<times> string) \<times> pipeline" where
  "step_5_export_arcgis_online w gh_modified_data p =
     (let t = now (w_env w)
      in case w_agol w of
           Some export_to_agol \<Rightarrow>
             (case export_to_agol gh_modified_data of
                Inl e \<Rightarrow> ((False, py_error_name e), log_step t ''export_agol'' ''error'' [Error e] p)
              | Inr (success, result) \<Rightarrow>
                  if success
                  then ((True, result), log_step t ''export_agol'' ''success''
                                          [Message ''agol_service_id'' result] p)
                  else ((False, result), log_step t ''export_agol'' ''error'' [Message ''error'' result] p))
         | None \<Rightarrow>
             (let export_path = agol_export_path t
              in case gh_to_geojson gh_modified_data ''EPSG:32633'' of
                   Inl e \<Rightarrow> ((False, py_error_name e), log_step t ''export_agol'' ''error'' [Error e] p)
                 | Inr geojson \<Rightarrow>
                     (if w_write_ok w
                      then ((True, export_path), log_step t ''export_agol'' ''success''
                              [Path ''export_path'' export_path] (p\<lparr>pl_geojson := Some geojson\<rparr>))
                      else ((False, py_error_name OSError),
                            log_step t ''export_agol'' ''error'' [Error OSError] p))))"

subsection \<open>The wait for Grasshopper and the run\<close>

text \<open>The loop of lines 340--345: probe the file every five seconds while fewer than
  \<open>max_wait = 300\<close> seconds have passed; the result is the elapsed time.\<close>

function wait_for_file :: "(nat \<Rightarrow> bool) \<Rightarrow> nat \<Rightarrow> nat" where
  "wait_for_file exists elapsed =
     (if elapsed < 300 \<and> \<not> exists elapsed then wait_for_file exists (elapsed + 5) else elapsed)"
  by pat_completeness auto
termination by (relation "measure (\<lambda>(_, elapsed). 300 - elapsed)") auto

declare wait_for_file.simps [simp del]

text \<open>The summary of a completion report (lines 387--391): the number of steps, of
  steps whose status is \<open>"success"\<close> or \<open>"partial"\<close>, and of steps whose status is
  \<open>"error"\<close>.\<close>

definition report_summary :: "log_entry list \<Rightarrow> nat \<times> nat \<times> nat" where
  "report_summary steps =
     (length steps, length (filter (\<lambda>s. le_status s \<in> {''success'', ''partial''}) steps),
      length (filter (\<lambda>s. le_status s = ''error'') steps))"

text \<open>\<open>report.get("summary")\<close>.\<close>

primrec report_get_summary :: "report \<Rightarrow> (nat \<times> nat \<times> nat) option" where
  "report_get_summary (Failed steps) = None"
| "report_get_summary (Completed success steps) = Some (report_summary steps)"

text \<open>\<open>_create_completion_report\<close> (lines 377--403): the report is written to a file
  outside any \<open>try\<close>.\<close>

definition create_completion_report :: "world \<Rightarrow> bool \<Rightarrow> pipeline \<Rightarrow> py_error + report \<times> pipeline" where
  "create_completion_report w success p =
     (let report = Completed success (pl_log p)
      in if w_write_ok w then Inr (report, p\<lparr>pl_report := Some report\<rparr>) else Inl OSError)"

text \<open>Step 4 of \<open>run_full_pipeline\<close> (lines 335--355), given whether a Grasshopper
  output file was named: the data step 5 exports, and the pipeline after the import.\<close>

definition gh_round :: "world \<Rightarrow> bool \<Rightarrow> obj_dict list \<Rightarrow> pipeline \<Rightarrow> obj_dict list \<times> pipeline" where
  "gh_round w wait_for_gh_input gh_data p =
     (if wait_for_gh_input then
        (let elapsed = wait_for_file (w_gh_exists w) 0
         in if \<not> w_gh_exists w elapsed then (gh_data, p)
            else (case step_4_import_grasshopper_modifications w elapsed p of
                    (None, p4) \<Rightarrow> (gh_data, p4)
                  | (Some gh_modified, p4) \<Rightarrow> (gh_modified, p4)))
      else (gh_data, p))"

text \<open>\<open>run_full_pipeline\<close> (lines 299--364): each step's falsy result ends the run
  with the failure report.\<close>

definition run_full_pipeline ::
  "world \<Rightarrow> revit_doc \<Rightarrow> bool \<Rightarrow> pipeline \<Rightarrow> py_error + report \<times> pipeline" where
  "run_full_pipeline w revit_document wait_for_gh_input p0 =
     (let (revit_export, p1) = step_1_revit_export w revit_document p0
      in case revit_export of
           None \<Rightarrow> Inr (Failed (pl_log p1), p1)
         | Some rx \<Rightarrow>
             (let (gh_data, p2) = step_2_sync_and_version w rx p1
              in if gh_data = [] then Inr (Failed (pl_log p2), p2)
                 else
                   (let (gh_input_file, p3) = step_3_export_grasshopper w gh_data p2
                    in case gh_input_file of
                         None \<Rightarrow> Inr (Failed (pl_log p3), p3)
                       | Some _ \<Rightarrow>
                           (let (gh_modified, p4) = gh_round w wait_for_gh_input gh_data p3;
                                ((success, result), p5) = step_5_export_arcgis_online w gh_modified p4
                            in create_completion_report w success p5))))"

text \<open>\<open>print_summary\<close> (lines 405--417): it reads \<open>report['summary']\<close>, which raises
  \<open>KeyError\<close> on a failure report; otherwise the counts it prints and whether it warns
  of failed steps.\<close>

definition print_summary :: "report \<Rightarrow> py_error + (nat \<times> nat \<times> bool)" where
  "print_summary report =
     (case report_get_summary report of
        None \<Rightarrow> Inl KeyError
      | Some (total_steps, successful_steps, failed_steps) \<Rightarrow>
          Inr (successful_steps, total_steps, 0 < failed_steps))"

subsection \<open>The wait loop\<close>

lemma wait_for_file_from:
  "e \<le> 300 \<Longrightarrow> 5 dvd e \<Longrightarrow>
   e \<le> wait_for_file ex e \<and> wait_for_file ex e \<le> 300 \<and> 5 dvd wait_for_file ex e \<and>
   (wait_for_file ex e < 300 \<longrightarrow> ex (wait_for_file ex e)) \<and>
   (\<forall>k. e \<le> k \<and> k < wait_for_file ex e \<and> 5 dvd k \<longrightarrow> \<not> ex k)"
proof (induction ex e rule: wait_for_file.induct)
  case (1 ex e)
  show ?case
  proof (cases "e < 300 \<and> \<not> ex e")
    case True
    then have rec: "wait_for_file ex e = wait_for_file ex (e + 5)"
      by (simp add: wait_for_file.simps)
    from True have "e < 300" by simp
    with "1.prems"(2) have "e + 5 \<le> 300" by presburger
    moreover from "1.prems" have "5 dvd e + 5" by simp
    ultimately have IH: "e + 5 \<le> wait_for_file ex (e + 5) \<and> wait_for_file ex (e + 5) \<le> 300 \<and>
        5 dvd wait_for_file ex (e + 5) \<and>
        (wait_for_file ex (e + 5) < 300 \<longrightarrow> ex (wait_for_file ex (e + 5))) \<and>
        (\<forall>k. e + 5 \<le> k \<and> k < wait_for_file ex (e + 5) \<and> 5 dvd k \<longrightarrow> \<not> ex k)"
      using "1.IH" True by blast
    have gap: "e \<le> k \<Longrightarrow> 5 dvd k \<Longrightarrow> k \<noteq> e \<Longrightarrow> e + 5 \<le> k" for k
      using "1.prems" by presburger
    show ?thesis
      unfolding rec using IH True gap by (metis add_leD1 le_antisym nat_le_linear)
  next
    case False
    then have "wait_for_file ex e = e" by (simp add: wait_for_file.simps)
    with False "1.prems" show ?thesis by auto
  qed
qed

text \<open>C25: the wait for Grasshopper's output ends, after at most 300 seconds, on a
  multiple of five: at the first probe that finds the file, or at 300 seconds when no
  probe before found it.\<close>

theorem wait_for_file_bound:
  "wait_for_file file_exists 0 \<le> 300 \<and> 5 dvd wait_for_file file_exists 0 \<and>
   (wait_for_file file_exists 0 < 300 \<longrightarrow> file_exists (wait_for_file file_exists 0)) \<and>
   (\<forall>k < wait_for_file file_exists 0. 5 dvd k \<longrightarrow> \<not> file_exists k)"
  using wait_for_file_from [of 0 file_exists] by auto

text \<open>C24: the wait sees Grasshopper's output: when the file appears at some second
  \<open>t \<le> 295\<close> of the window and stays, the loop stops with the file present, at the
  first probe after it appeared, less than five seconds later.\<close>

theorem wait_for_file_sees_file:
  assumes appears: "file_exists t" and stays: "\<forall>u \<ge> t. file_exists u" and window: "t \<le> 295"
  shows "file_exists (wait_for_file file_exists 0) \<and> wait_for_file file_exists 0 < t + 5"
proof -
  define w where "w = wait_for_file file_exists 0"
  define k where "k = 5 * ((t + 4) div 5)"
  have k: "t \<le> k" "k < t + 5" "5 dvd k" "k \<le> 295"
    using window by (auto simp: k_def)
  have bound: "w \<le> 300" "w < 300 \<longrightarrow> file_exists w" "\<forall>j < w. 5 dvd j \<longrightarrow> \<not> file_exists j"
    using wait_for_file_from [of 0 file_exists] by (auto simp: w_def)
  have "file_exists k" using stays k(1) by blast
  then have "w \<le> k" using bound(3) k(3) by (meson not_le)
  then show ?thesis using bound(2) k by (simp add: w_def)
qed

subsection \<open>The log\<close>

text \<open>Every entry of the log has status \<open>"success"\<close> or \<open>"error"\<close>.\<close>

definition log_ok :: "log_entry list \<Rightarrow> bool" where
  "log_ok steps \<longleftrightarrow> (\<forall>s \<in> set steps. le_status s \<in> {''success'', ''error''})"

lemma log_ok_log_step [simp]:
  "log_ok (pl_log (log_step t step status extra p)) \<longleftrightarrow>
     log_ok (pl_log p) \<and> status \<in> {''success'', ''error''}"
  by (auto simp: log_ok_def log_step_def)

lemma log_ok_update [simp]:
  "pl_log (p\<lparr>pl_engine := s\<rparr>) = pl_log p" "pl_log (p\<lparr>pl_engine := s, pl_checkpoint := c\<rparr>) = pl_log p"
  "pl_log (p\<lparr>pl_gh_input := g\<rparr>) = pl_log p" "pl_log (p\<lparr>pl_geojson := j\<rparr>) = pl_log p"
  by simp_all

named_theorems step_log_ok "the steps keep the statuses of the log"

lemma step_1_log_ok [step_log_ok]:
  "log_ok (pl_log p) \<Longrightarrow> log_ok (pl_log (snd (step_1_revit_export w d p)))"
  by (simp add: step_1_revit_export_def Let_def split: sum.splits)

lemma step_2_log_ok [step_log_ok]:
  "log_ok (pl_log p) \<Longrightarrow> log_ok (pl_log (snd (step_2_sync_and_version w rx p)))"
  by (simp add: step_2_sync_and_version_def Let_def split: outcome.splits)

lemma step_3_log_ok [step_log_ok]:
  "log_ok (pl_log p) \<Longrightarrow> log_ok (pl_log (snd (step_3_export_grasshopper w gh p)))"
  by (simp add: step_3_export_grasshopper_def Let_def)

lemma step_4_log_ok [step_log_ok]:
  "log_ok (pl_log p) \<Longrightarrow> log_ok (pl_log (snd (step_4_import_grasshopper_modifications w e p)))"
  by (simp add: step_4_import_grasshopper_modifications_def Let_def split: file_state.splits outcome.splits)

lemma step_5_log_ok [step_log_ok]:
  "log_ok (pl_log p) \<Longrightarrow> log_ok (pl_log (snd (step_5_export_arcgis_online w gh p)))"
  by (simp add: step_5_export_arcgis_online_def Let_def split: option.splits prod.splits sum.splits)

lemma gh_round_log_ok [step_log_ok]:
  assumes l: "log_ok (pl_log p)" shows "log_ok (pl_log (snd (gh_round w b gh p)))"
proof (cases "step_4_import_grasshopper_modifications w (wait_for_file (w_gh_exists w) 0) p")
  case (Pair g p4)
  have "log_ok (pl_log p4)"
    using step_4_log_ok [OF l, of w "wait_for_file (w_gh_exists w) 0"] Pair by simp
  with l Pair show ?thesis by (auto simp: gh_round_def Let_def split: option.splits)
qed

lemma report_summary_adds_up:
  "log_ok steps \<Longrightarrow> report_summary steps = (n, a, b) \<Longrightarrow> a + b = n"
  by (induction steps arbitrary: n a b) (auto simp: log_ok_def report_summary_def)

lemma create_completion_report_Inr:
  assumes "create_completion_report w ok p = Inr (r, p')"
  shows "w_write_ok w \<and> r = Completed ok (pl_log p) \<and> p' = p\<lparr>pl_report := Some r\<rparr>"
proof (cases "w_write_ok w")
  case True
  then have eq: "create_completion_report w ok p =
      Inr (Completed ok (pl_log p), p\<lparr>pl_report := Some (Completed ok (pl_log p))\<rparr>)"
    by (simp add: create_completion_report_def Let_def)
  from True Inr_pair_eq [OF assms eq] show ?thesis by simp
next
  case False
  with assms show ?thesis by (simp add: create_completion_report_def Let_def)
qed
text \<open>What a run returns: a report holding the pipeline's log.\<close>

lemma run_full_pipeline_Inr:
  assumes "log_ok (pl_log p)" and "run_full_pipeline w d b p = Inr (r, p')"
  shows "log_ok (pl_log p') \<and> (r = Failed (pl_log p') \<or> (\<exists>ok. r = Completed ok (pl_log p')))"
proof -
  obtain rx p1 where s1: "step_1_revit_export w d p = (rx, p1)" by (cases "step_1_revit_export w d p")
  have l1: "log_ok (pl_log p1)" using step_1_log_ok [OF assms(1), of w d] s1 by simp
  show ?thesis
  proof (cases rx)
    case None
    with s1 have eq: "run_full_pipeline w d b p = Inr (Failed (pl_log p1), p1)"
      by (simp add: run_full_pipeline_def)
    from Inr_pair_eq [OF assms(2) eq] l1 show ?thesis by simp
  next
    case (Some x)
    obtain gh p2 where s2: "step_2_sync_and_version w x p1 = (gh, p2)" by (cases "step_2_sync_and_version w x p1")
    have l2: "log_ok (pl_log p2)" using step_2_log_ok [OF l1, of w x] s2 by simp
    obtain f p3 where s3: "step_3_export_grasshopper w gh p2 = (f, p3)" by (cases "step_3_export_grasshopper w gh p2")
    have l3: "log_ok (pl_log p3)" using step_3_log_ok [OF l2, of w gh] s3 by simp
    obtain gm p4 where s4: "gh_round w b gh p3 = (gm, p4)" by (cases "gh_round w b gh p3")
    have l4: "log_ok (pl_log p4)" using gh_round_log_ok [OF l3, of w b gh] s4 by simp
    obtain ok res p5 where s5: "step_5_export_arcgis_online w gm p4 = ((ok, res), p5)"
      by (metis prod.collapse)
    have l5: "log_ok (pl_log p5)" using step_5_log_ok [OF l4, of w gm] s5 by simp
    show ?thesis
    proof (cases "gh = []")
      case True
      with Some s1 s2 have eq: "run_full_pipeline w d b p = Inr (Failed (pl_log p2), p2)"
        by (simp add: run_full_pipeline_def)
      from Inr_pair_eq [OF assms(2) eq] l2 show ?thesis by simp
    next
      case False
      show ?thesis
      proof (cases f)
        case None
        with False \<open>rx = Some x\<close> s1 s2 s3
        have eq: "run_full_pipeline w d b p = Inr (Failed (pl_log p3), p3)"
          by (simp add: run_full_pipeline_def)
        from Inr_pair_eq [OF assms(2) eq] l3 show ?thesis by simp
      next
        case (Some y)
        have "run_full_pipeline w d b p = create_completion_report w ok p5"
          using \<open>rx = Some x\<close> Some False s1 s2 s3 s4 s5 by (simp add: run_full_pipeline_def)
        with assms(2) have "create_completion_report w ok p5 = Inr (r, p')" by simp
        from create_completion_report_Inr [OF this] l5 show ?thesis by simp
      qed
    qed
  qed
qed
text \<open>C26: every entry a run appends to the log has status \<open>"success"\<close> or
  \<open>"error"\<close>: the status \<open>"partial"\<close> of step 5 is never written, since without
  an ArcGIS exporter the GeoJSON fallback always sets \<open>success\<close>. So in a completion
  report the successful and the failed steps add up to all the steps.\<close>

theorem run_full_pipeline_statuses:
  assumes "log_ok (pl_log p)" and "run_full_pipeline w d b p = Inr (r, p')"
  shows "log_ok (pl_log p') \<and>
         (\<forall>n a c. report_get_summary r = Some (n, a, c) \<longrightarrow> a + c = n)"
  using run_full_pipeline_Inr [OF assms] report_summary_adds_up by auto

subsection \<open>Failure reports\<close>

lemma step_1_Some:
  "step_1_revit_export w d p = (Some rx, p1) \<Longrightarrow> rx = export_all (w_uuids w) (now (w_env w)) d"
  by (auto simp: step_1_revit_export_def export_from_revit_def Let_def split: sum.splits if_splits)

lemma step_2_empty:
  "flatten_elements rx = [] \<Longrightarrow> objects (pl_engine p) = [] \<Longrightarrow>
   fst (step_2_sync_and_version w rx p) = []"
  by (simp add: step_2_sync_and_version_def sync_revit_to_gh_def import_from_revit_def
                check_conflicts_def export_to_grasshopper_def Let_def)

lemma flatten_export_all_empty:
  "get_or (doc_walls d) [] = [] \<Longrightarrow> get_or (doc_openings d) [] = [] \<Longrightarrow>
   get_or (doc_floors d) [] = [] \<Longrightarrow> flatten_elements (export_all uuids t d) = []"
  by (simp add: export_all_flatten)

text \<open>C27: on a document without walls, openings or floors, given to an engine holding
  no object (the run of the module's \<open>__main__\<close> block), the run ends with the failure
  report, which has no \<open>"summary"\<close>, so that \<open>print_summary\<close> raises
  \<open>KeyError\<close> on it.\<close>

theorem empty_document_summary_KeyError:
  assumes "get_or (doc_walls d) [] = []" "get_or (doc_openings d) [] = []"
    "get_or (doc_floors d) [] = []" and "objects (pl_engine p) = []"
  shows "\<exists>r p'. run_full_pipeline w d b p = Inr (r, p') \<and> print_summary r = Inl KeyError"
proof -
  obtain rx p1 where s1: "step_1_revit_export w d p = (rx, p1)" by (cases "step_1_revit_export w d p")
  have "\<exists>p'. run_full_pipeline w d b p = Inr (Failed (pl_log p'), p')"
  proof (cases rx)
    case None
    with s1 show ?thesis by (simp add: run_full_pipeline_def)
  next
    case (Some x)
    with s1 have x: "x = export_all (w_uuids w) (now (w_env w)) d" by (simp add: step_1_Some)
    have p1: "pl_engine p1 = pl_engine p"
      using s1 by (auto simp: step_1_revit_export_def log_step_def Let_def split: sum.splits)
    obtain gh p2 where s2: "step_2_sync_and_version w x p1 = (gh, p2)"
      by (cases "step_2_sync_and_version w x p1")
    from step_2_empty [of x p1 w] flatten_export_all_empty [OF assms(1-3)] x p1 assms(4) s2
    have "gh = []" by simp
    with Some s1 s2 show ?thesis by (simp add: run_full_pipeline_def)
  qed
  then show ?thesis by (auto simp: print_summary_def)
qed

subsection \<open>The import of Grasshopper's output\<close>

text \<open>C28: when Grasshopper's output file is found and parsed, the engine keeps the state
  its \<open>import_from_grasshopper\<close> reached, whether or not it raised; but the data step 5
  exports is the file's content only when the import raised nothing, and otherwise the
  records of step 2, so that the GIS export and the engine can disagree.\<close>

theorem gh_round_import:
  assumes "w_gh_exists w (wait_for_file (w_gh_exists w) 0)" and "w_gh_output w = Stored items"
  shows "pl_engine (snd (gh_round w True gh_data p)) =
           outcome_state (import_from_grasshopper (w_env w) items (pl_engine p)) \<and>
         fst (gh_round w True gh_data p) =
           (case import_from_grasshopper (w_env w) items (pl_engine p) of
              Ok _ _ \<Rightarrow> items | Raised _ _ \<Rightarrow> gh_data)"
  using assms
  by (simp add: gh_round_def step_4_import_grasshopper_modifications_def log_step_def Let_def
           split: outcome.splits)

subsection \<open>The steps when nothing fails\<close>

lemma step_1_success:
  "w_write_ok w \<Longrightarrow>
   \<exists>p1. step_1_revit_export w d p = (Some (export_all (w_uuids w) (now (w_env w)) d), p1) \<and>
     pl_engine p1 = pl_engine p \<and> map le_status (pl_log p1) = map le_status (pl_log p) @ [''success'']"
  by (simp add: step_1_revit_export_def export_from_revit_def log_step_def Let_def)

lemma step_2_success:
  "sync_revit_to_gh (w_env w) (flatten_elements rx) (pl_engine p) = Ok gh s \<Longrightarrow> w_write_ok w \<Longrightarrow>
   \<exists>p2. step_2_sync_and_version w rx p = (gh, p2) \<and> pl_engine p2 = s \<and>
     map le_status (pl_log p2) = map le_status (pl_log p) @ [''success'']"
  by (simp add: step_2_sync_and_version_def log_step_def Let_def)

lemma step_3_success:
  "w_write_ok w \<Longrightarrow>
   \<exists>f p3. step_3_export_grasshopper w gh p = (Some f, p3) \<and> pl_engine p3 = pl_engine p \<and>
     map le_status (pl_log p3) = map le_status (pl_log p) @ [''success'']"
  by (simp add: step_3_export_grasshopper_def log_step_def Let_def)

lemma step_5_geojson_success:
  "w_agol w = None \<Longrightarrow> w_write_ok w \<Longrightarrow> gh_to_geojson gh ''EPSG:32633'' = Inr j \<Longrightarrow>
   \<exists>r p5. step_5_export_arcgis_online w gh p = ((True, r), p5) \<and> pl_engine p5 = pl_engine p \<and>
     pl_geojson p5 = Some j \<and> map le_status (pl_log p5) = map le_status (pl_log p) @ [''success'']"
  by (simp add: step_5_export_arcgis_online_def log_step_def Let_def)

lemma gh_round_no_wait [simp]: "gh_round w False gh p = (gh, p)"
  by (simp add: gh_round_def)

lemma create_completion_report_success:
  "w_write_ok w \<Longrightarrow>
   create_completion_report w ok p = Inr (Completed ok (pl_log p), p\<lparr>pl_report := Some (Completed ok (pl_log p))\<rparr>)"
  by (simp add: create_completion_report_def Let_def)

subsection \<open>Witnesses\<close>

text \<open>A world where no file can be written and Grasshopper's output appears after ten
  seconds, holding the unchanged wall \<open>w1\<close> and then two records without an id;
  the Revit document of the module's \<open>__main__\<close> block, without elements.\<close>

definition demo_world :: world where
  "demo_world = \<lparr>w_env = demo_env, w_uuids = (\<lambda>n. ''0123456789''), w_write_ok = False,
     w_gh_exists = (\<lambda>e. 10 \<le> e), w_gh_output = Stored [w1_unchanged, demo_door, demo_door],
     w_agol = None\<rparr>"

definition empty_doc :: revit_doc where
  "empty_doc = \<lparr>doc_file_path = None, doc_project_name = None, doc_epsg = None, doc_origin = None,
     doc_walls = Some [], doc_openings = Some [], doc_floors = Some []\<rparr>"

definition w1_pipeline :: pipeline where
  "w1_pipeline = (init_pipeline 0 Missing)\<lparr>pl_engine := w1_engine\<rparr>"

lemma demo_world_simps [simp]:
  "w_env demo_world = demo_env" "w_write_ok demo_world = False"
  "w_gh_exists demo_world = (\<lambda>e. 10 \<le> e)"
  "w_gh_output demo_world = Stored [w1_unchanged, demo_door, demo_door]"
  "w_agol demo_world = None" "w_uuids demo_world = (\<lambda>n. ''0123456789'')"
  by (simp_all add: demo_world_def)

lemma wait_demo: "wait_for_file (\<lambda>e. (10::nat) \<le> e) 0 = 10"
  by (simp add: wait_for_file.simps)

lemma demo_gh_import:
  "\<exists>s. import_from_grasshopper demo_env [w1_unchanged, demo_door, demo_door] w1_engine = Raised KeyError s \<and>
     (\<exists>obj. get_object s (Some ''w1'') = Some obj \<and> version obj = 2)"
  by (simp add: import_from_grasshopper_def import_gh_item_def w1_engine_def w1_unchanged_def
                demo_door_def empty_dict_def from_dict_def new_data_object_def Let_def get_object_def
                version_wall_at)

theorem wait_for_file_bound_witness:
  "wait_for_file (\<lambda>e. (17::nat) \<le> e) 0 = 20 \<and> 17 \<le> wait_for_file (\<lambda>e. (17::nat) \<le> e) 0 \<and>
   5 dvd wait_for_file (\<lambda>e. (17::nat) \<le> e) 0"
proof -
  have "17 \<le> wait_for_file (\<lambda>e. (17::nat) \<le> e) 0 \<and> 5 dvd wait_for_file (\<lambda>e. (17::nat) \<le> e) 0"
    using wait_for_file_bound [of "\<lambda>e. (17::nat) \<le> e"] by (cases "wait_for_file (\<lambda>e. (17::nat) \<le> e) 0 < 300") auto
  moreover have "wait_for_file (\<lambda>e. (17::nat) \<le> e) 0 = 20" by (simp add: wait_for_file.simps)
  ultimately show ?thesis by simp
qed

theorem wait_for_file_sees_file_witness:
  "wait_for_file (\<lambda>e. (17::nat) \<le> e) 0 = 20 \<and> wait_for_file (\<lambda>e. (17::nat) \<le> e) 0 < 22"
proof -
  have "(17::nat) \<le> 17" "\<forall>u \<ge> (17::nat). 17 \<le> u" "(17::nat) \<le> 295" by auto
  from wait_for_file_sees_file [OF this] have "wait_for_file (\<lambda>e. (17::nat) \<le> e) 0 < 22" by simp
  moreover have "wait_for_file (\<lambda>e. (17::nat) \<le> e) 0 = 20" by (simp add: wait_for_file.simps)
  ultimately show ?thesis by simp
qed

theorem run_full_pipeline_statuses_witness:
  "\<exists>r p'. run_full_pipeline demo_world empty_doc False (init_pipeline 0 Missing) = Inr (r, p') \<and>
     log_ok (pl_log p') \<and> r = Failed (pl_log p') \<and> length (pl_log p') = 1"
proof -
  have run: "run_full_pipeline demo_world empty_doc False (init_pipeline 0 Missing) =
      Inr (Failed (pl_log (log_step 7 ''revit_export'' ''error'' [Error OSError] (init_pipeline 0 Missing))),
           log_step 7 ''revit_export'' ''error'' [Error OSError] (init_pipeline 0 Missing))"
    by (simp add: run_full_pipeline_def step_1_revit_export_def export_from_revit_def demo_env_def)
  have l0: "log_ok (pl_log (init_pipeline 0 Missing))" by (simp add: log_ok_def init_pipeline_def)
  from run_full_pipeline_statuses [OF l0 run] run show ?thesis
    by (simp add: log_step_def init_pipeline_def)
qed

theorem empty_document_summary_KeyError_witness:
  "\<exists>r p'. run_full_pipeline (demo_world\<lparr>w_write_ok := True\<rparr>) empty_doc False (init_pipeline 0 Missing) =
     Inr (r, p') \<and> print_summary r = Inl KeyError"
  using empty_document_summary_KeyError [of empty_doc "init_pipeline 0 Missing" "demo_world\<lparr>w_write_ok := True\<rparr>" False]
  by (simp add: empty_doc_def init_pipeline_def init_engine_def)

theorem gh_round_import_witness:
  "fst (gh_round demo_world True [] w1_pipeline) = [] \<and>
   (\<exists>obj. get_object (pl_engine (snd (gh_round demo_world True [] w1_pipeline))) (Some ''w1'') = Some obj \<and>
      version obj = 2)"
proof -
  obtain s where imp: "import_from_grasshopper demo_env [w1_unchanged, demo_door, demo_door] w1_engine = Raised KeyError s"
    and v: "\<exists>obj. get_object s (Some ''w1'') = Some obj \<and> version obj = 2"
    using demo_gh_import by blast
  have e: "w_gh_exists demo_world (wait_for_file (w_gh_exists demo_world) 0)" by (simp add: wait_demo)
  from gh_round_import [OF e, of "[w1_unchanged, demo_door, demo_door]" "[]" w1_pipeline] imp v
  show ?thesis by (simp add: w1_pipeline_def init_pipeline_def)
qed

end
