(* ===== verification/GhHelper.thy ===== *)
theory GhHelper
  imports GeoJson
begin

text \<open>
  \<open>gh_helper.py\<close>, the script a Grasshopper definition runs on the records of a
  \<open>gh_input_*.json\<close> file: \<open>GrassholperDataHelper\<close> (lines 24--241), which loads the
  records, updates, adds and soft-deletes them in place and saves them;
  \<open>GrassholperGeometryHelper\<close> (lines 244--284), conversions of coordinates; and
  \<open>GrassholperPipeline\<close> (lines 287--361), which scales every record's coordinates.

  The helper mutates Python dictionaries in place and keeps references to dictionaries its
  caller passed, so the model has an explicit store: \<open>current_data\<close> is a list of
  addresses into \<open>obj_heap\<close>, and an object's \<open>"properties"\<close> dictionary is an address
  into \<open>prop_heap\<close>, shared by every object (and caller) holding it. \<open>json.load\<close>
  allocates fresh dictionaries; \<open>add_new_object\<close> stores the caller's
  \<open>properties\<close> dictionary itself. The files of \<open>gh_inputs/\<close> and the clock are a record
  \<open>gh_world\<close>; the files written are kept in the state.

  The lemmas show that allocation leaves every allocated object as it was, that loaded
  records read back unchanged, and that every operation keeps the store well formed
  (\<open>helper_wf\<close>, an invariant of the store's encoding); the claims C33--C38 are the
  aliasing of shared dictionaries, the default-id collision, the bounds of
  \<open>point_to_tuple\<close>, the equivalence of \<open>scale_coordinates\<close> with the reference
  \<open>map_nums\<close>, the choice of the latest input, and the counts of \<open>get_summary\<close>.
\<close>

type_synonym addr = nat

text \<open>A stored object: every key but \<open>"properties"\<close> (in \<open>go_fields\<close>, whose
  \<open>d_properties\<close> is not read), and the address of its \<open>"properties"\<close> dictionary when
  it has that key.\<close>

record gh_obj =
  go_fields :: obj_dict
  go_props :: "addr option"

text \<open>The analysis dictionary \<open>load_and_analyze\<close> builds (lines 307--311).\<close>

record gh_analysis =
  loaded_objects :: nat
  geometry_types :: "(json, nat) pydict"
  properties_sample :: "(string, json) pydict"

text \<open>What \<open>json.dump\<close> writes to an output file: a list of records, the analysis
  dictionary (which the Grasshopper templates pass where records are expected), or
  \<open>None\<close>.\<close>

datatype saved_value = SavedRecords "obj_dict list" | SavedAnalysis gh_analysis | SavedNone

record gh_helper =
  current_data :: "addr list"
  current_input_file :: "string option"
  obj_heap :: "addr \<Rightarrow> gh_obj"
  prop_heap :: "addr \<Rightarrow> (string, json) pydict"
  next_addr :: addr
  saved_files :: "(string \<times> saved_value) list"

text \<open>The directory \<open>gh_inputs/\<close> as a list of (name, modification time, content), in
  the order \<open>glob\<close> lists it, and the clock.\<close>

record gh_world =
  gw_now :: timestamp
  gw_inputs :: "(string \<times> nat \<times> obj_dict list file_state) list"
  gw_write_ok :: bool

text \<open>\<open>GrassholperDataHelper.__init__\<close> (lines 27--59): no data, no input file.\<close>

definition init_gh_helper :: gh_helper where
  "init_gh_helper =
     \<lparr>current_data = [], current_input_file = None,
      obj_heap = (\<lambda>a. \<lparr>go_fields = empty_dict, go_props = None\<rparr>), prop_heap = (\<lambda>a. []),
      next_addr = 0, saved_files = []\<rparr>"

subsection \<open>The store\<close>

text \<open>The dictionary an address denotes, as \<open>json.dump\<close> writes it.\<close>

definition obj_view :: "gh_helper \<Rightarrow> addr \<Rightarrow> obj_dict" where
  "obj_view h a =
     (go_fields (obj_heap h a))\<lparr>d_properties := map_option (prop_heap h) (go_props (obj_heap h a))\<rparr>"

definition data_view :: "gh_helper \<Rightarrow> obj_dict list" where
  "data_view h = map (obj_view h) (current_data h)"

text \<open>A fresh dictionary with the given items, as a dictionary literal or
  \<open>json.load\<close> builds it.\<close>

definition new_props :: "(string, json) pydict \<Rightarrow> gh_helper \<Rightarrow> addr \<times> gh_helper" where
  "new_props ps h =
     (next_addr h, h\<lparr>prop_heap := (prop_heap h)(next_addr h := ps), next_addr := Suc (next_addr h)\<rparr>)"

definition new_obj :: "obj_dict \<Rightarrow> addr option \<Rightarrow> gh_helper \<Rightarrow> addr \<times> gh_helper" where
  "new_obj d p h =
     (next_addr h, h\<lparr>obj_heap := (obj_heap h)(next_addr h :=
                        \<lparr>go_fields = d\<lparr>d_properties := None\<rparr>, go_props = p\<rparr>),
                     next_addr := Suc (next_addr h)\<rparr>)"

text \<open>A record read by \<open>json.load\<close>: a fresh object, with a fresh \<open>"properties"\<close>
  dictionary when it has one.\<close>

definition load_obj :: "obj_dict \<Rightarrow> gh_helper \<Rightarrow> addr \<times> gh_helper" where
  "load_obj d h =
     (case d_properties d of
        None \<Rightarrow> new_obj d None h
      | Some ps \<Rightarrow> (let (p, h1) = new_props ps h in new_obj d (Some p) h1))"

fun load_objs :: "obj_dict list \<Rightarrow> gh_helper \<Rightarrow> addr list \<times> gh_helper" where
  "load_objs [] h = ([], h)"
| "load_objs (d # ds) h =
     (let (a, h1) = load_obj d h; (as, h2) = load_objs ds h1 in (a # as, h2))"

subsection \<open>Loading and saving\<close>

text \<open>\<open>glob("gh_input_*.json")\<close>.\<close>

definition is_gh_input :: "string \<Rightarrow> bool" where
  "is_gh_input name \<longleftrightarrow>
     14 \<le> length name \<and> take 9 name = ''gh_input_'' \<and> drop (length name - 5) name = ''.json''"

text \<open>\<open>max(xs, key=f)\<close>: the first element with the greatest key.\<close>

fun py_max_by :: "('a \<Rightarrow> nat) \<Rightarrow> 'a \<Rightarrow> 'a list \<Rightarrow> 'a" where
  "py_max_by f m [] = m"
| "py_max_by f m (x # xs) = py_max_by f (if f m < f x then x else m) xs"

definition file_mtime :: "string \<times> nat \<times> obj_dict list file_state \<Rightarrow> nat" where
  "file_mtime f = fst (snd f)"

text \<open>\<open>load_input_data\<close> (lines 61--98): a named file, or the latest
  \<open>gh_input_*.json\<close>; on a missing file, none, or one \<open>json.load\<close> fails on, it
  returns \<open>[]\<close> and leaves \<open>current_data\<close> as it was.\<close>

definition read_input :: "string \<times> nat \<times> obj_dict list file_state \<Rightarrow> gh_helper \<Rightarrow> obj_dict list \<times> gh_helper" where
  "read_input f h =
     (case snd (snd f) of
        Stored recs \<Rightarrow>
          (let (as, h1) = load_objs recs h
           in (recs, h1\<lparr>current_data := as, current_input_file := Some (fst f)\<rparr>))
      | _ \<Rightarrow> ([], h))"

definition load_input_data :: "gh_world \<Rightarrow> string option \<Rightarrow> gh_helper \<Rightarrow> obj_dict list \<times> gh_helper" where
  "load_input_data w filename h =
     (case filename of
        Some fn \<Rightarrow>
          (case find (\<lambda>f. fst f = fn) (gw_inputs w) of
             None \<Rightarrow> ([], h)
           | Some f \<Rightarrow> read_input f h)
      | None \<Rightarrow>
          (case filter (\<lambda>f. is_gh_input (fst f)) (gw_inputs w) of
             [] \<Rightarrow> ([], h)
           | f # fs \<Rightarrow> read_input (py_max_by file_mtime f fs) h))"

text \<open>\<open>save_output_data\<close> (lines 100--127): the file name defaults to one built from
  the clock; a failed write returns \<open>None\<close>. After the write, \<open>len(modified_data)\<close>
  raises \<open>TypeError\<close> on \<open>None\<close>, so that the file holding \<open>null\<close> is written and
  \<open>None\<close> returned.\<close>

definition save_output_data ::
  "gh_world \<Rightarrow> saved_value \<Rightarrow> string option \<Rightarrow> gh_helper \<Rightarrow> string option \<times> gh_helper" where
  "save_output_data w modified_data filename h =
     (let name = get_or filename (''gh_output_'' @ nat_str (gw_now w) @ ''.json'')
      in if gw_write_ok w
         then (let h1 = h\<lparr>saved_files := saved_files h @ [(name, modified_data)]\<rparr>
               in case modified_data of
                    SavedNone \<Rightarrow> (None, h1)
                  | _ \<Rightarrow> (Some (''gh_outputs/'' @ name), h1))
         else (None, h))"

subsection \<open>Editing the records\<close>

text \<open>\<open>get_object_by_id\<close> (lines 129--134): the first object whose \<open>obj.get("id")\<close>
  equals the id.\<close>

definition get_object_by_id :: "py_id \<Rightarrow> gh_helper \<Rightarrow> addr option" where
  "get_object_by_id obj_id' h =
     find (\<lambda>a. get_or (d_id (go_fields (obj_heap h a))) None = obj_id') (current_data h)"

text \<open>\<open>if not obj\<close>: an object found is false only when it is the empty dictionary.\<close>

definition found_obj :: "py_id \<Rightarrow> gh_helper \<Rightarrow> addr option" where
  "found_obj obj_id' h =
     (case get_object_by_id obj_id' h of
        None \<Rightarrow> None
      | Some a \<Rightarrow> if obj_view h a = empty_dict then None else Some a)"

text \<open>The dictionary \<open>updates\<close> of \<open>update_object\<close>: its \<open>"properties"\<close> and
  \<open>"geometry"\<close> keys.\<close>

record obj_update =
  u_properties :: "(string, json) pydict option"
  u_geometry :: "(string, json) pydict option"

text \<open>\<open>update_object\<close> (lines 136--166): \<open>obj["properties"].update(...)\<close> updates
  the stored dictionary in place (and raises \<open>KeyError\<close> when the object has none), the
  geometry is replaced, the version incremented from \<open>obj.get("version", 1)\<close>.\<close>

definition update_object ::
  "gh_world \<Rightarrow> py_id \<Rightarrow> obj_update \<Rightarrow> gh_helper \<Rightarrow> py_error + bool \<times> gh_helper" where
  "update_object w obj_id' updates h =
     (case found_obj obj_id' h of
        None \<Rightarrow> Inr (False, h)
      | Some a \<Rightarrow>
          (let ob = obj_heap h a; fields = go_fields ob
           in case (case u_properties updates of
                      None \<Rightarrow> Inr (prop_heap h)
                    | Some ups \<Rightarrow>
                        (case go_props ob of
                           None \<Rightarrow> Inl KeyError
                         | Some p \<Rightarrow> Inr ((prop_heap h)(p := dict_set_all (prop_heap h p) ups)))) of
                Inl e \<Rightarrow> Inl e
              | Inr props \<Rightarrow>
                  (let fields1 = (case u_geometry updates of
                                    None \<Rightarrow> fields | Some g \<Rightarrow> fields\<lparr>d_geometry := Some g\<rparr>);
                       fields2 = fields1\<lparr>d_version := Some (get_or (d_version fields1) 1 + 1),
                                         d_timestamp := Some (gw_now w)\<rparr>
                   in Inr (True, h\<lparr>prop_heap := props,
                                   obj_heap := (obj_heap h)(a := ob\<lparr>go_fields := fields2\<rparr>)\<rparr>))))"

text \<open>\<open>add_new_object\<close> (lines 168--199): the id defaults to \<open>gh_new_\<close> followed by
  the number of objects; the caller's \<open>properties\<close> dictionary, at address
  \<open>properties'\<close>, is stored by reference.\<close>

definition add_new_object ::
  "gh_world \<Rightarrow> string \<Rightarrow> addr \<Rightarrow> (string, json) pydict \<Rightarrow> string option \<Rightarrow> gh_helper \<Rightarrow> addr \<times> gh_helper" where
  "add_new_object w obj_type' properties' geometry' obj_id' h =
     (let oid = get_or obj_id' (''gh_new_'' @ nat_str (length (current_data h)));
          (a, h1) = new_obj (empty_dict\<lparr>d_id := Some (Some oid), d_gh_guid := Some (Some oid),
                               d_type := Some obj_type', d_version := Some 1,
                               d_timestamp := Some (gw_now w), d_geometry := Some geometry'\<rparr>)
                      (Some properties') h
      in (a, h1\<lparr>current_data := current_data h1 @ [a]\<rparr>))"

text \<open>\<open>delete_object\<close> (lines 201--213): a soft delete.\<close>

definition delete_object :: "gh_world \<Rightarrow> py_id \<Rightarrow> gh_helper \<Rightarrow> bool \<times> gh_helper" where
  "delete_object w obj_id' h =
     (case found_obj obj_id' h of
        None \<Rightarrow> (False, h)
      | Some a \<Rightarrow>
          (True, h\<lparr>obj_heap := (obj_heap h)(a := (obj_heap h a)\<lparr>go_fields :=
                    (go_fields (obj_heap h a))\<lparr>d_deleted := Some True,
                                                d_deleted_timestamp := Some (gw_now w)\<rparr>\<rparr>)\<rparr>))"

text \<open>\<open>get_summary\<close> (lines 215--228): the number of objects of each type (in the
  order types first occur), the input file and the last object's timestamp.\<close>

definition count_key :: "('k, nat) pydict \<Rightarrow> 'k \<Rightarrow> ('k, nat) pydict" where
  "count_key counts k = dict_set counts k (get_or (dict_get counts k) 0 + 1)"

record gh_summary =
  total_objects :: nat
  types :: "(string, nat) pydict"
  input_file :: "string option"
  last_modified :: "timestamp option"

definition get_summary :: "gh_helper \<Rightarrow> gh_summary" where
  "get_summary h =
     (let data = data_view h
      in \<lparr>total_objects = length data,
          types = foldl count_key [] (map (\<lambda>obj. get_or (d_type obj) ''Unknown'') data),
          input_file = current_input_file h,
          last_modified = (if data = [] then None else d_timestamp (last data))\<rparr>)"

subsection \<open>Geometry conversions\<close>

text \<open>Iterating over a JSON value (\<open>for x in v\<close>, \<open>tuple(v)\<close>): the items of a
  list, the one-character strings of a string, the keys of a dictionary; a number,
  boolean or \<open>None\<close> raises \<open>TypeError\<close>. Tuples are modelled as lists.\<close>

fun py_iter :: "json \<Rightarrow> py_error + json list" where
  "py_iter (JArr xs) = Inr xs"
| "py_iter (JStr s) = Inr (map (\<lambda>c. JStr [c]) s)"
| "py_iter (JObj kvs) = Inr (map (\<lambda>kv. JStr (fst kv)) kvs)"
| "py_iter _ = Inl TypeError"

text \<open>\<open>v[0]\<close>: an empty list or string raises \<open>IndexError\<close>, a dictionary (whose
  keys are strings) \<open>KeyError\<close>, anything else \<open>TypeError\<close>.\<close>

fun py_index0 :: "json \<Rightarrow> py_error + json" where
  "py_index0 (JArr []) = Inl IndexError"
| "py_index0 (JArr (x # xs)) = Inr x"
| "py_index0 (JStr []) = Inl IndexError"
| "py_index0 (JStr (c # cs)) = Inr (JStr [c])"
| "py_index0 (JObj kvs) = Inl KeyError"
| "py_index0 _ = Inl TypeError"

text \<open>\<open>GrassholperGeometryHelper\<close> (lines 247--284).\<close>

definition linestring_to_points :: "json list \<Rightarrow> py_error + json list list" where
  "linestring_to_points coordinates = py_map py_iter coordinates"

definition polygon_to_vertices :: "json list \<Rightarrow> py_error + json list list" where
  "polygon_to_vertices coordinates =
     (case coordinates of
        [] \<Rightarrow> Inr []
      | ring # _ \<Rightarrow> (case py_iter ring of Inl e \<Rightarrow> Inl e | Inr cs \<Rightarrow> py_map py_iter cs))"

definition point_to_tuple :: "json list \<Rightarrow> json list" where
  "point_to_tuple coordinates =
     (if 3 \<le> length coordinates then take 3 coordinates
      else coordinates @ replicate (3 - length coordinates) (JNum 0))"

definition geometry_to_gh_curve :: "(string, json) pydict \<Rightarrow> py_error + json" where
  "geometry_to_gh_curve geom =
     (case type_lower geom of
        Inl e \<Rightarrow> Inl e
      | Inr gtype \<Rightarrow>
          (let coords = get_or (dict_get geom ''coordinates'') (JArr [])
           in if gtype = ''point'' then Inr coords
              else if gtype = ''linestring'' then Inr coords
              else if gtype = ''polygon'' then (if py_truthy coords then py_index0 coords else Inr (JArr []))
              else Inr (JArr [])))"

subsection \<open>The processing pipeline\<close>

text \<open>\<open>GrassholperPipeline._scale_coordinates\<close> (lines 345--351): \<open>coords[0]\<close>
  decides between recursing into every item and multiplying every item; \<open>mul\<close> is
  \<open>val * scale_factor\<close>, which raises \<open>TypeError\<close> on what is not a number.\<close>

definition is_jarr :: "json \<Rightarrow> bool" where
  "is_jarr v \<longleftrightarrow> (case v of JArr _ \<Rightarrow> True | _ \<Rightarrow> False)"

function scale_coordinates :: "(json \<Rightarrow> py_error + json) \<Rightarrow> json \<Rightarrow> py_error + json" where
  "scale_coordinates mul coords =
     (case py_index0 coords of
        Inl e \<Rightarrow> Inl e
      | Inr c0 \<Rightarrow>
          (case coords of
             JArr cs \<Rightarrow>
               (case (if is_jarr c0 then py_map (scale_coordinates mul) cs else py_map mul cs) of
                  Inl e \<Rightarrow> Inl e
                | Inr cs' \<Rightarrow> Inr (JArr cs'))
           | _ \<Rightarrow> Inl TypeError))"
  by pat_completeness auto
termination
  by (relation "measure (\<lambda>(mul, coords). size coords)")
     (auto simp: less_Suc_eq_le intro: size_list_estimation' [where y = "size _"])

declare scale_coordinates.simps [simp del]

text \<open>The multiplier \<open>process_example\<close> passes, \<open>val * scale_factor\<close> (line 351), with
  the factor's action on a number as a function \<open>f\<close>. A \<open>bool\<close> is the number 0 or
  1 in Python (\<open>True * 1.5 = 1.5\<close>); any other value raises \<open>TypeError\<close>.\<close>

definition num_mul :: "(int \<Rightarrow> int) \<Rightarrow> json \<Rightarrow> py_error + json" where
  "num_mul f v =
     (case v of JNum i \<Rightarrow> Inr (JNum (f i)) | JBool b \<Rightarrow> Inr (JNum (f (of_bool b)))
              | _ \<Rightarrow> Inl TypeError)"

text \<open>The reference the scaling is checked against: a GeoJSON coordinate array is a
  non-empty array of numbers, or a non-empty array of coordinate arrays, and scaling
  applies \<open>f\<close> to every number of it.\<close>

definition is_jnum :: "json \<Rightarrow> bool" where
  "is_jnum v \<longleftrightarrow> (case v of JNum _ \<Rightarrow> True | JBool _ \<Rightarrow> True | _ \<Rightarrow> False)"

fun coord_shape :: "json \<Rightarrow> bool" where
  "coord_shape (JArr (c # cs)) =
     (if is_jarr c then list_all coord_shape (c # cs) else list_all is_jnum (c # cs))"
| "coord_shape _ = False"

fun map_nums :: "(int \<Rightarrow> int) \<Rightarrow> json \<Rightarrow> json" where
  "map_nums f (JNum i) = JNum (f i)"
| "map_nums f (JBool b) = JNum (f (of_bool b))"
| "map_nums f (JArr xs) = JArr (map (map_nums f) xs)"
| "map_nums f v = v"

text \<open>The body of the loop of \<open>process_example\<close> (lines 330--340): the scaled
  coordinates are written into the object's geometry (a geometry the object lacks is a
  fresh dictionary, and the write is lost), then the version and timestamp are set.\<close>

definition process_obj ::
  "gh_world \<Rightarrow> (json \<Rightarrow> py_error + json) \<Rightarrow> gh_helper \<Rightarrow> addr \<Rightarrow> (unit, gh_helper) outcome" where
  "process_obj w mul h a =
     (let ob = obj_heap h a; fields = go_fields ob;
          coords = get_or (dict_get (get_or (d_geometry fields) []) ''coordinates'') (JArr [])
      in case scale_coordinates mul coords of
           Inl e \<Rightarrow> Raised e h
         | Inr scaled \<Rightarrow>
             (let fields1 = (case d_geometry fields of
                               None \<Rightarrow> fields
                             | Some g \<Rightarrow> fields\<lparr>d_geometry := Some (dict_set g ''coordinates'' scaled)\<rparr>);
                  fields2 = fields1\<lparr>d_version := Some (get_or (d_version fields1) 1 + 1),
                                    d_timestamp := Some (gw_now w)\<rparr>
              in Ok () (h\<lparr>obj_heap := (obj_heap h)(a := ob\<lparr>go_fields := fields2\<rparr>)\<rparr>)))"

text \<open>\<open>process_example\<close> (lines 323--343): reload the latest input, then scale every
  object; an exception escapes with the objects before it already scaled.\<close>

definition process_example ::
  "gh_world \<Rightarrow> (json \<Rightarrow> py_error + json) \<Rightarrow> gh_helper \<Rightarrow> (obj_dict list, gh_helper) outcome" where
  "process_example w mul h =
     (let h1 = snd (load_input_data w None h)
      in case run_items (process_obj w mul) h1 (current_data h1) of
           Ok _ h2 \<Rightarrow> Ok (data_view h2) h2
         | Raised e h2 \<Rightarrow> Raised e h2)"

text \<open>\<open>load_and_analyze\<close> (lines 294--321): the number of objects, the count of each
  geometry type, and the first object's properties.\<close>

definition load_and_analyze :: "gh_world \<Rightarrow> gh_helper \<Rightarrow> gh_analysis option \<times> gh_helper" where
  "load_and_analyze w h =
     (let (data, h1) = load_input_data w None h
      in if data = [] then (None, h1)
         else (Some \<lparr>loaded_objects = length data,
                     geometry_types = foldl count_key []
                       (map (\<lambda>obj. get_or (dict_get (get_or (d_geometry obj) []) ''type'') (JStr ''Unknown'')) data),
                     properties_sample = get_or (d_properties (hd data)) []\<rparr>, h1))"

text \<open>\<open>save_and_export\<close> (lines 353--361).\<close>

definition save_and_export :: "gh_world \<Rightarrow> gh_helper \<Rightarrow> string option \<times> gh_helper" where
  "save_and_export w h = save_output_data w (SavedRecords (data_view h)) None h"

subsection \<open>The store under allocation\<close>

text \<open>An address the helper has allocated, whose \<open>"properties"\<close> dictionary is
  allocated too.\<close>

definition addr_ok :: "gh_helper \<Rightarrow> addr \<Rightarrow> bool" where
  "addr_ok h a \<longleftrightarrow> a < next_addr h \<and> (case go_props (obj_heap h a) of None \<Rightarrow> True | Some p \<Rightarrow> p < next_addr h)"

lemma addr_ok_iff:
  "addr_ok h a \<longleftrightarrow> a < next_addr h \<and> (\<forall>p. go_props (obj_heap h a) = Some p \<longrightarrow> p < next_addr h)"
  by (simp add: addr_ok_def split: option.split)

text \<open>The well-formed store: every object of \<open>current_data\<close> is allocated, once.\<close>

definition helper_wf :: "gh_helper \<Rightarrow> bool" where
  "helper_wf h \<longleftrightarrow> distinct (current_data h) \<and> (\<forall>a \<in> set (current_data h). addr_ok h a)"

lemma map_option_upd_fresh [simp]:
  "(\<forall>p. q = Some p \<longrightarrow> p < (n::addr)) \<Longrightarrow> map_option (f(n := v)) q = map_option f q"
  by (cases q) auto

lemma new_props_frame:
  assumes "new_props ps h = (p, h1)"
  shows "p = next_addr h" "prop_heap h1 p = ps" "next_addr h1 = Suc (next_addr h)"
    "obj_heap h1 = obj_heap h" "current_data h1 = current_data h"
    "addr_ok h b \<Longrightarrow> addr_ok h1 b \<and> obj_view h1 b = obj_view h b"
  using assms by (auto simp: new_props_def addr_ok_iff obj_view_def)

lemma new_obj_frame:
  assumes "new_obj d q h = (a, h1)"
  shows "a = next_addr h" "go_props (obj_heap h1 a) = q" "go_fields (obj_heap h1 a) = d\<lparr>d_properties := None\<rparr>"
    "next_addr h1 = Suc (next_addr h)" "prop_heap h1 = prop_heap h" "current_data h1 = current_data h"
    "addr_ok h b \<Longrightarrow> addr_ok h1 b \<and> obj_view h1 b = obj_view h b"
  using assms by (auto simp: new_obj_def addr_ok_iff obj_view_def)

text \<open>A loaded record is allocated fresh, reads back as itself, and leaves every
  allocated object as it was.\<close>

lemma load_obj_frame:
  assumes "load_obj d h = (a, h1)"
  shows "obj_view h1 a = d" "addr_ok h1 a" "next_addr h \<le> a" "next_addr h \<le> next_addr h1"
    "current_data h1 = current_data h"
    "addr_ok h b \<Longrightarrow> addr_ok h1 b \<and> obj_view h1 b = obj_view h b"
proof -
  have "obj_view h1 a = d \<and> addr_ok h1 a \<and> next_addr h \<le> a \<and> next_addr h \<le> next_addr h1 \<and>
        current_data h1 = current_data h \<and> (addr_ok h b \<longrightarrow> addr_ok h1 b \<and> obj_view h1 b = obj_view h b)"
  proof (cases "d_properties d")
    case None
    with assms have o: "new_obj d None h = (a, h1)" by (simp add: load_obj_def)
    from None new_obj_frame [OF o] show ?thesis
      by (auto simp: obj_view_def addr_ok_iff)
  next
    case (Some ps)
    obtain p h0 where np: "new_props ps h = (p, h0)" by fastforce
    with Some assms have o: "new_obj d (Some p) h0 = (a, h1)" by (simp add: load_obj_def)
    note P = new_props_frame [OF np] and O = new_obj_frame [OF o]
    have "addr_ok h1 a" using P O by (simp add: addr_ok_iff)
    moreover have "obj_view h1 a = d" using Some P O by (simp add: obj_view_def)
    moreover have "addr_ok h b \<longrightarrow> addr_ok h1 b \<and> obj_view h1 b = obj_view h b"
      using P(6) O(7) by auto
    ultimately show ?thesis using P O by simp
  qed
  then show "obj_view h1 a = d" "addr_ok h1 a" "next_addr h \<le> a" "next_addr h \<le> next_addr h1"
    "current_data h1 = current_data h" "addr_ok h b \<Longrightarrow> addr_ok h1 b \<and> obj_view h1 b = obj_view h b"
    by auto
qed

lemma load_objs_frame:
  assumes "load_objs ds h = (as, h1)"
  shows "map (obj_view h1) as = ds \<and> distinct as \<and> (\<forall>a \<in> set as. addr_ok h1 a \<and> next_addr h \<le> a) \<and>
         next_addr h \<le> next_addr h1 \<and> current_data h1 = current_data h \<and>
         (\<forall>b. addr_ok h b \<longrightarrow> addr_ok h1 b \<and> obj_view h1 b = obj_view h b)"
  using assms
proof (induction ds arbitrary: h as)
  case Nil
  then show ?case by simp
next
  case (Cons d ds)
  obtain a h0 where a: "load_obj d h = (a, h0)" by fastforce
  obtain as' where rest: "load_objs ds h0 = (as', h1)" and as: "as = a # as'"
    using Cons.prems a by (auto split: prod.splits)
  note fa = load_obj_frame [OF a]
  note IH = Cons.IH [OF rest]
  have "a \<notin> set as'" using IH fa(2) unfolding addr_ok_iff by fastforce
  with IH fa show ?case by (auto simp: as)
qed


subsection \<open>Loading the latest input\<close>

lemma py_max_by_ge: "\<forall>y \<in> set (m # xs). f y \<le> f (py_max_by f m xs)"
proof (induction xs arbitrary: m)
  case (Cons x xs)
  then show ?case using Cons.IH [of x] Cons.IH [of m] by (cases "f m < f x") force+
qed simp

lemma py_max_by_first_max:
  "\<exists>pre post. m # xs = pre @ py_max_by f m xs # post \<and>
     (\<forall>y \<in> set pre. f y < f (py_max_by f m xs)) \<and> (\<forall>y \<in> set post. f y \<le> f (py_max_by f m xs))"
proof (induction xs arbitrary: m)
  case Nil
  show ?case by (intro exI [of _ "[]"]) simp
next
  case (Cons x xs)
  let ?r = "py_max_by f (if f m < f x then x else m) xs"
  have r: "py_max_by f m (x # xs) = ?r" by simp
  show ?case
  proof (cases "f m < f x")
    case True
    obtain pre post where "x # xs = pre @ ?r # post" "\<forall>y \<in> set pre. f y < f ?r" "\<forall>y \<in> set post. f y \<le> f ?r"
      using Cons.IH [of x] True by auto
    moreover have "f m < f ?r" using True py_max_by_ge [of x xs f] by simp
    ultimately show ?thesis unfolding r by (intro exI [of _ "m # pre"] exI [of _ post]) auto
  next
    case False
    obtain pre post where pp: "m # xs = pre @ ?r # post" "\<forall>y \<in> set pre. f y < f ?r" "\<forall>y \<in> set post. f y \<le> f ?r"
      using Cons.IH [of m] False by auto
    show ?thesis
    proof (cases pre)
      case Nil
      with pp False show ?thesis unfolding r by (intro exI [of _ "[]"] exI [of _ "x # post"]) auto
    next
      case (Cons m' pre')
      with pp False show ?thesis unfolding r by (intro exI [of _ "m # x # pre'"] exI [of _ post]) auto
    qed
  qed
qed

lemma obj_view_current [simp]:
  "obj_view (h\<lparr>current_data := as, current_input_file := fi\<rparr>) = obj_view h"
  by (simp add: obj_view_def fun_eq_iff)

lemma read_input_Stored:
  assumes "read_input (name, mt, Stored recs) h = (data, h')"
  shows "data = recs \<and> data_view h' = recs \<and> current_input_file h' = Some name"
proof -
  obtain as h1 where l: "load_objs recs h = (as, h1)" by fastforce
  with assms have "data = recs" "h' = h1\<lparr>current_data := as, current_input_file := Some name\<rparr>"
    by (simp_all add: read_input_def)
  with load_objs_frame [OF l] show ?thesis by (simp add: data_view_def)
qed

text \<open>C37: with no file name, \<open>load_input_data\<close> reads the \<open>gh_input_*.json\<close> file
  with the latest modification time, the first such in \<open>glob\<close>'s order when several
  tie; when that file holds records, they are returned, become \<open>current_data\<close> (each
  reading back as the record read) and the file becomes the current input; when it is
  missing or not JSON, \<open>[]\<close> is returned and the helper is left as it was, stale
  \<open>current_data\<close> included.\<close>

theorem load_input_data_latest:
  assumes "filter (\<lambda>f. is_gh_input (fst f)) (gw_inputs w) = f # fs"
    and "py_max_by file_mtime f fs = (name, mt, c)"
  shows "(\<exists>pre post. f # fs = pre @ (name, mt, c) # post \<and>
            (\<forall>g \<in> set pre. file_mtime g < mt) \<and> (\<forall>g \<in> set post. file_mtime g \<le> mt)) \<and>
         (case c of
            Stored recs \<Rightarrow> (let (data, h') = load_input_data w None h
                            in data = recs \<and> data_view h' = recs \<and> current_input_file h' = Some name)
          | _ \<Rightarrow> load_input_data w None h = ([], h))"
proof -
  have L: "load_input_data w None h = read_input (name, mt, c) h"
    using assms by (simp add: load_input_data_def)
  have "\<exists>pre post. f # fs = pre @ (name, mt, c) # post \<and>
            (\<forall>g \<in> set pre. file_mtime g < mt) \<and> (\<forall>g \<in> set post. file_mtime g \<le> mt)"
    using py_max_by_first_max [of f fs file_mtime] assms(2) by (simp add: file_mtime_def)
  moreover have "case c of
            Stored recs \<Rightarrow> (let (data, h') = load_input_data w None h
                            in data = recs \<and> data_view h' = recs \<and> current_input_file h' = Some name)
          | _ \<Rightarrow> load_input_data w None h = ([], h)"
  proof (cases c)
    case (Stored recs)
    then show ?thesis unfolding L using read_input_Stored [of name mt recs h] by (auto split: prod.split)
  qed (simp_all add: L read_input_def)
  ultimately show ?thesis by blast
qed


subsection \<open>The invariant of the store\<close>

lemma addr_ok_current_data [simp]: "addr_ok (h\<lparr>current_data := as\<rparr>) = addr_ok h"
  by (simp add: addr_ok_iff fun_eq_iff)

lemma helper_wf_cong:
  assumes "next_addr h' = next_addr h" "current_data h' = current_data h"
    "\<And>c. go_props (obj_heap h' c) = go_props (obj_heap h c)"
  shows "helper_wf h' = helper_wf h"
  using assms by (simp add: helper_wf_def addr_ok_iff)

lemma update_object_wf: "helper_wf h \<Longrightarrow> update_object w i u h = Inr (r, h') \<Longrightarrow> helper_wf h'"
  by (subst helper_wf_cong [of h' h])
     (auto simp: update_object_def Let_def split: option.splits sum.splits if_splits)

lemma delete_object_wf: "helper_wf h \<Longrightarrow> helper_wf (snd (delete_object w i h))"
  by (subst helper_wf_cong [of _ h]) (auto simp: delete_object_def split: option.splits)

lemma save_output_data_wf: "helper_wf h \<Longrightarrow> helper_wf (snd (save_output_data w ds fn h))"
  by (subst helper_wf_cong [of _ h]) (auto simp: save_output_data_def Let_def split: saved_value.split)

lemma add_new_object_wf:
  assumes "helper_wf h" "p < next_addr h"
  shows "helper_wf (snd (add_new_object w t p g oid h))"
proof -
  obtain a h1 where o: "new_obj (empty_dict\<lparr>d_id := Some (Some (get_or oid (''gh_new_'' @ nat_str (length (current_data h))))),
                               d_gh_guid := Some (Some (get_or oid (''gh_new_'' @ nat_str (length (current_data h))))),
                               d_type := Some t, d_version := Some 1,
                               d_timestamp := Some (gw_now w), d_geometry := Some g\<rparr>) (Some p) h = (a, h1)"
    by fastforce
  then have s: "snd (add_new_object w t p g oid h) = h1\<lparr>current_data := current_data h @ [a]\<rparr>"
    using new_obj_frame(6) [OF o] by (simp add: add_new_object_def Let_def)
  note O = new_obj_frame [OF o]
  have "a \<notin> set (current_data h)" using assms(1) O(1) by (auto simp: helper_wf_def addr_ok_iff)
  moreover have "addr_ok h1 a" using O assms(2) by (simp add: addr_ok_iff)
  ultimately show ?thesis using assms(1) O(7) unfolding s by (auto simp: helper_wf_def)
qed

lemma read_input_wf: "helper_wf h \<Longrightarrow> helper_wf (snd (read_input f h))"
proof (cases "snd (snd f)")
  case (Stored recs)
  obtain as h1 where l: "load_objs recs h = (as, h1)" by fastforce
  with Stored load_objs_frame [OF l] show ?thesis
    by (simp add: read_input_def helper_wf_def addr_ok_iff)
qed (simp_all add: read_input_def)

lemma load_input_data_wf: "helper_wf h \<Longrightarrow> helper_wf (snd (load_input_data w fn h))"
  by (auto simp: load_input_data_def read_input_wf split: option.split list.split)

lemma process_obj_wf: "helper_wf h \<Longrightarrow> helper_wf (outcome_state (process_obj w mul h a))"
  by (subst helper_wf_cong [of _ h]) (auto simp: process_obj_def Let_def split: sum.split)

lemma process_example_wf: "helper_wf h \<Longrightarrow> helper_wf (outcome_state (process_example w mul h))"
proof -
  assume "helper_wf h"
  then have "helper_wf (snd (load_input_data w None h))" by (rule load_input_data_wf)
  then have "helper_wf (outcome_state (run_items (process_obj w mul) (snd (load_input_data w None h))
                         (current_data (snd (load_input_data w None h)))))"
    using run_items_invariant [where P = helper_wf and f = "process_obj w mul", OF process_obj_wf] by blast
  then show ?thesis by (auto simp: process_example_def Let_def split: outcome.split)
qed

text \<open>The store stays well formed (every object of \<open>current_data\<close> allocated,
  with its \<open>"properties"\<close> dictionary, and listed once) under every operation of the
  helper: update, add (of a dictionary the caller allocated), delete, load, save and the
  scaling run, whether that run completes or raises.\<close>

theorem helper_wf_preserved:
  assumes "helper_wf h"
  shows "(update_object w i u h = Inr (r, h') \<longrightarrow> helper_wf h') \<and>
         (p < next_addr h \<longrightarrow> helper_wf (snd (add_new_object w t p g oid h))) \<and>
         helper_wf (snd (delete_object w i h)) \<and>
         helper_wf (snd (load_input_data w fn h)) \<and>
         helper_wf (snd (save_output_data w ds fn h)) \<and>
         helper_wf (outcome_state (process_example w mul h))"
  using update_object_wf [OF assms] add_new_object_wf [OF assms] delete_object_wf [OF assms]
    load_input_data_wf [OF assms] save_output_data_wf [OF assms] process_example_wf [OF assms]
  by blast

subsection \<open>Editing: shared dictionaries and default ids\<close>

text \<open>C33: \<open>update_object\<close> updates the \<open>"properties"\<close> dictionary of the object found
  in place, so every other object holding the same dictionary (two objects
  \<open>add_new_object\<close> was given one dictionary for) changes with it, while its own
  version and timestamp stay as they were.\<close>

theorem update_object_shared_properties:
  assumes "found_obj i h = Some a" "go_props (obj_heap h a) = Some p" "go_props (obj_heap h b) = Some p"
    "u_properties u = Some ups"
  shows "\<exists>h'. update_object w i u h = Inr (True, h') \<and>
           d_properties (obj_view h' b) = Some (dict_set_all (prop_heap h p) ups) \<and>
           (b \<noteq> a \<longrightarrow> go_fields (obj_heap h' b) = go_fields (obj_heap h b))"
  using assms by (auto simp: update_object_def obj_view_def Let_def)

lemma get_object_by_id_Some:
  "get_object_by_id i h = Some b \<Longrightarrow> b \<in> set (current_data h) \<and> get_or (d_id (go_fields (obj_heap h b))) None = i"
  by (auto simp: get_object_by_id_def find_Some_iff)

text \<open>C34: the default id \<open>gh_new_<n>\<close>, \<open>n\<close> the number of objects, is not
  checked against the ids present: when an object already has it, the new object is
  added under the same id and \<open>get_object_by_id\<close> (so \<open>update_object\<close> and
  \<open>delete_object\<close>) still finds the old one.\<close>

theorem add_new_object_id_collision:
  assumes "helper_wf h" and "oid = ''gh_new_'' @ nat_str (length (current_data h))"
    and "get_object_by_id (Some oid) h = Some b" and "add_new_object w t p g None h = (a, h')"
  shows "a \<noteq> b \<and> d_id (obj_view h' a) = Some (Some oid) \<and> get_object_by_id (Some oid) h' = Some b"
proof -
  obtain a1 h1 where o0: "new_obj (empty_dict\<lparr>d_id := Some (Some oid), d_gh_guid := Some (Some oid),
                               d_type := Some t, d_version := Some 1,
                               d_timestamp := Some (gw_now w), d_geometry := Some g\<rparr>) (Some p) h = (a1, h1)"
    by fastforce
  then have "add_new_object w t p g None h = (a1, h1\<lparr>current_data := current_data h1 @ [a1]\<rparr>)"
    using assms(2) by (simp add: add_new_object_def Let_def)
  then have "(a1, h1\<lparr>current_data := current_data h1 @ [a1]\<rparr>) = (a, h')" using assms(4) by simp
  then have a1: "a1 = a" and h': "h' = h1\<lparr>current_data := current_data h1 @ [a]\<rparr>" by auto
  note o = o0 [unfolded a1]
  note O = new_obj_frame [OF o]
  have small: "c < a" if "c \<in> set (current_data h)" for c
    using assms(1) that O(1) by (auto simp: helper_wf_def addr_ok_iff)
  have b: "b \<in> set (current_data h)" using get_object_by_id_Some [OF assms(3)] by simp
  have "find (\<lambda>c. get_or (d_id (go_fields (obj_heap h' c))) None = Some oid) (current_data h) =
        find (\<lambda>c. get_or (d_id (go_fields (obj_heap h c))) None = Some oid) (current_data h)"
  proof (rule find_cong)
    fix c assume "c \<in> set (current_data h)"
    then have "c \<noteq> a" using small by blast
    then show "(get_or (d_id (go_fields (obj_heap h' c))) None = Some oid) =
               (get_or (d_id (go_fields (obj_heap h c))) None = Some oid)"
      using o h' by (auto simp: new_obj_def)
  qed simp
  then have "get_object_by_id (Some oid) h' = Some b"
    using assms(3) h' O(6) unfolding get_object_by_id_def by (simp add: find_append_Some)
  moreover have "d_id (obj_view h' a) = Some (Some oid)" using h' O by (simp add: obj_view_def)
  ultimately show ?thesis using small [OF b] by simp
qed


subsection \<open>Geometry conversions\<close>

text \<open>C35: \<open>point_to_tuple\<close> always gives three coordinates: the first three given,
  padded with zeros.\<close>

theorem point_to_tuple_bounds:
  "length (point_to_tuple cs) = 3 \<and> take (length cs) (point_to_tuple cs) = take 3 cs \<and>
   (\<forall>i. length cs \<le> i \<and> i < 3 \<longrightarrow> point_to_tuple cs ! i = JNum 0)"
  by (auto simp: point_to_tuple_def nth_append)

lemma num_mul_Inr: "num_mul f x = Inr y \<longleftrightarrow> is_jnum x \<and> y = map_nums f x"
  by (cases x) (auto simp: num_mul_def is_jnum_def)

lemma scale_coordinates_arr: "scale_coordinates mul c = Inr r \<Longrightarrow> is_jarr c"
  by (cases c rule: py_index0.cases) (auto simp: scale_coordinates.simps is_jarr_def)

text \<open>C36: scaling by a numeric factor succeeds exactly on well-shaped GeoJSON
  coordinate arrays (non-empty, uniformly nested, numbers at the leaves), and there
  equals the reference \<open>map_nums\<close>: the \<open>coords[0]\<close> test decides the nesting
  correctly. An empty array anywhere raises \<open>IndexError\<close>, a mixed one \<open>TypeError\<close>.\<close>

text \<open>The array a map builds, when the map's success is given by a graph.\<close>

lemma py_map_JArr_graph:
  assumes "\<And>ys. py_map f xs = Inr ys \<longleftrightarrow> P \<and> ys = map g xs"
  shows "(case py_map f xs of Inl e \<Rightarrow> Inl e | Inr cs \<Rightarrow> Inr (JArr cs)) = Inr r \<longleftrightarrow>
         P \<and> r = JArr (map g xs)"
proof (cases "py_map f xs")
  case (Inl e)
  then show ?thesis using assms [of "map g xs"] by auto
next
  case (Inr ys)
  then show ?thesis using assms [of ys] by auto
qed

theorem scale_coordinates_equiv:
  "scale_coordinates (num_mul f) c = Inr r \<longleftrightarrow> coord_shape c \<and> r = map_nums f c"
proof (induction c arbitrary: r)
  case (JArr xs)
  show ?case
  proof (cases xs)
    case Nil
    then show ?thesis by (simp add: scale_coordinates.simps)
  next
    case (Cons c cs)
    have IH: "x \<in> set xs \<Longrightarrow> scale_coordinates (num_mul f) x = Inr y \<longleftrightarrow> coord_shape x \<and> y = map_nums f x"
      for x y using JArr.IH by blast
    have S: "scale_coordinates (num_mul f) (JArr xs) =
               (case (if is_jarr c then py_map (scale_coordinates (num_mul f)) xs else py_map (num_mul f) xs) of
                  Inl e \<Rightarrow> Inl e | Inr cs' \<Rightarrow> Inr (JArr cs'))"
      by (subst scale_coordinates.simps) (simp add: Cons)
    have C: "coord_shape (JArr xs) = (if is_jarr c then list_all coord_shape xs else list_all is_jnum xs)"
      by (simp add: Cons)
    have G1: "py_map (scale_coordinates (num_mul f)) xs = Inr ys \<longleftrightarrow>
               list_all coord_shape xs \<and> ys = map (map_nums f) xs" for ys
      by (rule py_map_Inr_graph) (rule IH)
    have G2: "py_map (num_mul f) xs = Inr ys \<longleftrightarrow> list_all is_jnum xs \<and> ys = map (map_nums f) xs" for ys
      by (rule py_map_Inr_graph) (rule num_mul_Inr)
    show ?thesis unfolding S C
      by (cases "is_jarr c") (simp_all add: py_map_JArr_graph [OF G1] py_map_JArr_graph [OF G2])
  qed
qed (auto dest: scale_coordinates_arr simp: is_jarr_def)


subsection \<open>The summary\<close>

text \<open>\<open>get_summary\<close> counts every object under its type, and the counts add up to the
  number of objects.\<close>

lemma count_key_get:
  "dict_get (foldl count_key m ks) k =
     (if count_list ks k = 0 then dict_get m k
      else Some (get_or (dict_get m k) 0 + count_list ks k))"
  by (induction ks arbitrary: m) (auto simp: count_key_def split: option.split)

lemma count_key_sum: "sum_list (map snd (count_key m k)) = Suc (sum_list (map snd m))"
  by (induction m) (auto simp: count_key_def)

lemma foldl_count_key_sum:
  "sum_list (map snd (foldl count_key m ks)) = sum_list (map snd m) + length ks"
  by (induction ks arbitrary: m) (simp_all add: count_key_sum)

text \<open>C38: \<open>get_summary\<close> counts, for each type, exactly the objects of that type
  (\<open>"Unknown"\<close> for an object without one), lists only types that occur, and its counts
  add up to \<open>total_objects\<close>.\<close>

theorem get_summary_counts:
  "dict_get (types (get_summary h)) t =
     (let n = count_list (map (\<lambda>obj. get_or (d_type obj) ''Unknown'') (data_view h)) t
      in if n = 0 then None else Some n) \<and>
   sum_list (map snd (types (get_summary h))) = total_objects (get_summary h)"
  by (simp add: get_summary_def Let_def count_key_get foldl_count_key_sum)


subsection \<open>The scaling run on a record without coordinates\<close>

text \<open>A record whose geometry has no \<open>"coordinates"\<close>, or an empty list of them, makes
  \<open>_scale_coordinates\<close> index an empty list; the other records' steps leave it as it
  is, so \<open>process_example\<close> on an input holding one raises.\<close>

lemma process_obj_no_coords:
  "get_or (dict_get (get_or (d_geometry (go_fields (obj_heap t a))) []) ''coordinates'') (JArr []) = JArr [] \<Longrightarrow>
   process_obj w mul t a = Raised IndexError t"
  by (simp add: process_obj_def Let_def scale_coordinates.simps)

lemma process_obj_frame: "process_obj w mul t b = Ok x t' \<Longrightarrow> b \<noteq> a \<Longrightarrow> obj_heap t' a = obj_heap t a"
  by (auto simp: process_obj_def Let_def split: sum.splits)

lemma process_example_no_coords:
  assumes "filter (\<lambda>f. is_gh_input (fst f)) (gw_inputs w) = f # fs"
    and "py_max_by file_mtime f fs = (name, mt, Stored recs)" and "r \<in> set recs"
    and "get_or (dict_get (get_or (d_geometry r) []) ''coordinates'') (JArr []) = JArr []"
  shows "\<exists>e h'. process_example w mul h = Raised e h'"
proof -
  define h1 where "h1 = snd (load_input_data w None h)"
  have "load_input_data w None h = read_input (name, mt, Stored recs) h"
    using assms(1,2) by (simp add: load_input_data_def)
  then have "data_view h1 = recs" using read_input_Stored [of name mt recs h] unfolding h1_def
    by (metis prod.collapse)
  with assms(3) obtain a where a: "a \<in> set (current_data h1)" and r: "obj_view h1 a = r"
    by (auto simp: data_view_def)
  have g: "d_geometry (go_fields (obj_heap h1 a)) = d_geometry r" using r by (auto simp: obj_view_def)
  have "\<exists>e s'. run_items (process_obj w mul) h1 (current_data h1) = Raised e s'"
  proof (rule run_items_Raised [OF a, where P = "\<lambda>t. obj_heap t a = obj_heap h1 a"])
    fix t :: gh_helper assume "obj_heap t a = obj_heap h1 a"
    with g assms(4) show "\<exists>e s'. process_obj w mul t a = Raised e s'"
      using process_obj_no_coords by fastforce
  qed (auto dest: process_obj_frame)
  then show ?thesis by (auto simp: process_example_def h1_def Let_def split: outcome.split)
qed

subsection \<open>Witnesses\<close>

definition rec_a :: obj_dict where
  "rec_a = empty_dict\<lparr>d_id := Some (Some ''a''), d_type := Some ''Wall'',
     d_properties := Some [(''h'', JNum 3)]\<rparr>"

definition rec_b :: obj_dict where
  "rec_b = empty_dict\<lparr>d_id := Some (Some ''b''), d_type := Some ''Floor''\<rparr>"

definition gh_demo_world :: gh_world where
  "gh_demo_world =
     \<lparr>gw_now = 7,
      gw_inputs = [(''gh_input_1.json'', 5, Stored [rec_a]), (''notes.json'', 9, Stored []),
                   (''gh_input_2.json'', 5, Stored [rec_b]), (''gh_input_0.json'', 3, Corrupt)],
      gw_write_ok = True\<rparr>"

definition gh_loaded :: gh_helper where
  "gh_loaded = snd (load_input_data gh_demo_world None init_gh_helper)"

text \<open>Two objects added with one \<open>properties\<close> dictionary, at address 0.\<close>

definition alias_helper :: gh_helper where
  "alias_helper =
     snd (add_new_object gh_demo_world ''Wall'' 0 [] None
       (snd (add_new_object gh_demo_world ''Wall'' 0 [] None
         (snd (new_props [(''h'', JNum 1)] init_gh_helper)))))"

text \<open>One object whose id is the next default id.\<close>

definition coll_helper :: gh_helper where
  "coll_helper =
     snd (add_new_object gh_demo_world ''Wall'' 0 [] (Some ''gh_new_1'')
            (snd (new_props [] init_gh_helper)))"

lemmas gh_demo_defs = rec_a_def rec_b_def gh_demo_world_def gh_loaded_def alias_helper_def
  coll_helper_def init_gh_helper_def empty_dict_def new_props_def new_obj_def add_new_object_def
  load_input_data_def read_input_def is_gh_input_def file_mtime_def found_obj_def
  get_object_by_id_def obj_view_def helper_wf_def addr_ok_def

theorem load_input_data_latest_witness:
  "filter (\<lambda>f. is_gh_input (fst f)) (gw_inputs gh_demo_world) =
     [(''gh_input_1.json'', 5, Stored [rec_a]), (''gh_input_2.json'', 5, Stored [rec_b]),
      (''gh_input_0.json'', 3, Corrupt)] \<and>
   py_max_by file_mtime (''gh_input_1.json'', 5, Stored [rec_a])
     [(''gh_input_2.json'', 5, Stored [rec_b]), (''gh_input_0.json'', 3, Corrupt)] =
     (''gh_input_1.json'', 5, Stored [rec_a]) \<and>
   fst (load_input_data gh_demo_world None init_gh_helper) = [rec_a] \<and>
   data_view gh_loaded = [rec_a] \<and> current_input_file gh_loaded = Some ''gh_input_1.json''"
  using load_input_data_latest [of gh_demo_world "(''gh_input_1.json'', 5, Stored [rec_a])"
      "[(''gh_input_2.json'', 5, Stored [rec_b]), (''gh_input_0.json'', 3, Corrupt)]"
      "''gh_input_1.json''" 5 "Stored [rec_a]" init_gh_helper]
  by (simp add: gh_demo_world_def gh_loaded_def is_gh_input_def file_mtime_def split: prod.splits)

theorem update_object_shared_properties_witness:
  "found_obj (Some ''gh_new_0'') alias_helper = Some 1 \<and>
   go_props (obj_heap alias_helper 1) = Some 0 \<and> go_props (obj_heap alias_helper 2) = Some 0 \<and>
   (\<exists>h'. update_object gh_demo_world (Some ''gh_new_0'')
             \<lparr>u_properties = Some [(''h'', JNum 9)], u_geometry = None\<rparr> alias_helper = Inr (True, h') \<and>
         d_properties (obj_view h' 2) = Some [(''h'', JNum 9)] \<and> d_version (obj_view h' 2) = Some 1 \<and>
         d_id (obj_view h' 2) = Some (Some ''gh_new_1''))"
proof -
  have f: "found_obj (Some ''gh_new_0'') alias_helper = Some 1"
    and p1: "go_props (obj_heap alias_helper 1) = Some 0" and p2: "go_props (obj_heap alias_helper 2) = Some 0"
    and v2: "go_fields (obj_heap alias_helper 2) = empty_dict\<lparr>d_id := Some (Some ''gh_new_1''),
               d_gh_guid := Some (Some ''gh_new_1''), d_type := Some ''Wall'', d_version := Some 1,
               d_timestamp := Some 7, d_geometry := Some [], d_properties := None\<rparr>"
    and ps: "prop_heap alias_helper 0 = [(''h'', JNum 1)]"
    by (code_simp+)
  from update_object_shared_properties [OF f p1 p2, of "\<lparr>u_properties = Some [(''h'', JNum 9)], u_geometry = None\<rparr>"
      "[(''h'', JNum 9)]" gh_demo_world]
  show ?thesis using f p1 p2 v2 ps by (auto simp: obj_view_def empty_dict_def)
qed

theorem add_new_object_id_collision_witness:
  "helper_wf coll_helper \<and> get_object_by_id (Some ''gh_new_1'') coll_helper = Some 1 \<and>
   fst (add_new_object gh_demo_world ''Door'' 0 [] None coll_helper) = 2 \<and>
   d_id (obj_view (snd (add_new_object gh_demo_world ''Door'' 0 [] None coll_helper)) 2) = Some (Some ''gh_new_1'') \<and>
   get_object_by_id (Some ''gh_new_1'') (snd (add_new_object gh_demo_world ''Door'' 0 [] None coll_helper)) = Some 1"
proof -
  have wf: "helper_wf coll_helper" and g: "get_object_by_id (Some ''gh_new_1'') coll_helper = Some 1"
    and n: "''gh_new_1'' = ''gh_new_'' @ nat_str (length (current_data coll_helper))"
    and a: "fst (add_new_object gh_demo_world ''Door'' 0 [] None coll_helper) = 2"
    by (code_simp+)
  show ?thesis
    using add_new_object_id_collision [OF wf n g, of gh_demo_world "''Door''" 0 "[]" 2
        "snd (add_new_object gh_demo_world ''Door'' 0 [] None coll_helper)"] wf g a
    by (metis prod.collapse)
qed

theorem point_to_tuple_bounds_witness:
  "point_to_tuple [JNum 4] = [JNum 4, JNum 0, JNum 0] \<and>
   point_to_tuple [JNum 1, JNum 2, JNum 3, JNum 4] = [JNum 1, JNum 2, JNum 3]"
  using point_to_tuple_bounds [of "[JNum 4]"] point_to_tuple_bounds [of "[JNum 1, JNum 2, JNum 3, JNum 4]"]
  by (simp add: point_to_tuple_def numeral_2_eq_2)

theorem helper_wf_preserved_witness:
  "helper_wf gh_loaded \<and> 0 < next_addr gh_loaded \<and>
   helper_wf (snd (add_new_object gh_demo_world ''Door'' 0 [] None gh_loaded)) \<and>
   helper_wf (snd (delete_object gh_demo_world (Some ''a'') gh_loaded)) \<and>
   helper_wf (outcome_state (process_example gh_demo_world (num_mul (\<lambda>i. 2 * i)) gh_loaded))"
proof -
  have wf: "helper_wf gh_loaded" and n: "0 < next_addr gh_loaded"
    by (code_simp+)
  show ?thesis
    using helper_wf_preserved [OF wf, of gh_demo_world "Some ''a''" _ _ _ 0 "''Door''" "[]" None]
      wf n by blast
qed

end
