(* ===== verification/Agol.thy ===== *)
theory Agol
  imports GhHelper
begin

text \<open>
  The ArcGIS Online side of \<open>agol_exporter.py\<close>: \<open>AGOLAuthentication\<close> (lines 90--131),
  \<open>AGOLUploader\<close> (134--220) and \<open>AGOLExporter\<close> (223--306). The web service is the
  oracle \<open>post\<close>, which stands for \<open>requests.post(url, data=payload).json()\<close>: it maps
  an endpoint and a payload to the decoded body of the response, or to the exception the
  call raises (no connection, a body that is not JSON). The endpoint is the datatype
  \<open>agol_url\<close> holding the parameters of the URL's f-string. The \<open>"features"\<close> field of the
  addFeatures payload is \<open>json.dumps(features)\<close>; the oracle receives the value that text
  serialises. The local GeoJSON copies that \<open>export_to_agol\<close> and
  \<open>export_to_shapefile\<close> write are a flag \<open>write_ok\<close>: whether \<open>mkdir\<close> and \<open>open\<close>
  succeed. Every method but \<open>export_to_agol\<close> catches its exceptions and returns
  \<open>False\<close> or \<open>None\<close>. The main result, \<open>upload_geojson_iff\<close>, characterises when an
  upload reports success: the per-feature \<open>"success"\<close> flags of the service's answer
  are counted for the log but never consulted.
\<close>

subsection \<open>Authentication\<close>

text \<open>The state of an \<open>AGOLAuthentication\<close> object; a JSON \<open>null\<close> token is
  Python's \<open>None\<close>.\<close>

record agol_auth =
  username :: string
  password :: string
  portal_url :: string
  token :: "json option"
  token_expiry :: "json option"

definition init_auth :: "string \<Rightarrow> string \<Rightarrow> agol_auth" where
  "init_auth u p = \<lparr>username = u, password = p,
     portal_url = ''https://www.arcgisonline.com/sharing/rest'', token = None, token_expiry = None\<rparr>"

text \<open>The three endpoints: \<open>{portal}/generateToken\<close>,
  \<open>{portal}/content/users/{username}/createService\<close> and
  \<open>{portal}/content/items/{service_id}/addFeatures\<close>.\<close>

datatype agol_url =
    GenerateToken string
  | CreateService string string
  | AddFeatures string json

type_synonym agol_post = "agol_url \<Rightarrow> (string, json) pydict \<Rightarrow> py_error + json"

text \<open>A value read from a decoded response: JSON \<open>null\<close> is \<open>None\<close>.\<close>

definition json_opt :: "json \<Rightarrow> json option" where
  "json_opt v = (if v = JNull then None else Some v)"

definition token_payload :: "agol_auth \<Rightarrow> (string, json) pydict" where
  "token_payload auth =
     [(''username'', JStr (username auth)), (''password'', JStr (password auth)),
      (''client'', JStr ''referer''), (''referer'', JStr ''https://www.arcgis.com''),
      (''expiration'', JNum 60), (''f'', JStr ''json'')]"

text \<open>\<open>authenticate\<close> (lines 101--128). A response that is not an object ends in
  \<open>False\<close> on every path: \<open>"token" in result\<close> is false or raises, and the lookups
  after it raise, inside the \<open>try\<close>.\<close>

definition authenticate :: "agol_post \<Rightarrow> agol_auth \<Rightarrow> bool \<times> agol_auth" where
  "authenticate post auth =
     (case post (GenerateToken (portal_url auth)) (token_payload auth) of
        Inr (JObj result) \<Rightarrow>
          (case dict_get result ''token'' of
             Some t \<Rightarrow> (True, auth\<lparr>token := json_opt t\<rparr>)
           | None \<Rightarrow> (False, auth))
      | _ \<Rightarrow> (False, auth))"

definition is_authenticated :: "agol_auth \<Rightarrow> bool" where
  "is_authenticated auth \<longleftrightarrow> token auth \<noteq> None"

subsection \<open>Creating a feature service\<close>

text \<open>\<open>title.replace(" ", "_")\<close>.\<close>

definition replace_spaces :: "string \<Rightarrow> string" where
  "replace_spaces s = map (\<lambda>c. if c = CHR '' '' then CHR ''_'' else c) s"

definition create_payload :: "string \<Rightarrow> string \<Rightarrow> string list \<Rightarrow> json \<Rightarrow> (string, json) pydict" where
  "create_payload title description tags tok =
     [(''name'', JStr (replace_spaces title)), (''displayName'', JStr title),
      (''description'', JStr description), (''tags'', JStr (py_join '','' tags)),
      (''serviceDescription'', JStr description), (''hasStaticData'', JBool False),
      (''maxRecordCount'', JNum 2000), (''token'', tok), (''f'', JStr ''json'')]"

text \<open>\<open>create_feature_service\<close> (lines 141--177): the \<open>"itemId"\<close> of a response
  whose \<open>"success"\<close> is true, \<open>None\<close> otherwise. The guard \<open>is_authenticated()\<close> is
  the match on the token.\<close>

definition create_feature_service ::
  "agol_post \<Rightarrow> agol_auth \<Rightarrow> string \<Rightarrow> string \<Rightarrow> string list \<Rightarrow> json option" where
  "create_feature_service post auth title description tags =
     (case token auth of
        None \<Rightarrow> None
      | Some tok \<Rightarrow>
          (case post (CreateService (portal_url auth) (username auth))
                     (create_payload title description tags tok) of
             Inr (JObj result) \<Rightarrow>
               (case dict_get result ''success'' of
                  Some s \<Rightarrow> if py_truthy s then json_opt (get_or (dict_get result ''itemId'') JNull)
                            else None
                | None \<Rightarrow> None)
           | _ \<Rightarrow> None))"

subsection \<open>Uploading features\<close>

text \<open>The AGOL form of a GeoJSON feature (lines 192--195) and the \<open>.get\<close> calls that
  build it, which raise \<open>AttributeError\<close> on a feature that is not a dictionary.\<close>

definition agol_attributes :: "(string, json) pydict \<Rightarrow> json" where
  "agol_attributes feature =
     JObj [(''geometry'', get_or (dict_get feature ''geometry'') JNull),
           (''attributes'', get_or (dict_get feature ''properties'') (JObj []))]"

definition agol_feature :: "json \<Rightarrow> py_error + json" where
  "agol_feature feature =
     (case feature of JObj kvs \<Rightarrow> Inr (agol_attributes kvs) | _ \<Rightarrow> Inl AttributeError)"

text \<open>\<open>r.get("success")\<close> for one entry of \<open>"addResults"\<close>, and the count of line 211.\<close>

definition result_success :: "json \<Rightarrow> py_error + bool" where
  "result_success r =
     (case r of JObj kvs \<Rightarrow> Inr (py_truthy (get_or (dict_get kvs ''success'') JNull))
              | _ \<Rightarrow> Inl AttributeError)"

definition success_count :: "json \<Rightarrow> py_error + nat" where
  "success_count add_results =
     (case py_iter add_results of
        Inl e \<Rightarrow> Inl e
      | Inr rs \<Rightarrow> (case py_map result_success rs of
                    Inl e \<Rightarrow> Inl e
                  | Inr bs \<Rightarrow> Inr (length (filter id bs))))"

definition add_payload :: "json list \<Rightarrow> json \<Rightarrow> (string, json) pydict" where
  "add_payload features tok = [(''features'', JArr features), (''token'', tok), (''f'', JStr ''json'')]"

text \<open>\<open>upload_geojson\<close> (lines 179--220). Every exception of the body is caught and
  gives \<open>False\<close>; a response that is not an object gives \<open>False\<close> as in
  \<open>authenticate\<close>.\<close>

definition upload_geojson :: "agol_post \<Rightarrow> agol_auth \<Rightarrow> json \<Rightarrow> json \<Rightarrow> bool" where
  "upload_geojson post auth geojson_data feature_service_id =
     (case token auth of
        None \<Rightarrow> False
      | Some tok \<Rightarrow>
          (case geojson_data of
             JObj gd \<Rightarrow>
               (case py_iter (get_or (dict_get gd ''features'') (JArr [])) of
                  Inl e \<Rightarrow> False
                | Inr fs \<Rightarrow>
                    (case py_map agol_feature fs of
                       Inl e \<Rightarrow> False
                     | Inr features \<Rightarrow>
                         (case post (AddFeatures (portal_url auth) feature_service_id)
                                    (add_payload features tok) of
                            Inr (JObj result) \<Rightarrow>
                              (case dict_get result ''addResults'' of
                                 Some add_results \<Rightarrow>
                                   (case success_count add_results of Inl e \<Rightarrow> False | Inr n \<Rightarrow> True)
                               | None \<Rightarrow> False)
                          | _ \<Rightarrow> False)))
           | _ \<Rightarrow> False))"

subsection \<open>The exporter\<close>

definition agol_tags :: "string list" where
  "agol_tags = [''grasshopper'', ''revit'', ''gis'', ''automated'']"

text \<open>\<open>AGOLExporter.export_to_agol\<close> (lines 233--283), with the exporter's
  authentication object as state. It has no \<open>try\<close>: an exception of the conversion or
  of the local write escapes to the caller.\<close>

definition export_to_agol ::
  "agol_post \<Rightarrow> bool \<Rightarrow> agol_auth \<Rightarrow> obj_dict list \<Rightarrow> string \<Rightarrow> string \<Rightarrow> string \<Rightarrow> bool \<Rightarrow>
   (py_error + bool \<times> json) \<times> agol_auth" where
  "export_to_agol post write_ok auth gh_data service_title service_description epsg_code
     create_new_service =
     (case authenticate post auth of
        (ok, auth') \<Rightarrow>
          (if \<not> ok then Inr (False, JStr ''Authentication failed'')
           else
             (case gh_to_geojson gh_data epsg_code of
                Inl e \<Rightarrow> Inl e
              | Inr geojson \<Rightarrow>
                  if \<not> write_ok then Inl OSError
                  else if \<not> create_new_service
                  then Inr (False, JStr ''Existing service lookup not implemented'')
                  else (case create_feature_service post auth' service_title service_description
                               agol_tags of
                          Some service_id \<Rightarrow>
                            if \<not> py_truthy service_id
                            then Inr (False, JStr ''Failed to create feature service'')
                            else if upload_geojson post auth' geojson service_id
                            then Inr (True, service_id)
                            else Inr (False, JStr ''Failed to upload to AGOL'')
                        | None \<Rightarrow> Inr (False, JStr ''Failed to create feature service''))),
           auth'))"

text \<open>\<open>export_to_shapefile\<close> (lines 285--306): the conversion with the default
  \<open>EPSG:32633\<close> and the local write, every exception caught.\<close>

definition export_to_shapefile :: "bool \<Rightarrow> obj_dict list \<Rightarrow> bool" where
  "export_to_shapefile write_ok gh_data =
     (case gh_to_geojson gh_data ''EPSG:32633'' of Inl e \<Rightarrow> False | Inr geojson \<Rightarrow> write_ok)"

text \<open>The text of a result the callers format or log: a string is itself; any other
  value is written as its JSON text.\<close>

definition json_text :: "json \<Rightarrow> string" where
  "json_text v = (case v of JStr s \<Rightarrow> s | _ \<Rightarrow> dumps v)"

text \<open>A value is a dictionary: the values \<open>.get\<close> can be called on.\<close>

fun is_jobj :: "json \<Rightarrow> bool" where
  "is_jobj (JObj kvs) = True"
| "is_jobj _ = False"

text \<open>The attributes of a feature known to be a dictionary.\<close>

fun agol_form :: "json \<Rightarrow> json" where
  "agol_form (JObj kvs) = agol_attributes kvs"
| "agol_form v = v"

text \<open>A service for the examples: it issues a token, creates the service \<open>svc1\<close> and
  answers every addFeatures request with one rejected feature.\<close>

definition demo_agol :: agol_post where
  "demo_agol url payload =
     (case url of
        GenerateToken p \<Rightarrow> Inr (JObj [(''token'', JStr ''tk'')])
      | CreateService p u \<Rightarrow> Inr (JObj [(''success'', JBool True), (''itemId'', JStr ''svc1'')])
      | AddFeatures p sid \<Rightarrow> Inr (JObj [(''addResults'', JArr [JObj [(''success'', JBool False)]])]))"

subsection \<open>The exporter's state\<close>

text \<open>A token the exporter kept from an earlier call plays no part in the next one:
  \<open>export_to_agol\<close> authenticates again and returns at once when that fails, so its
  result is the one a freshly constructed exporter gives.\<close>

lemma authenticate_token_irrelevant:
  "authenticate post (auth\<lparr>token := x\<rparr>) =
     (case authenticate post auth of (ok, auth') \<Rightarrow> (ok, if ok then auth' else auth\<lparr>token := x\<rparr>))"
  by (simp add: authenticate_def token_payload_def split: sum.split json.split option.split)

lemma export_to_agol_token_irrelevant:
  "fst (export_to_agol post w (auth\<lparr>token := x\<rparr>) gh t d e c) = fst (export_to_agol post w auth gh t d e c)"
  by (simp add: export_to_agol_def authenticate_token_irrelevant split: prod.split)
subsection \<open>The exporter's outcomes\<close>

text \<open>C7: \<open>export_to_agol\<close> has no \<open>try\<close>: it raises exactly when the authentication
  succeeded (the network was already used) and then the conversion raised or the local
  GeoJSON copy could not be written. Every other failure is reported as \<open>(False, message)\<close>.\<close>

theorem export_to_agol_raises:
  "(\<exists>err. fst (export_to_agol post w auth gh t d epsg c) = Inl err) \<longleftrightarrow>
     fst (authenticate post auth) \<and> (w \<longrightarrow> (\<exists>err. gh_to_geojson gh epsg = Inl err))"
  by (auto simp: export_to_agol_def split: prod.split sum.split option.split)

text \<open>C18: \<open>export_to_agol\<close> reports success exactly when the authentication
  succeeded, the records converted, the local copy was written, a new service was
  requested and created with a true id, and the upload reported success; the id it
  returns is the service's.\<close>

theorem export_to_agol_success:
  "fst (export_to_agol post w auth gh t d epsg c) = Inr (True, sid) \<longleftrightarrow>
     (\<exists>g. fst (authenticate post auth) \<and> gh_to_geojson gh epsg = Inr g \<and> w \<and> c \<and>
        create_feature_service post (snd (authenticate post auth)) t d agol_tags = Some sid \<and>
        py_truthy sid \<and> upload_geojson post (snd (authenticate post auth)) g sid)"
  by (auto simp: export_to_agol_def split: prod.split sum.split option.split)

subsection \<open>Uploads\<close>

lemma agol_feature_graph: "agol_feature x = Inr y \<longleftrightarrow> is_jobj x \<and> y = agol_form x"
  by (cases x) (auto simp: agol_feature_def)

lemma success_count_defined:
  "(\<exists>n. success_count ar = Inr n) \<longleftrightarrow> (\<exists>rs. py_iter ar = Inr rs \<and> list_all is_jobj rs)"
proof -
  have "(\<exists>b. result_success r = Inr b) \<longleftrightarrow> is_jobj r" for r
    by (cases r) (auto simp: result_success_def)
  then have pm: "(\<exists>bs. py_map result_success rs = Inr bs) \<longleftrightarrow> list_all is_jobj rs" for rs
    by (intro py_map_defined) auto
  show ?thesis
  proof (cases "py_iter ar")
    case (Inr rs)
    then show ?thesis using pm [of rs]
      by (cases "py_map result_success rs") (auto simp: success_count_def)
  qed (simp add: success_count_def)
qed

lemma upload_response_iff:
  "(case r of Inr (JObj result) \<Rightarrow>
       (case dict_get result ''addResults'' of
          Some add_results \<Rightarrow> (case success_count add_results of Inl e \<Rightarrow> False | Inr n \<Rightarrow> True)
        | None \<Rightarrow> False)
    | _ \<Rightarrow> False) \<longleftrightarrow>
   (\<exists>result add_results rs. r = Inr (JObj result) \<and> dict_get result ''addResults'' = Some add_results \<and>
      py_iter add_results = Inr rs \<and> list_all is_jobj rs)"
proof (cases r)
  case (Inr v)
  show ?thesis
  proof (cases v)
    case (JObj result)
    show ?thesis
    proof (cases "dict_get result ''addResults''")
      case (Some ar)
      then show ?thesis using Inr JObj success_count_defined [of ar]
        by (cases "success_count ar") auto
    qed (simp add: Inr JObj)
  qed (simp_all add: Inr)
qed simp

text \<open>C5: \<open>upload_geojson\<close> reports success exactly when the uploader holds a token,
  the GeoJSON is a dictionary whose \<open>"features"\<close> are dictionaries, and the service
  answers the addFeatures request with an object whose \<open>"addResults"\<close> is a list of
  dictionaries. The \<open>"success"\<close> flags of those entries do not take part: an upload
  whose every feature the service rejected is reported as successful.\<close>

theorem upload_geojson_iff:
  "upload_geojson post auth g sid \<longleftrightarrow>
     (\<exists>tok gd fs result add_results rs.
        token auth = Some tok \<and> g = JObj gd \<and>
        py_iter (get_or (dict_get gd ''features'') (JArr [])) = Inr fs \<and> list_all is_jobj fs \<and>
        post (AddFeatures (portal_url auth) sid) (add_payload (map agol_form fs) tok) = Inr (JObj result) \<and>
        dict_get result ''addResults'' = Some add_results \<and>
        py_iter add_results = Inr rs \<and> list_all is_jobj rs)"
proof -
  have fs: "py_map agol_feature fs = Inr ys \<longleftrightarrow> list_all is_jobj fs \<and> ys = map agol_form fs" for fs ys
    by (rule py_map_Inr_graph) (simp add: agol_feature_graph)
  show ?thesis
  proof (cases "token auth")
    case (Some tok)
    show ?thesis
    proof (cases g)
      case (JObj gd)
      show ?thesis
      proof (cases "py_iter (get_or (dict_get gd ''features'') (JArr []))")
        case (Inr items)
        show ?thesis
        proof (cases "py_map agol_feature items")
          case (Inl e)
          then have "\<not> list_all is_jobj items" using fs [of items "map agol_form items"] by auto
          then show ?thesis using Some JObj Inr Inl by (simp add: upload_geojson_def)
        next
          case (Inr ys)
          then have "list_all is_jobj items" "ys = map agol_form items" using fs by auto
          then show ?thesis using Some JObj \<open>py_iter _ = Inr items\<close> Inr
            by (simp add: upload_geojson_def upload_response_iff)
        qed
      qed (simp_all add: upload_geojson_def Some JObj)
    qed (simp_all add: upload_geojson_def Some)
  qed (simp add: upload_geojson_def)
qed

text \<open>Against \<open>demo_agol\<close>, the export of one point record succeeds with the service's
  id although the service added none of its features.\<close>

lemma export_to_agol_rejected_features:
  "fst (export_to_agol demo_agol True (init_auth ''user'' ''pw'') [gj_point] ''Revit-GH Export''
          ''Auto-exported from Revit via Grasshopper'' ''EPSG:32633'' True) = Inr (True, JStr ''svc1'') \<and>
   success_count (JArr [JObj [(''success'', JBool False)]]) = Inr 0"
  by code_simp

subsection \<open>Witnesses\<close>

theorem export_to_agol_raises_witness:
  "fst (authenticate demo_agol (init_auth ''user'' ''pw'')) \<and>
   (\<exists>err. fst (export_to_agol demo_agol False (init_auth ''user'' ''pw'') [gj_point] ''Revit-GH Export''
            ''Auto-exported from Revit via Grasshopper'' ''EPSG:32633'' True) = Inl err)"
proof -
  have a: "fst (authenticate demo_agol (init_auth ''user'' ''pw''))" by code_simp
  then show ?thesis
    using export_to_agol_raises [of demo_agol False "init_auth ''user'' ''pw''" "[gj_point]"
        "''Revit-GH Export''" "''Auto-exported from Revit via Grasshopper''" "''EPSG:32633''" True]
    by simp
qed

end
