(* ===== verification/Templates.thy ===== *)
theory Templates
  imports GhHelper Pipeline Agol
begin

text \<open>
  \<open>GH_TEMPLATES.py\<close>, the scripts of the Grasshopper Python components that drive
  \<open>gh_helper.py\<close>. Each template runs with the component's inputs as globals and sets
  its outputs; the objects passed between components are references to the same Python
  dictionaries, so a template is a function of its inputs and of the helper's store
  (\<open>gh_helper\<close>, whose \<open>obj_heap\<close> and \<open>prop_heap\<close> are the Python heap and whose
  \<open>saved_files\<close> are the output directory) returning its outputs and the store.
  Template 6 calls the exporter of theory \<open>Agol\<close>; in template 8 the Rhino
  constructors are values (a point is its three coordinates, a polyline its points, a
  colour a constructor of \<open>rhino_color\<close>); template 9 writes \<open>str()\<close> of
  dictionaries with Python's \<open>repr\<close> (\<open>py_repr\<close>). Every template catches every exception and
  sets fallback outputs instead: those \<open>except\<close> branches are modelled with it.
\<close>

text \<open>\<open>GrassholperDataHelper()\<close> in a template: a helper without data over the same
  heap and files.\<close>

definition fresh_helper :: "gh_helper \<Rightarrow> gh_helper" where
  "fresh_helper h = h\<lparr>current_data := [], current_input_file := None\<rparr>"

subsection \<open>Template 1: load and display (lines 7--31)\<close>

record t1_out =
  t1_objects :: "addr list"
  t1_count :: nat
  t1_summary :: gh_summary

text \<open>\<open>load_input_data()\<close> returns the helper's list, or a fresh \<open>[]\<close> on failure,
  when the fresh helper's list is empty too; no statement of the \<open>try\<close> can raise.\<close>

definition template_1 :: "gh_world \<Rightarrow> gh_helper \<Rightarrow> t1_out \<times> gh_helper" where
  "template_1 w h =
     (let (objects, h1) = load_input_data w None (fresh_helper h)
      in (\<lparr>t1_objects = current_data h1, t1_count = length objects, t1_summary = get_summary h1\<rparr>, h1))"

subsection \<open>Template 2: scale the geometry (lines 34--68)\<close>

text \<open>The body of its loop: the nested \<open>scale_coords\<close> is \<open>_scale_coordinates\<close>; the
  version is bumped, the timestamp left as it is.\<close>

definition t2_obj ::
  "(json \<Rightarrow> py_error + json) \<Rightarrow> gh_helper \<Rightarrow> addr \<Rightarrow> (unit, gh_helper) outcome" where
  "t2_obj scale h a =
     (let ob = obj_heap h a; fields = go_fields ob;
          coords = get_or (dict_get (get_or (d_geometry fields) []) ''coordinates'') (JArr [])
      in case scale_coordinates scale coords of
           Inl e \<Rightarrow> Raised e h
         | Inr scaled \<Rightarrow>
             (let fields1 = (case d_geometry fields of
                               None \<Rightarrow> fields
                             | Some g \<Rightarrow> fields\<lparr>d_geometry := Some (dict_set g ''coordinates'' scaled)\<rparr>);
                  fields2 = fields1\<lparr>d_version := Some (get_or (d_version fields1) 1 + 1)\<rparr>
              in Ok () (h\<lparr>obj_heap := (obj_heap h)(a := ob\<lparr>go_fields := fields2\<rparr>)\<rparr>)))"

text \<open>An absent \<open>scale_factor\<close> input is \<open>1.0\<close>; \<open>processed_objects\<close> is the
  helper's list, which is the input list, or on an exception the input itself.\<close>

definition template_2 ::
  "(json \<Rightarrow> py_error + json) option \<Rightarrow> addr list option \<Rightarrow> gh_helper \<Rightarrow> addr list option \<times> gh_helper" where
  "template_2 scale_factor objects_in h =
     (let objs = get_or objects_in []; h1 = (fresh_helper h)\<lparr>current_data := objs\<rparr>;
          scale = get_or scale_factor (num_mul (\<lambda>i. i))
      in case run_items (t2_obj scale) h1 objs of
           Ok _ h2 \<Rightarrow> (Some (current_data h2), h2)
         | Raised e h2 \<Rightarrow> (objects_in, h2))"

subsection \<open>Template 3: filter by type (lines 71--91)\<close>

text \<open>Iterating \<open>None\<close> raises \<open>TypeError\<close>, and the output is then the input.\<close>

definition template_3 :: "string option \<Rightarrow> addr list option \<Rightarrow> gh_helper \<Rightarrow> addr list option" where
  "template_3 filter_type objects_in h =
     (let filter_t = get_or filter_type ''Wall''
      in case objects_in of
           None \<Rightarrow> None
         | Some as \<Rightarrow> Some (filter (\<lambda>a. get_or (d_type (go_fields (obj_heap h a))) [] = filter_t) as))"

subsection \<open>Template 4: add custom properties (lines 94--121)\<close>

text \<open>The body of its loop: three writes into the object's \<open>"properties"\<close> dictionary,
  in place (\<open>KeyError\<close> when it has none), then the version bump.\<close>

definition t4_obj :: "timestamp \<Rightarrow> string \<Rightarrow> gh_helper \<Rightarrow> addr \<Rightarrow> (unit, gh_helper) outcome" where
  "t4_obj t custom_id h a =
     (let ob = obj_heap h a; fields = go_fields ob
      in case go_props ob of
           None \<Rightarrow> Raised KeyError h
         | Some p \<Rightarrow>
             (let props = dict_set (dict_set (dict_set (prop_heap h p) ''custom_id'' (JStr custom_id))
                            ''modified_in_gh'' (JBool True)) ''gh_timestamp'' (ts_json (Some t))
              in Ok () (h\<lparr>prop_heap := (prop_heap h)(p := props),
                          obj_heap := (obj_heap h)(a := ob\<lparr>go_fields :=
                            fields\<lparr>d_version := Some (get_or (d_version fields) 1 + 1)\<rparr>\<rparr>)\<rparr>)))"

text \<open>\<open>objects_with_props\<close> collects the objects, or on an exception is the input.\<close>

definition template_4 ::
  "gh_world \<Rightarrow> string option \<Rightarrow> addr list option \<Rightarrow> gh_helper \<Rightarrow> addr list option \<times> gh_helper" where
  "template_4 w custom_id objects_in h =
     (let cid = get_or custom_id ''GH_PROJECT''
      in case objects_in of
           None \<Rightarrow> (None, h)
         | Some as \<Rightarrow>
             (case run_items (t4_obj (gw_now w) cid) h as of
                Ok _ h' \<Rightarrow> (Some as, h')
              | Raised e h' \<Rightarrow> (objects_in, h')))"

subsection \<open>Template 5: save the output (lines 124--148)\<close>

text \<open>\<open>output_file = str(filepath)\<close> is \<open>"None"\<close> when \<open>save_output_data\<close>
  returned \<open>None\<close>, and \<open>success\<close> is set whatever it returned. (The assignment to
  the local helper's \<open>current_data\<close> is not read.)\<close>

definition template_5 :: "gh_world \<Rightarrow> addr list option \<Rightarrow> gh_helper \<Rightarrow> (string \<times> bool) \<times> gh_helper" where
  "template_5 w processed_objects h =
     (let payload = (case processed_objects of
                       None \<Rightarrow> SavedNone
                     | Some as \<Rightarrow> SavedRecords (map (obj_view h) as));
          (filepath, h1) = save_output_data w payload None (fresh_helper h)
      in ((get_or filepath ''None'', True), h1))"

subsection \<open>Template 6: export to ArcGIS Online (lines 150--182)\<close>

text \<open>The component's message: \<open>"Success!"\<close>, \<open>"Failed: {result}"\<close>, or the text of
  the exception it caught (its kind here).\<close>

datatype t6_message = T6Success | T6Failed string | T6Error string

text \<open>A new \<open>AGOLExporter(user, pwd)\<close> exports the objects with the title
  \<open>"GH Modified - {date}"\<close>. An input that is not connected is the demo credential.
  Iterating \<open>None\<close> raises \<open>TypeError\<close> once the exporter has authenticated.\<close>

definition template_6 ::
  "agol_post \<Rightarrow> bool \<Rightarrow> string option \<Rightarrow> string option \<Rightarrow> string \<Rightarrow> addr list option \<Rightarrow> gh_helper \<Rightarrow>
   json option \<times> bool \<times> t6_message" where
  "template_6 post write_ok agol_username agol_password date processed_objects h =
     (let user = get_or agol_username ''demo_user'';
          pwd = get_or agol_password ''demo_pass'';
          auth = init_auth user pwd;
          title = ''GH Modified - '' @ date;
          run = (case processed_objects of
                   None \<Rightarrow> (if fst (authenticate post auth) then Inl TypeError
                            else Inr (False, JStr ''Authentication failed''))
                 | Some as \<Rightarrow> fst (export_to_agol post write_ok auth (map (obj_view h) as) title
                                   ''Exported from Grasshopper'' ''EPSG:32633'' True))
      in case run of
           Inl e \<Rightarrow> (None, False, T6Error (py_error_name e))
         | Inr (success, result) \<Rightarrow>
             (if success then Some result else None, success,
              if success then T6Success else T6Failed (json_text result)))"

subsection \<open>Template 7: the complete pipeline (lines 185--255)\<close>

record t7_out =
  final_objects :: "gh_analysis option"
  output_file :: "string option"
  agol_id :: "string option"

text \<open>\<open>data\<close> is the dictionary \<open>load_and_analyze\<close> returns, so \<open>for obj in data\<close>
  runs over its keys, those of the literal of lines 307--311.\<close>

definition analysis_keys :: "gh_analysis \<Rightarrow> string list" where
  "analysis_keys a = [''loaded_objects'', ''geometry_types'', ''properties_sample'']"

text \<open>The body of the loop on a key: \<open>obj.get("geometry", {})\<close> on a \<open>str\<close> raises
  \<open>AttributeError\<close>, before any other statement of the body.\<close>

definition t7_item :: "gh_helper \<Rightarrow> string \<Rightarrow> (unit, gh_helper) outcome" where
  "t7_item h key = Raised AttributeError h"

text \<open>The template: an empty analysis raises \<open>Exception("No data loaded")\<close>; after the
  loop, the data is saved, exported by \<open>export_to_agol\<close> (the parameter
  \<open>agol_export\<close>: the id on success, \<open>None\<close> on a failure or an exception, which the
  inner \<open>except\<close> swallows) and returned. The outer \<open>except\<close> sets the three outputs to
  \<open>None\<close>.\<close>

definition template_7 ::
  "gh_world \<Rightarrow> (gh_analysis \<Rightarrow> string option) \<Rightarrow> gh_helper \<Rightarrow> t7_out \<times> gh_helper" where
  "template_7 w agol_export h =
     (let (data, h1) = load_and_analyze w (fresh_helper h);
          failed = \<lparr>final_objects = None, output_file = None, agol_id = None\<rparr>
      in case data of
           None \<Rightarrow> (failed, h1)
         | Some a \<Rightarrow>
             (case run_items t7_item h1 (analysis_keys a) of
                Raised e h2 \<Rightarrow> (failed, h2)
              | Ok _ h2 \<Rightarrow>
                  (let (output_path, h3) = save_output_data w (SavedAnalysis a) None (fresh_helper h2)
                   in (\<lparr>final_objects = Some a, output_file = Some (get_or output_path ''None''),
                        agol_id = agol_export a\<rparr>, h3))))"

subsection \<open>Template 8: Rhino geometry (lines 257--327)\<close>

datatype rhino_color = Red | Blue | Green | Yellow | Magenta | Gray

type_synonym point3d = "int \<times> int \<times> int"

definition t8_color_map :: "(string, rhino_color) pydict" where
  "t8_color_map = [(''Wall'', Red), (''Floor'', Blue), (''Door'', Green), (''Window'', Yellow),
                   (''Column'', Magenta)]"

text \<open>\<open>len(v)\<close> and \<open>v[i]\<close> of a JSON value: a dictionary has string keys, so an
  integer index raises \<open>KeyError\<close>.\<close>

fun py_len :: "json \<Rightarrow> py_error + nat" where
  "py_len (JArr xs) = Inr (length xs)"
| "py_len (JStr s) = Inr (length s)"
| "py_len (JObj kvs) = Inr (length kvs)"
| "py_len _ = Inl TypeError"

fun py_index :: "json \<Rightarrow> nat \<Rightarrow> py_error + json" where
  "py_index (JArr xs) i = (if i < length xs then Inr (xs ! i) else Inl IndexError)"
| "py_index (JStr s) i = (if i < length s then Inr (JStr [s ! i]) else Inl IndexError)"
| "py_index (JObj kvs) i = Inl KeyError"
| "py_index _ i = Inl TypeError"

text \<open>An argument of \<open>Point3d\<close>: a number (\<open>bool\<close> is an \<open>int\<close> in Python).\<close>

fun rhino_coord :: "json \<Rightarrow> py_error + int" where
  "rhino_coord (JNum i) = Inr i"
| "rhino_coord (JBool b) = Inr (if b then 1 else 0)"
| "rhino_coord _ = Inl TypeError"

text \<open>\<open>Point3d(c[0], c[1], c[2] if len(c) > 2 else 0)\<close>.\<close>

definition point3d :: "json \<Rightarrow> py_error + point3d" where
  "point3d c =
     (case py_index c 0 of Inl e \<Rightarrow> Inl e | Inr x \<Rightarrow>
      case py_index c 1 of Inl e \<Rightarrow> Inl e | Inr y \<Rightarrow>
      case py_len c of Inl e \<Rightarrow> Inl e | Inr n \<Rightarrow>
      case (if 2 < n then py_index c 2 else Inr (JNum 0)) of Inl e \<Rightarrow> Inl e | Inr z \<Rightarrow>
      case rhino_coord x of Inl e \<Rightarrow> Inl e | Inr x' \<Rightarrow>
      case rhino_coord y of Inl e \<Rightarrow> Inl e | Inr y' \<Rightarrow>
      case rhino_coord z of Inl e \<Rightarrow> Inl e | Inr z' \<Rightarrow> Inr (x', y', z'))"

type_synonym t8_out = "point3d list \<times> point3d list list \<times> rhino_color list"

text \<open>One pass of the loop (lines 282--312): the object's colour, then its point or
  polyline, each appended with one colour to the single list \<open>colors\<close>.\<close>

definition t8_obj :: "gh_helper \<Rightarrow> t8_out \<Rightarrow> addr \<Rightarrow> py_error + t8_out" where
  "t8_obj h out a =
     (case out of (points, curves, colors) \<Rightarrow>
      let obj = go_fields (obj_heap h a);
          color = get_or (dict_get t8_color_map (get_or (d_type obj) ''Unknown'')) Gray;
          geom = get_or (d_geometry obj) [];
          coords = get_or (dict_get geom ''coordinates'') (JArr []);
          gtype = dict_get geom ''type''
      in if gtype = Some (JStr ''Point'') then
           (case point3d coords of
              Inl e \<Rightarrow> Inl e
            | Inr pt \<Rightarrow> Inr (points @ [pt], curves, colors @ [color]))
         else if gtype = Some (JStr ''LineString'') then
           (case py_iter coords of Inl e \<Rightarrow> Inl e | Inr cs \<Rightarrow>
            case py_map point3d cs of
              Inl e \<Rightarrow> Inl e
            | Inr pts \<Rightarrow> if 1 < length pts then Inr (points, curves @ [pts], colors @ [color])
                         else Inr (points @ pts, curves, colors @ [color]))
         else if gtype = Some (JStr ''Polygon'') then
           (if py_truthy coords then
              (case py_index coords 0 of Inl e \<Rightarrow> Inl e | Inr ring \<Rightarrow>
               case py_iter ring of Inl e \<Rightarrow> Inl e | Inr cs \<Rightarrow>
               case py_map point3d cs of
                 Inl e \<Rightarrow> Inl e
               | Inr pts \<Rightarrow> if 1 < length pts then Inr (points, curves @ [pts], colors @ [color])
                            else Inr (points, curves, colors))
            else Inr (points, curves, colors))
         else Inr (points, curves, colors))"

fun t8_loop :: "gh_helper \<Rightarrow> t8_out \<Rightarrow> addr list \<Rightarrow> py_error + t8_out" where
  "t8_loop h out [] = Inr out"
| "t8_loop h out (a # as) = (case t8_obj h out a of Inl e \<Rightarrow> Inl e | Inr out' \<Rightarrow> t8_loop h out' as)"

text \<open>The template: without Rhino (\<open>ImportError\<close>) or on any exception of the loop, all
  three outputs are empty.\<close>

definition template_8 :: "bool \<Rightarrow> addr list option \<Rightarrow> gh_helper \<Rightarrow> t8_out" where
  "template_8 rhino processed_objects h =
     (if \<not> rhino then ([], [], [])
      else case processed_objects of
             None \<Rightarrow> ([], [], [])
           | Some as \<Rightarrow> (case t8_loop h ([], [], []) as of Inl e \<Rightarrow> ([], [], []) | Inr out \<Rightarrow> out))"

subsection \<open>Template 9: the data table (lines 330--367)\<close>

text \<open>Python's \<open>repr\<close> of a string, as \<open>str()\<close> of a dictionary writes its keys and
  string values: single quotes unless the string holds a single quote and no double
  quote; the quote in use and the backslash escaped; tab, newline and carriage return by
  name; other characters that are not printable (control characters, \<open>0x7f\<close>--\<open>0xa0\<close>
  and the soft hyphen \<open>0xad\<close>) as \<open>\\xHH\<close>.\<close>

definition repr_printable :: "char \<Rightarrow> bool" where
  "repr_printable c \<longleftrightarrow>
     (let n = (of_char c :: nat) in (32 \<le> n \<and> n \<le> 126) \<or> (161 \<le> n \<and> n \<noteq> 173))"

definition repr_char :: "char \<Rightarrow> char \<Rightarrow> string" where
  "repr_char q c =
     (if c = q \<or> c = CHR 0x5C then [CHR 0x5C, c]
      else if c = CHR 0x09 then [CHR 0x5C, CHR ''t'']
      else if c = CHR 0x0A then [CHR 0x5C, CHR ''n'']
      else if c = CHR 0x0D then [CHR 0x5C, CHR ''r'']
      else if repr_printable c then [c]
      else [CHR 0x5C, CHR ''x'', hex_digit (of_char c div 16), hex_digit (of_char c mod 16)])"

definition repr_str :: "string \<Rightarrow> string" where
  "repr_str s =
     (let q = (if CHR 0x27 \<in> set s \<and> CHR 0x22 \<notin> set s then CHR 0x22 else CHR 0x27)
      in [q] @ concat (map (repr_char q) s) @ [q])"

text \<open>\<open>repr\<close> of a JSON value as Python holds it: \<open>None\<close>, \<open>True\<close>, \<open>False\<close>,
  lists and dictionaries with the separators \<open>", "\<close> and \<open>": "\<close>, keys in insertion
  order.\<close>

function py_repr :: "json \<Rightarrow> string" where
  "py_repr JNull = ''None''"
| "py_repr (JBool b) = (if b then ''True'' else ''False'')"
| "py_repr (JNum i) = int_str i"
| "py_repr (JStr s) = repr_str s"
| "py_repr (JArr xs) = ''['' @ py_join '', '' (map py_repr xs) @ '']''"
| "py_repr (JObj kvs) = ''{'' @ py_join '', '' (map (\<lambda>(k, v). repr_str k @ '': '' @ py_repr v) kvs) @ ''}''"
  by pat_completeness auto
termination
  by (relation "measure size")
    (auto simp: less_Suc_eq_le intro: size_list_estimation' [where y = "size _"])

text \<open>One row of the table (lines 339--346): the id (\<open>None\<close> when the record's id is
  null, \<open>"?"\<close> when it has none), the type, the version and the first 50 characters of
  \<open>str()\<close> of the properties followed by \<open>"..."\<close>.\<close>

record t9_row =
  row_id :: "string option"
  row_type :: string
  row_version :: int
  row_properties :: string

definition t9_row :: "gh_helper \<Rightarrow> addr \<Rightarrow> t9_row" where
  "t9_row h a =
     (let obj = obj_view h a
      in \<lparr>row_id = get_or (d_id obj) (Some ''?''), row_type = get_or (d_type obj) ''?'',
          row_version = get_or (d_version obj) 1,
          row_properties = take 50 (py_repr (JObj (get_or (d_properties obj) []))) @ ''...''\<rparr>)"

text \<open>A line of the text (lines 352--357); slicing a \<open>None\<close> id raises \<open>TypeError\<close>.\<close>

definition t9_line :: "t9_row \<Rightarrow> py_error + string" where
  "t9_line row =
     (case row_id row of
        None \<Rightarrow> Inl TypeError
      | Some i \<Rightarrow> Inr (take 15 i @ '' | '' @ row_type row @ '' | '' @ int_str (row_version row) @ '' | ''
                      @ take 30 (row_properties row) @ [CHR 0x0A]))"

definition t9_header :: string where
  "t9_header = ''ID | Type | Ver | Properties'' @ [CHR 0x0A] @ ''---|------|-----|----------'' @ [CHR 0x0A]"

text \<open>The template: the text of the first 20 rows and a count of the others, or the
  exception whose text becomes the output (iterating \<open>None\<close> raises \<open>TypeError\<close>).\<close>

definition template_9 :: "addr list option \<Rightarrow> gh_helper \<Rightarrow> py_error + string" where
  "template_9 processed_objects h =
     (case processed_objects of
        None \<Rightarrow> Inl TypeError
      | Some as \<Rightarrow>
          (let data_table = map (t9_row h) as
           in case py_map t9_line (take 20 data_table) of
                Inl e \<Rightarrow> Inl e
              | Inr lines \<Rightarrow>
                  Inr (t9_header @ concat lines @
                       (if 20 < length data_table
                        then ''... and '' @ int_str (int (length data_table - 20)) @ '' more rows'' else []))))"

subsection \<open>Template 10: the error-handling wrapper (lines 370--384)\<close>

text \<open>\<open>safe_execute(func)\<close> on the outcome of \<open>func()\<close>; the traceback is the
  exception's name.\<close>

definition safe_execute :: "py_error + 'a \<Rightarrow> 'a option \<times> bool \<times> string" where
  "safe_execute r =
     (case r of
        Inl e \<Rightarrow> (None, False, py_error_name e)
      | Inr v \<Rightarrow> (Some v, True, ''Success''))"

text \<open>A store for the examples: a wall drawn as a line from (0, 0) to (5, 0) at address 0
  and a door at the point (1, 0) at address 1.\<close>

definition t8_demo :: gh_helper where
  "t8_demo = init_gh_helper\<lparr>current_data := [0, 1], next_addr := 2,
     obj_heap := (\<lambda>a. if a = 0
        then \<lparr>go_fields = empty_dict\<lparr>d_id := Some (Some ''w''), d_type := Some ''Wall'',
                 d_geometry := Some [(''type'', JStr ''LineString''),
                   (''coordinates'', JArr [JArr [JNum 0, JNum 0], JArr [JNum 5, JNum 0]])]\<rparr>,
              go_props = None\<rparr>
        else \<lparr>go_fields = empty_dict\<lparr>d_id := Some (Some ''d''), d_type := Some ''Door'',
                 d_geometry := Some [(''type'', JStr ''Point''), (''coordinates'', JArr [JNum 1, JNum 0])]\<rparr>,
              go_props = None\<rparr>)\<rparr>"

subsection \<open>Properties of the templates\<close>

lemma load_objs_saved_files: "saved_files (snd (load_objs ds h)) = saved_files h"
proof (induction ds arbitrary: h)
  case (Cons d ds)
  obtain a h1 where l: "load_obj d h = (a, h1)" by fastforce
  obtain as h2 where r: "load_objs ds h1 = (as, h2)" by fastforce
  have "saved_files h1 = saved_files h"
    using l by (auto simp: load_obj_def new_obj_def new_props_def split: option.splits)
  with Cons.IH [of h1] l r show ?case by simp
qed simp

lemma read_input_saved_files: "saved_files (snd (read_input f h)) = saved_files h"
proof (cases "snd (snd f)")
  case (Stored recs)
  obtain as h1 where "load_objs recs h = (as, h1)" by fastforce
  with Stored load_objs_saved_files [of recs h] show ?thesis by (simp add: read_input_def)
qed (simp_all add: read_input_def)

lemma load_input_data_saved_files: "saved_files (snd (load_input_data w fn h)) = saved_files h"
  by (auto simp: load_input_data_def read_input_saved_files split: option.split list.split)

lemma load_and_analyze_saved_files: "saved_files (snd (load_and_analyze w h)) = saved_files h"
  using load_input_data_saved_files [of w None h]
  by (auto simp: load_and_analyze_def split: prod.split)

text \<open>C4: Template 7 always ends in its \<open>except\<close> branch: whatever the input directory
  holds, \<open>final_objects\<close>, \<open>output_file\<close> and \<open>agol_id\<close> are \<open>None\<close> and no output
  file is written, because the loop runs over the keys of the analysis dictionary, not
  over the records.\<close>

theorem template_7_always_fails:
  "fst (template_7 w agol_export h) = \<lparr>final_objects = None, output_file = None, agol_id = None\<rparr> \<and>
   saved_files (snd (template_7 w agol_export h)) = saved_files h"
proof -
  obtain data h1 where l: "load_and_analyze w (fresh_helper h) = (data, h1)" by fastforce
  have "saved_files h1 = saved_files h"
    using load_and_analyze_saved_files [of w "fresh_helper h"] l by (simp add: fresh_helper_def)
  with l show ?thesis
    by (cases data) (simp_all add: template_7_def analysis_keys_def t7_item_def)
qed

text \<open>Template 5 reports \<open>success = True\<close> whatever happens: its output file name
  is the string \<open>"None"\<close> exactly when nothing could be saved (the directory is not
  writable) or the input was \<open>None\<close> (whose file, holding \<open>null\<close>, is written all the
  same).\<close>

theorem template_5_reports_success:
  "snd (fst (template_5 w objs h)) = True \<and>
   (fst (fst (template_5 w objs h)) = ''None'' \<longleftrightarrow> \<not> gw_write_ok w \<or> objs = None)"
  by (cases objs) (simp_all add: template_5_def save_output_data_def Let_def)

text \<open>Template 2 passes its input list on whether the scaling raised or not: the
  component downstream cannot tell a failed scaling, after which the objects before the
  failing one are scaled and the others are not.\<close>

lemma t2_obj_current_data: "current_data (outcome_state (t2_obj s h a)) = current_data h"
  by (auto simp: t2_obj_def Let_def split: sum.split)

lemma template_2_output: "objects_in \<noteq> None \<Longrightarrow> fst (template_2 s objects_in h) = objects_in"
proof -
  assume "objects_in \<noteq> None"
  then obtain as where o: "objects_in = Some as" by blast
  let ?h1 = "(fresh_helper h)\<lparr>current_data := as\<rparr>" and ?f = "t2_obj (get_or s (num_mul (\<lambda>i. i)))"
  have "current_data (outcome_state (run_items ?f ?h1 as)) = as"
    using run_items_invariant [where P = "\<lambda>t. current_data t = as" and f = ?f, OF _, of ?h1 as]
    by (simp add: t2_obj_current_data)
  then show ?thesis using o by (auto simp: template_2_def split: outcome.split)
qed


text \<open>Template 8 gives at least one colour per point and per polyline: every pass adds
  one colour for the geometry it adds, and one for a \<open>LineString\<close> without coordinates,
  which adds none.\<close>

lemma t8_obj_counts:
  "t8_obj h (p, c, col) a = Inr (p', c', col') \<Longrightarrow>
   length p' + length c' + length col \<le> length p + length c + length col'"
  by (auto simp: t8_obj_def Let_def split: if_splits sum.splits)

lemma t8_loop_counts:
  "t8_loop h (p, c, col) as = Inr (p', c', col') \<Longrightarrow>
   length p' + length c' + length col \<le> length p + length c + length col'"
proof (induction as arbitrary: p c col)
  case (Cons a as)
  then obtain p1 c1 col1 where s: "t8_obj h (p, c, col) a = Inr (p1, c1, col1)"
    and r: "t8_loop h (p1, c1, col1) as = Inr (p', c', col')"
    by (auto split: sum.splits)
  show ?case using t8_obj_counts [OF s] Cons.IH [OF r] by simp
qed simp

lemma template_8_colors_bound:
  "template_8 rhino objs h = (points, curves, colors) \<Longrightarrow> length points + length curves \<le> length colors"
  using t8_loop_counts [of h "[]" "[]" "[]"]
  by (auto simp: template_8_def split: if_splits option.splits sum.splits)
text \<open>Template 8 appends the colours of points and of polylines to one list: for a wall
  followed by a door, \<open>colors[0]\<close> is the wall's red although \<open>points[0]\<close> is the door,
  so a Grasshopper component pairing \<open>points\<close> with \<open>colors\<close> by index paints the door
  red.\<close>

lemma template_8_colors_misaligned:
  "template_8 True (Some [0, 1]) t8_demo = ([(1, 0, 0)], [[(0, 0, 0), (5, 0, 0)]], [Red, Green])"
  by code_simp

text \<open>Template 6 against \<open>demo_agol\<close>, which rejects every feature: the component
  reports success with the service's id.\<close>

lemma template_6_rejected_upload:
  "template_6 demo_agol True (Some ''user'') (Some ''pw'') ''20261109'' (Some [0, 1]) t8_demo =
     (Some (JStr ''svc1''), True, T6Success)"
  by code_simp

text \<open>Template 9 on the example store: one line per object. A record whose id is null
  makes the whole table the text of a \<open>TypeError\<close>.\<close>

lemma template_9_example:
  "template_9 (Some [0, 1]) t8_demo =
     Inr (t9_header @ ''w | Wall | 1 | {}...'' @ [CHR 0x0A] @ ''d | Door | 1 | {}...'' @ [CHR 0x0A]) \<and>
   template_9 (Some [0]) (t8_demo\<lparr>obj_heap := (\<lambda>a. \<lparr>go_fields = empty_dict\<lparr>d_id := Some None\<rparr>,
     go_props = None\<rparr>)\<rparr>) = Inl TypeError \<and>
   py_repr (JObj [(''it'' @ [CHR 0x27] @ ''s'', JStr (''a'' @ [CHR 0x5C] @ ''b'')),
                  (''n'', JArr [JNull, JBool True, JNum (-3)])]) =
     ''{'' @ [CHR 0x22] @ ''it'' @ [CHR 0x27] @ ''s'' @ [CHR 0x22] @ '': '' @ [CHR 0x27] @ ''a'' @
     [CHR 0x5C, CHR 0x5C] @ ''b'' @ [CHR 0x27] @ '', '' @ [CHR 0x27] @ ''n'' @ [CHR 0x27] @
     '': [None, True, -3]}''"
  by code_simp

subsection \<open>Witnesses\<close>

theorem template_5_reports_success_witness:
  "template_5 (gh_demo_world\<lparr>gw_write_ok := False\<rparr>) (Some []) init_gh_helper =
     ((''None'', True), fresh_helper init_gh_helper)"
  using template_5_reports_success [of "gh_demo_world\<lparr>gw_write_ok := False\<rparr>" "Some []" init_gh_helper]
  by (simp add: template_5_def save_output_data_def Let_def)

end
