(* ===== verification/Loader.thy ===== *)
theory Loader
  imports Prelude "HOL-Library.Sublist"
begin

text \<open>
  \<open>github_loader.py\<close>: loading the program's modules from the repository's raw files on
  GitHub. The interpreter's module cache \<open>sys.modules\<close> is the state, a dictionary
  from names to module objects. A module object is the record \<open>py_module\<close>: its
  \<open>__name__\<close>, its \<open>__file__\<close> and the namespace its code defined, whose values are of
  a type parameter \<open>'v\<close> (classes, functions, constants). The network and the
  interpreter are two oracles: \<open>urlopen\<close> gives the downloaded text decoded as UTF-8
  or the exception (\<open>URLError\<close>, a decoding error), and \<open>exec\<close> runs a module's code
  under its name and file, starting from the current cache, and gives the namespace or the
  exception the code raised together with the cache it leaves: the imports the code
  performs (\<open>uuid\<close>, \<open>requests\<close>, a sibling module) add entries. Every loader
  re-raises what it catches, after the cache entry was already deleted; the prints are
  output only.
\<close>

subsection \<open>Modules and URLs\<close>

record 'v py_module =
  mod_name :: string
  mod_file :: string
  mod_dict :: "(string, 'v) pydict"

type_synonym 'v sys_modules = "(string, 'v py_module) pydict"

type_synonym url_reader = "string \<Rightarrow> py_error + string"

type_synonym 'v code_runner =
  "string \<Rightarrow> string \<Rightarrow> string \<Rightarrow> 'v sys_modules \<Rightarrow> (py_error + (string, 'v) pydict) \<times> 'v sys_modules"

text \<open>Lines 17--20 and the module URL of lines 38 and 135.\<close>

definition github_repo :: string where
  "github_repo = ''TWagenvoort/revit-to-gis''"

definition github_raw_url :: string where
  "github_raw_url = ''https://raw.githubusercontent.com/'' @ github_repo @ ''/main''"

definition scripts_url :: string where
  "scripts_url = github_raw_url @ ''/scripts''"

definition module_url :: "string \<Rightarrow> string" where
  "module_url module_name = scripts_url @ ''/'' @ module_name @ ''.py''"

text \<open>\<open>if module_name in sys.modules: del sys.modules[module_name]\<close>
  (lines 44--45 and 141--143).\<close>

definition evict :: "'v sys_modules \<Rightarrow> string \<Rightarrow> 'v sys_modules" where
  "evict mods module_name =
     (if dict_get mods module_name \<noteq> None then dict_del mods module_name else mods)"

subsection \<open>The loaders\<close>

text \<open>\<open>load_module_from_github\<close> (lines 23--65): evict, download, execute the code in a
  fresh module named after the file, register it. An exception of the download is
  re-raised with the cache as the eviction left it, one of the code with the cache as the
  code left it.\<close>

definition load_module_from_github ::
  "url_reader \<Rightarrow> 'v code_runner \<Rightarrow> 'v sys_modules \<Rightarrow> string \<Rightarrow> ('v py_module, 'v sys_modules) outcome" where
  "load_module_from_github urlopen exec mods module_name =
     (let url = module_url module_name;
          mods1 = evict mods module_name
      in case urlopen url of
           Inl e \<Rightarrow> Raised e mods1
         | Inr code \<Rightarrow>
             (case exec module_name url code mods1 of
                (Inl e, mods2) \<Rightarrow> Raised e mods2
              | (Inr ns, mods2) \<Rightarrow>
                  (let module = \<lparr>mod_name = module_name, mod_file = url, mod_dict = ns\<rparr>
                   in Ok module (dict_set mods2 module_name module))))"

text \<open>\<open>load_class_from_github\<close> (lines 68--84): \<open>getattr(module, class_name)\<close>
  raises \<open>AttributeError\<close> when the code defined no such name; the module stays
  registered.\<close>

definition load_class_from_github ::
  "url_reader \<Rightarrow> 'v code_runner \<Rightarrow> 'v sys_modules \<Rightarrow> string \<Rightarrow> string \<Rightarrow> ('v, 'v sys_modules) outcome" where
  "load_class_from_github urlopen exec mods module_name class_name =
     (case load_module_from_github urlopen exec mods module_name of
        Raised e s \<Rightarrow> Raised e s
      | Ok module s \<Rightarrow>
          (case dict_get (mod_dict module) class_name of
             Some c \<Rightarrow> Ok c s
           | None \<Rightarrow> Raised AttributeError s))"

definition load_config_from_github ::
  "url_reader \<Rightarrow> 'v code_runner \<Rightarrow> 'v sys_modules \<Rightarrow> ('v py_module, 'v sys_modules) outcome" where
  "load_config_from_github urlopen exec mods = load_module_from_github urlopen exec mods ''config''"




text \<open>\<open>load_github_module_simple\<close> (lines 126--169): the same steps with a bare module
  object (\<open>type(sys)('module')\<close>) whose \<open>__name__\<close> and \<open>__file__\<close> are set before
  the code runs, downloaded inside a \<open>with\<close> block.\<close>

definition load_github_module_simple ::
  "url_reader \<Rightarrow> 'v code_runner \<Rightarrow> 'v sys_modules \<Rightarrow> string \<Rightarrow> ('v py_module, 'v sys_modules) outcome" where
  "load_github_module_simple urlopen exec mods module_name =
     (let url = module_url module_name;
          mods1 = evict mods module_name
      in case urlopen url of
           Inl e \<Rightarrow> Raised e mods1
         | Inr code \<Rightarrow>
             (let module = \<lparr>mod_name = module_name, mod_file = url, mod_dict = []\<rparr>
              in case exec (mod_name module) (mod_file module) code mods1 of
                   (Inl e, mods2) \<Rightarrow> Raised e mods2
                 | (Inr ns, mods2) \<Rightarrow>
                     Ok (module\<lparr>mod_dict := ns\<rparr>) (dict_set mods2 module_name (module\<lparr>mod_dict := ns\<rparr>))))"

text \<open>Oracles for the examples: the download of \<open>config.py\<close> fails; the code of every
  other module defines one name and, as \<open>import uuid\<close> does, registers \<open>uuid\<close>.\<close>

definition demo_urlopen :: url_reader where
  "demo_urlopen url = (if url = module_url ''config'' then Inl OSError else Inr ''x = 1'')"

definition demo_exec :: "nat code_runner" where
  "demo_exec name file code mods =
     (Inr [(''x'', 1)], dict_set mods ''uuid'' \<lparr>mod_name = ''uuid'', mod_file = ''uuid.py'', mod_dict = []\<rparr>)"

subsection \<open>The cache after a load\<close>

lemma map_of_evict [simp]: "map_of (evict mods n) = (map_of mods)(n := None)"
  by (simp add: evict_def fun_upd_idem)


text \<open>C10: when the download fails (no network, a file missing on GitHub), the load
  re-raises the download's exception and leaves the cache without the module's name,
  every other entry as it was: a module loaded before is evicted, and a caller that
  catches the exception carries on without it. No code of the module ran.\<close>

theorem load_module_download_fails:
  assumes "urlopen (module_url name) = Inl e"
  shows "load_module_from_github urlopen exec mods name = Raised e (evict mods name) \<and>
         map_of (evict mods name) = (map_of mods)(name := None)"
  using assms by (simp add: load_module_from_github_def)

subsection \<open>Loading every module\<close>




text \<open>The simple loader does what \<open>load_module_from_github\<close> does, for every
  outcome of the download and of the code.\<close>

lemma load_github_module_simple_eq:
  "load_github_module_simple urlopen exec mods n = load_module_from_github urlopen exec mods n"
  by (simp add: load_github_module_simple_def load_module_from_github_def Let_def
           split: sum.split prod.split)

subsection \<open>Witnesses\<close>

theorem load_module_download_fails_witness:
  "load_config_from_github demo_urlopen demo_exec
     [(''config'', \<lparr>mod_name = ''config'', mod_file = ''config.py'', mod_dict = [(''x'', 0)]\<rparr>)] =
     Raised OSError [] \<and> map_of ([] :: nat sys_modules) ''config'' = None"
proof -
  have "demo_urlopen (module_url ''config'') = Inl OSError" by (simp add: demo_urlopen_def)
  from load_module_download_fails [where urlopen = demo_urlopen and name = "''config''" and e = OSError
      and exec = demo_exec
      and mods = "[(''config'', \<lparr>mod_name = ''config'', mod_file = ''config.py'', mod_dict = [(''x'', 0::nat)]\<rparr>)]",
      OF this]
  show ?thesis by (simp add: load_config_from_github_def evict_def dict_del_def)
qed


end
