(* ===== verification/Config.thy ===== *)
theory Config
  imports ContentHash
begin

text \<open>
  \<open>config.py\<close>: the directory layout under the workspace root, the directories the
  module creates when it is imported, the enumeration \<open>CoordinateSystem\<close> with its
  \<open>Enum\<close> lookup by value, and the configuration dictionaries. A path is the list of
  its components; \<open>WORKSPACE_ROOT\<close> (\<open>Path(__file__).parent.parent\<close>) is a parameter
  \<open>root\<close>. The file system is the list of directories that exist; \<open>mkdir\<close> with
  \<open>parents=True, exist_ok=True\<close> adds the directory and its missing ancestors (a
  failing \<open>mkdir\<close>, for lack of permission or a file in the way, is not modelled). The
  lemmas show that the import creates every configured directory and the directory of
  the engine's metadata file. No module of the program reads this configuration.
\<close>

subsection \<open>Directories\<close>

type_synonym py_path = "string list"

definition data_dir :: "py_path \<Rightarrow> py_path" where "data_dir root = root @ [''data'']"
definition scripts_dir :: "py_path \<Rightarrow> py_path" where "scripts_dir root = root @ [''scripts'']"
definition checkpoint_dir :: "py_path \<Rightarrow> py_path" where "checkpoint_dir root = data_dir root @ [''checkpoints'']"
definition revit_export_dir :: "py_path \<Rightarrow> py_path" where "revit_export_dir root = data_dir root @ [''revit_exports'']"
definition gh_input_dir :: "py_path \<Rightarrow> py_path" where "gh_input_dir root = data_dir root @ [''gh_inputs'']"
definition gh_output_dir :: "py_path \<Rightarrow> py_path" where "gh_output_dir root = data_dir root @ [''gh_outputs'']"
definition export_dir :: "py_path \<Rightarrow> py_path" where "export_dir root = data_dir root @ [''exports'']"
definition report_dir :: "py_path \<Rightarrow> py_path" where "report_dir root = data_dir root @ [''reports'']"
definition sync_dir :: "py_path \<Rightarrow> py_path" where "sync_dir root = data_dir root @ [''.sync'']"

definition metadata_file :: "py_path \<Rightarrow> py_path" where
  "metadata_file root = sync_dir root @ [''metadata.json'']"

text \<open>The loop of lines 22--24.\<close>

definition config_dirs :: "py_path \<Rightarrow> py_path list" where
  "config_dirs root =
     [checkpoint_dir root, revit_export_dir root, gh_input_dir root, gh_output_dir root,
      export_dir root, report_dir root, sync_dir root]"

definition mkdir_parents :: "py_path list \<Rightarrow> py_path \<Rightarrow> py_path list" where
  "mkdir_parents fs p = fs @ filter (\<lambda>q. q \<notin> set fs) (map (\<lambda>n. take n p) [1..<Suc (length p)])"

definition create_config_dirs :: "py_path \<Rightarrow> py_path list \<Rightarrow> py_path list" where
  "create_config_dirs root fs = fold (\<lambda>dir_path fs. mkdir_parents fs dir_path) (config_dirs root) fs"

subsection \<open>Coordinate systems\<close>

text \<open>\<open>class CoordinateSystem(Enum)\<close> (lines 30--35) and its members' \<open>.value\<close>.\<close>

datatype coordinate_system = UTM_33N | UTM_32N | WGS84 | RD

primrec cs_value :: "coordinate_system \<Rightarrow> string" where
  "cs_value UTM_33N = ''EPSG:32633''"
| "cs_value UTM_32N = ''EPSG:32632''"
| "cs_value WGS84 = ''EPSG:4326''"
| "cs_value RD = ''EPSG:28992''"

text \<open>The members in definition order, which is the order \<open>Enum\<close> iterates them in.\<close>

instantiation coordinate_system :: enum
begin

definition "enum_coordinate_system = [UTM_33N, UTM_32N, WGS84, RD]"

definition "enum_all_coordinate_system P \<longleftrightarrow> P UTM_33N \<and> P UTM_32N \<and> P WGS84 \<and> P RD"

definition "enum_ex_coordinate_system P \<longleftrightarrow> P UTM_33N \<or> P UTM_32N \<or> P WGS84 \<or> P RD"

instance
proof
  have UNIV_coordinate_system: "UNIV = {UTM_33N, UTM_32N, WGS84, RD}"
    using coordinate_system.exhaust by auto
  show "UNIV = set (enum_class.enum :: coordinate_system list)"
    by (simp add: UNIV_coordinate_system enum_coordinate_system_def)
  show "distinct (enum_class.enum :: coordinate_system list)"
    by (simp add: enum_coordinate_system_def)
  show "enum_class.enum_all P = Ball UNIV P" for P :: "coordinate_system \<Rightarrow> bool"
    by (simp add: UNIV_coordinate_system enum_all_coordinate_system_def)
  show "enum_class.enum_ex P = Bex UNIV P" for P :: "coordinate_system \<Rightarrow> bool"
    by (simp add: UNIV_coordinate_system enum_ex_coordinate_system_def)
qed

end

text \<open>\<open>CoordinateSystem(value)\<close>: the first member, in definition order, whose value it
  is, and \<open>ValueError\<close> for a value no member has.\<close>

definition coordinate_system_of :: "string \<Rightarrow> py_error + coordinate_system" where
  "coordinate_system_of v =
     (case find (\<lambda>c. cs_value c = v) enum_class.enum of Some c \<Rightarrow> Inr c | None \<Rightarrow> Inl ValueError)"

definition default_epsg :: string where
  "default_epsg = cs_value UTM_33N"

subsection \<open>Configuration dictionaries\<close>

definition agol_config :: "(string, json) pydict" where
  "agol_config =
     [(''portal_url'', JStr ''https://www.arcgisonline.com/sharing/rest''),
      (''max_batch_size'', JNum 1000), (''timeout'', JNum 30)]"

definition sync_config :: "(string, json) pydict" where
  "sync_config =
     [(''conflict_strategy'', JStr ''last_write_wins''), (''enable_versioning'', JBool True),
      (''enable_checkpoints'', JBool True), (''checkpoint_interval'', JNum 100)]"

definition timeout_config :: "(string, json) pydict" where
  "timeout_config =
     [(''gh_wait_timeout'', JNum 300), (''agol_request_timeout'', JNum 30),
      (''revit_export_timeout'', JNum 60)]"

definition log_config :: "(string, json) pydict" where
  "log_config =
     [(''level'', JStr ''INFO''),
      (''format'', JStr ''%(asctime)s - %(name)s - %(levelname)s - %(message)s'')]"

definition supported_elements :: "string list" where
  "supported_elements =
     [''Wall'', ''Floor'', ''Roof'', ''Door'', ''Window'', ''Column'', ''Beam'', ''Ramp'', ''Stairs'']"

definition gh_to_agol_property_map :: "(string, string) pydict" where
  "gh_to_agol_property_map =
     [(''name'', ''name''), (''type'', ''element_type''), (''version'', ''version''),
      (''timestamp'', ''last_modified''), (''id'', ''gh_id''), (''revit_id'', ''revit_element_id'')]"

subsection \<open>The directories after the import\<close>

lemma mkdir_parents_mono: "set fs \<subseteq> set (mkdir_parents fs p)"
  by (auto simp: mkdir_parents_def)

lemma mkdir_parents_creates:
  assumes "0 < n" and "n \<le> length p"
  shows "take n p \<in> set (mkdir_parents fs p)"
proof (cases "take n p \<in> set fs")
  case False
  have "take n p \<in> set (map (\<lambda>n. take n p) [1..<Suc (length p)])"
    using assms by (auto simp: image_iff intro: bexI [of _ n])
  then show ?thesis using False by (simp add: mkdir_parents_def)
qed (simp add: mkdir_parents_def)

lemma fold_mkdir_parents:
  "p \<in> set ps \<Longrightarrow> 0 < n \<Longrightarrow> n \<le> length p \<Longrightarrow>
   take n p \<in> set (fold (\<lambda>dir_path fs. mkdir_parents fs dir_path) ps fs)"
proof (induction ps arbitrary: fs)
  case (Cons q ps)
  have mono: "set gs \<subseteq> set (fold (\<lambda>dir_path fs. mkdir_parents fs dir_path) qs gs)" for gs qs
    by (induction qs arbitrary: gs) (auto dest: subsetD [OF mkdir_parents_mono])
  show ?case
  proof (cases "p \<in> set ps")
    case False
    then have "p = q" using Cons.prems by simp
    then show ?thesis using mono mkdir_parents_creates [OF Cons.prems(2,3)] by (simp add: subset_iff)
  qed (use Cons in simp)
qed simp

text \<open>Importing \<open>config\<close> leaves every configured directory, each of its ancestors below
  the root and the directory of the engine's metadata file in existence.\<close>

lemma create_config_dirs_exist:
  assumes "dir_path \<in> set (config_dirs root)" and "length root < n" and "n \<le> length dir_path"
  shows "take n dir_path \<in> set (create_config_dirs root fs)"
  using assms fold_mkdir_parents [of dir_path "config_dirs root" n fs]
  by (simp add: create_config_dirs_def)

lemma metadata_dir_created: "butlast (metadata_file root) \<in> set (create_config_dirs root fs)"
proof -
  have "take (length root + 2) (sync_dir root) \<in> set (create_config_dirs root fs)"
    by (rule create_config_dirs_exist) (auto simp: config_dirs_def sync_dir_def data_dir_def)
  then show ?thesis by (simp add: metadata_file_def sync_dir_def data_dir_def butlast_append)
qed

subsection \<open>The lookup by value\<close>

text \<open>\<open>CoordinateSystem(v)\<close> returns the member \<open>c\<close> exactly when \<open>v\<close> is
  \<open>c.value\<close>: the four EPSG codes are distinct, so no member is an alias of another and
  each code names its own member.\<close>

theorem coordinate_system_lookup: "coordinate_system_of v = Inr c \<longleftrightarrow> cs_value c = v"
  by (cases c) (auto simp: coordinate_system_of_def enum_coordinate_system_def)

lemma coordinate_system_of_ValueError:
  "coordinate_system_of v = Inl e \<longleftrightarrow> e = ValueError \<and> v \<notin> range cs_value"
proof -
  have "find (\<lambda>c. cs_value c = v) enum_class.enum = None \<longleftrightarrow> v \<notin> range cs_value"
    by (auto simp: find_None_iff enum_UNIV)
  then show ?thesis by (auto simp: coordinate_system_of_def split: option.split)
qed
end
