(* ===== verification/Spec2Isabelle.thy ===== *)
theory Spec2Isabelle
  imports Pipeline GhHelper Templates Agol Loader Config
begin

text \<open>
  \<^bold>\<open>A verification library for revit-to-gis.\<close>
  The program moves building elements from Revit to Grasshopper and on to ArcGIS Online,
  keeping a versioned copy of every element in between. Its parts, under
  \<open>src/scripts\<close>, and the theories that model them:

  \<^item> \<open>merge_engine.py\<close>, the core. \<open>DataObject\<close> is the versioned entity, whose
    digest \<open>_compute_hash\<close> is MD5 of \<open>json.dumps(sort_keys=True)\<close> over type,
    properties and geometry: theory \<open>ContentHash\<close> (the JSON datatype, the serialiser
    \<open>dumps\<close>, \<open>compute_hash\<close>) and theory \<open>DataObject\<close> (the record
    \<open>data_object\<close>, \<open>new_data_object\<close>, \<open>to_dict\<close>, \<open>from_dict\<close>).
    \<open>ConflictResolver\<close> is theory \<open>Conflict\<close> (\<open>detect_conflict\<close>, the three
    strategies, \<open>resolve\<close>, and the design's abstract three-way outcome
    \<open>spec_detect\<close>). \<open>SyncMetadata\<close>, the ledger, is theory \<open>Ledger\<close>
    (\<open>register_object\<close>, \<open>add_sync_event\<close>, \<open>load_ledger\<close>, \<open>save_metadata\<close>).
    \<open>SyncEngine\<close> is theory \<open>Engine\<close>: each method is a function of the record
    \<open>engine\<close> (objects and ledger); a method whose loop may raise returns an
    \<open>outcome\<close> that keeps the state reached when the exception escaped
    (\<open>run_items\<close> of the theory \<open>Prelude\<close>); the methods a caller can invoke form the
    step function \<open>engine_step\<close> and the reachable states the inductive
    \<open>reachable_engine\<close>.
  \<^item> \<open>revit_gh_bridge.py\<close>: theory \<open>Bridge\<close>. The exporters turn Revit elements into
    batch records (\<open>obj_dict\<close>) with ids minted from eight characters of a uuid
    (\<open>export_all\<close>, \<open>export_from_revit\<close>); \<open>prepare_for_revit\<close> turns records
    back into Revit update commands.
  \<^item> \<open>agol_exporter.py\<close>, class \<open>GeoJSONConverter\<close>: theory \<open>GeoJson\<close>
    (\<open>gh_to_geojson\<close>). Its classes \<open>AGOLAuthentication\<close>, \<open>AGOLUploader\<close>
    and \<open>AGOLExporter\<close>: theory \<open>Agol\<close>, the record \<open>agol_auth\<close> and one
    function per method (\<open>authenticate\<close>, \<open>create_feature_service\<close>,
    \<open>upload_geojson\<close>, \<open>export_to_agol\<close>, \<open>export_to_shapefile\<close>), with the
    web service an oracle \<open>agol_post\<close> from an endpoint (\<open>agol_url\<close>) and a
    payload to the decoded response or an exception.
  \<^item> \<open>config.py\<close>: theory \<open>Config\<close>. The directories under a workspace root and
    their creation at import (\<open>create_config_dirs\<close>), the enumeration
    \<open>coordinate_system\<close> (an instance of the library's \<open>enum\<close> class) with
    \<open>.value\<close> (\<open>cs_value\<close>) and the \<open>Enum\<close> lookup \<open>coordinate_system_of\<close>,
    and the configuration dictionaries.
  \<^item> \<open>github_loader.py\<close>: theory \<open>Loader\<close>. The module cache \<open>sys.modules\<close> is
    the state, download and execution of a module's code are oracles;
    \<open>load_module_from_github\<close>, \<open>load_class_from_github\<close>,
    \<open>load_config_from_github\<close>, \<open>load_all_from_github\<close> and
    \<open>load_github_module_simple\<close> return an \<open>outcome\<close> with the cache they leave.
  \<^item> \<open>gh_helper.py\<close>, the script a Grasshopper definition runs: theory \<open>GhHelper\<close>.
    \<open>GrassholperDataHelper\<close> is the record \<open>gh_helper\<close> over an explicit store
    (objects and their \<open>"properties"\<close> dictionaries at addresses, as the Python
    heap holds them), with \<open>load_input_data\<close>, \<open>save_output_data\<close>,
    \<open>get_object_by_id\<close>, \<open>update_object\<close>, \<open>add_new_object\<close>,
    \<open>delete_object\<close> and \<open>get_summary\<close>; the \<open>gh_inputs\<close> directory and the
    clock are the record \<open>gh_world\<close>. \<open>GrassholperGeometryHelper\<close> is
    \<open>linestring_to_points\<close>, \<open>polygon_to_vertices\<close>, \<open>point_to_tuple\<close>,
    \<open>geometry_to_gh_curve\<close>; \<open>GrassholperPipeline\<close> is
    \<open>scale_coordinates\<close>, \<open>process_example\<close> (one \<open>process_obj\<close> per record,
    run by \<open>run_items\<close>), \<open>load_and_analyze\<close> and \<open>save_and_export\<close>.
  \<^item> \<open>GH_TEMPLATES.py\<close>, the scripts of the Grasshopper Python components: theory
    \<open>Templates\<close>, one function per template (\<open>template_1\<close> to \<open>template_9\<close>,
    \<open>safe_execute\<close>) of its inputs and the helper's store, with the \<open>except\<close>
    branch that sets its fallback outputs; template 6 runs the exporter of \<open>Agol\<close>,
    template 8 builds Rhino points, polylines and colours as values, template 9 writes
    Python's \<open>repr\<close> of the properties (\<open>py_repr\<close>).
  \<^item> \<open>integration_pipeline.py\<close>: theory \<open>Pipeline\<close>. The five steps, the wait for
    Grasshopper's output and the reports, over a record \<open>pipeline\<close> (engine, log, the
    files written) and a record \<open>world\<close> for everything outside the program: the
    engine's clock, MD5 and uuids (\<open>sys_env\<close>), the uuids of the Revit export, whether
    files can be written, when Grasshopper's output file appears and what it holds, and the
    ArcGIS exporter when credentials are given. That exporter returns a result or raises;
    \<open>agol_step_exporter\<close> of this theory builds it from \<open>export_to_agol\<close>.

  The data flow is the pipeline's: \<open>export_all\<close> \<open>\<rightarrow>\<close> \<open>flatten_elements\<close>
  \<open>\<rightarrow>\<close> \<open>sync_revit_to_gh\<close> (\<open>import_from_revit\<close>, then
  \<open>export_to_grasshopper\<close>) \<open>\<rightarrow>\<close> Grasshopper \<open>\<rightarrow>\<close>
  \<open>import_from_grasshopper\<close> \<open>\<rightarrow>\<close> \<open>gh_to_geojson\<close> or the upload; in
  Grasshopper, \<open>gh_helper.py\<close> reads the engine's export as its latest
  \<open>gh_input_*.json\<close> file and writes the records back. Python
  dictionaries are association lists with Python's update order (\<open>dict_set\<close>),
  exceptions are values of \<open>py_error\<close>, files are \<open>file_state\<close>s.

  \<^bold>\<open>What is proved.\<close> The claims C1--C40, each after a text naming it:
  \<^item> \<open>Conflict\<close> (C1--C3, C6): \<open>resolve\<close> on every branch (convergent edits
    keep the baseline, one-sided changes win, strategy dispatch with its fallback and the
    last-write-wins tie, and the manual strategy returning nothing although its docstring
    promises both versions), and \<open>detect_conflict\<close> refines \<open>spec_detect\<close>; the lemma
    \<open>resolve_returns_argument\<close> adds that \<open>resolve\<close> never builds a merged object.
  \<^item> \<open>Config\<close> (lemmas only): importing the module creates every configured directory.
  \<^item> \<open>ContentHash\<close>, \<open>DataObject\<close> (C8, C9): the digest is the same for contents
    equal up to key order at any depth (rule induction on \<open>json_eq\<close>);
    \<open>from_dict\<close> inverts \<open>to_dict\<close> (and, as a lemma, raises exactly on a missing
    id or type).
  \<^item> \<open>Loader\<close> (C10, C20): a load whose download fails re-raises and leaves the cache
    without the module, so a working module is evicted; \<open>load_all_from_github\<close>
    never raises and returns, in its list's order, only modules whose download succeeded,
    each under its own name and URL, whatever the executed code imported.
  \<^item> \<open>Engine\<close> (C11--C17, C19, C21): the dictionary invariant on every reachable state (rule
    induction), the append-only history, the ledger baseline after a Revit import and its
    exact error condition, the Grasshopper import on every branch, the checkpoint round
    trip, and the silent replacement of an unreadable ledger.
  \<^item> \<open>Agol\<close> (C5, C7, C18): an upload is reported successful whenever the service
    answers with a list of per-feature results, whatever those results say; the export
    raises exactly when, after authenticating, the conversion or the local write fails,
    and reports success exactly when every step did; a token kept from an earlier export
    plays no part in the next.
  \<^item> \<open>Templates\<close> (C4): Template 7 always ends in its \<open>except\<close> branch; a lemma
    shows Template 5 reports success whether or not anything was saved; examples show
    Template 6 reporting a rejected upload as a success and Template 8 pairing a door's
    point with a wall's colour.
  \<^item> \<open>GeoJson\<close> (C22, C23): the converter's result and error, and the shadowing of
    bookkeeping keys by an element's properties; \<open>Bridge\<close>'s lemma
    \<open>export_all_records\<close> gives the records of an export.
  \<^item> \<open>Pipeline\<close> (C24--C28): the wait sees a file that appears within its window and
    stays (liveness), the wait loop's bound, the log statuses of a run, the
    crash of \<open>print_summary\<close> after a failed run, and the GIS export falling back to
    unmodified data while the engine keeps a partial import.
  \<^item> \<open>GhHelper\<close> (C33--C38): objects sharing a \<open>"properties"\<close> dictionary change
    together under \<open>update_object\<close>, the default id of \<open>add_new_object\<close> can shadow
    the new object, \<open>point_to_tuple\<close> always gives three coordinates,
    \<open>scale_coordinates\<close> equals the reference \<open>map_nums\<close> exactly on well-shaped
    coordinate arrays, \<open>load_input_data\<close> reads the latest input and keeps stale
    data when it cannot, and \<open>get_summary\<close> counts each type exactly; a lemma shows
    every operation keeps the store's encoding well formed (\<open>helper_wf\<close>).
  \<^item> This theory (C29--C32, C39, C40), across components: updates sent back to Revit lose
    their Revit ids, an unchanged Grasshopper round trip bumps every version, a
    uuid-prefix collision merges two elements, a run without ArcGIS Online completes
    with one GeoJSON feature per object, a deletion made in Grasshopper is invisible to
    the engine, and walls without curve points crash the Grasshopper example.
  Many claims record where the code departs from the design (\<open>spec.md\<close>); the
  findings of the manifest name them.

  \<^bold>\<open>Loops and bounds.\<close> Every loop of the program runs over a finite list and is a
  structural recursion (\<open>run_items\<close>, \<open>gh_features\<close>, \<open>map\<close>), except the wait
  for Grasshopper's output, \<open>wait_for_file\<close>, a \<open>function\<close> whose termination
  measure is \<open>300 - elapsed\<close>, the code's own \<open>max_wait\<close>, and the recursion of
  \<open>_scale_coordinates\<close>, a \<open>function\<close> terminating by the size of the coordinate
  value; no fuel is needed.
  The serialiser \<open>dumps\<close> and Python's \<open>repr\<close> (\<open>py_repr\<close>) terminate by the
  size of the JSON value.

  \<^bold>\<open>Not modelled.\<close> MD5, \<open>uuid4\<close> and the clock are parameters (library calls);
  JSON numbers are integers (no floats); timestamps are the instants their ISO strings
  denote; logging, durations and the text of messages are left out. The web service
  behind the ArcGIS Online client is an oracle and the text \<open>json.dumps\<close> makes of
  the uploaded features is its value. In \<open>github_loader.py\<close> the download and
  \<open>exec\<close> are oracles (\<open>exec\<close> may change the module cache, as the imports of the
  executed code do), and the attributes a module object has before its code runs
  (\<open>__spec__\<close>, \<open>__loader__\<close>) are not; in \<open>config.py\<close>, a failing \<open>mkdir\<close> is
  not; \<open>setup.py\<close> and \<open>__init__.py\<close> are packaging metadata and re-exports. Of the
  Grasshopper templates, the exception texts that become outputs are their kinds. The
  \<open>__main__\<close> demonstrations of
  the modules use float literals (no floats in the model). In
  \<open>gh_helper.py\<close>, the directory creation of \<open>__init__\<close>, \<open>print_summary\<close> and the
  prints are output only, the output file's name keeps the clock's instant instead of its
  \<open>strftime\<close> text, and the scale factor 1.5 is a function on integers. The module
  \<open>integration_pipeline.py\<close> cannot be imported as written (its annotation
  \<open>Tuple\<close> is evaluated before \<open>Tuple\<close> is imported); the model is of the
  behaviour its code means once that is fixed.
\<close>

section \<open>Properties spanning the components\<close>

subsection \<open>The way back to Revit\<close>

text \<open>C29: the records the engine hands to Grasshopper carry no \<open>"revit_id"\<close>, so that
  every update \<open>prepare_for_revit\<close> derives from them, unchanged by Grasshopper, targets
  the Revit element \<open>null\<close>: the engine's export and the bridge's import do not agree on
  the interface between them.\<close>

theorem revit_updates_lose_revit_id:
  "map ru_revit_id (prepare_for_revit (export_to_grasshopper s)) = replicate (length (objects s)) JNull"
  by (simp add: prepare_for_revit_def export_to_grasshopper_def export_record_def empty_dict_def
                comp_def case_prod_beta Let_def map_replicate_const)

subsection \<open>A Grasshopper round trip without changes\<close>

lemma dict_set_middle:
  "k \<notin> set (dict_keys pre) \<Longrightarrow> dict_set (pre @ (k, v') # rest) k v = pre @ (k, v) # rest"
  by (induction pre) (auto simp: dict_keys_def)

lemma map_of_middle:
  "k \<notin> set (dict_keys pre) \<Longrightarrow> map_of (pre @ (k, v) # rest) k = Some v"
  by (induction pre) (auto simp: dict_keys_def)

text \<open>The object \<open>import_from_grasshopper\<close> stores for the unchanged record of
  \<open>obj\<close>: its content, timestamp and id, a recomputed digest, the source
  \<open>"grasshopper"\<close> and the next version.\<close>

definition gh_bumped :: "sys_env \<Rightarrow> data_object \<Rightarrow> data_object" where
  "gh_bumped env obj =
     obj\<lparr>source := ''grasshopper'', version := version obj + 1,
         hash := compute_hash (md5 env) (obj_type obj) (properties obj) (geometry obj)\<rparr>"

lemma import_gh_item_export_record:
  assumes "k \<notin> set (dict_keys pre)" and "obj_id obj = k" and "objects t = pre @ (k, obj) # rest"
  shows "\<exists>t'. import_gh_item env t (export_record s0 (k, obj)) = Ok () t' \<and>
           objects t' = pre @ (k, gh_bumped env obj) # rest"
proof -
  have get: "dict_get (objects t) k = Some obj"
    by (simp only: assms(3) map_of_middle [OF assms(1)])
  have set: "dict_set (objects t) k v = pre @ (k, v) # rest" for v
    by (simp only: assms(3) dict_set_middle [OF assms(1)])
  show ?thesis
    using assms(2)
    by (simp add: import_gh_item_def export_record_def from_dict_def new_data_object_def
                  empty_dict_def gh_bumped_def Let_def get set)
qed

lemma run_gh_export_records:
  assumes "dict_wf (pre @ xs)" and "\<forall>(k, obj) \<in> set xs. obj_id obj = k" and "objects t = pre @ xs"
  shows "\<exists>us t'. run_items (import_gh_item env) t (map (export_record s0) xs) = Ok us t' \<and>
           objects t' = pre @ map (\<lambda>(k, obj). (k, gh_bumped env obj)) xs"
  using assms
proof (induction xs arbitrary: pre t)
  case Nil
  then show ?case by simp
next
  case (Cons kv xs)
  obtain k obj where kv: "kv = (k, obj)" by (cases kv)
  from Cons.prems kv have k: "k \<notin> set (dict_keys pre)" and id: "obj_id obj = k"
    by (auto simp: dict_wf_def dict_keys_def)
  from import_gh_item_export_record [OF k id, of t "xs" env s0] Cons.prems(3) kv
  obtain t1 where t1: "import_gh_item env t (export_record s0 (k, obj)) = Ok () t1"
    and o1: "objects t1 = (pre @ [(k, gh_bumped env obj)]) @ xs" by auto
  have "dict_wf ((pre @ [(k, gh_bumped env obj)]) @ xs)"
    using Cons.prems(1) kv by (simp add: dict_wf_def dict_keys_def)
  with Cons.IH [OF _ _ o1] Cons.prems(2) obtain us t' where
    "run_items (import_gh_item env) t1 (map (export_record s0) xs) = Ok us t'"
    "objects t' = (pre @ [(k, gh_bumped env obj)]) @ map (\<lambda>(k, obj). (k, gh_bumped env obj)) xs"
    by auto
  with t1 kv show ?case by simp
qed

text \<open>C30: sending the engine's export back from Grasshopper unchanged succeeds and
  replaces every object by the same content with the next version and the source
  \<open>"grasshopper"\<close>: a round trip without edits bumps every version, where the design
  asks that a no-op update keep the version.\<close>

theorem gh_roundtrip_bumps_versions:
  assumes "engine_wf s"
  shows "\<exists>s'. import_from_grasshopper env (export_to_grasshopper s) s = Ok () s' \<and>
           objects s' = map (\<lambda>(k, obj). (k, gh_bumped env obj)) (objects s)"
proof -
  from assms have wf: "dict_wf ([] @ objects s)" and ids: "\<forall>(k, obj) \<in> set (objects s). obj_id obj = k"
    by (auto simp: engine_wf_def)
  from run_gh_export_records [OF wf ids, of s env s] obtain us t' where
    "run_items (import_gh_item env) s (map (export_record s) (objects s)) = Ok us t'"
    "objects t' = map (\<lambda>(k, obj). (k, gh_bumped env obj)) (objects s)"
    by auto
  then show ?thesis by (simp add: import_from_grasshopper_def export_to_grasshopper_def)
qed

subsection \<open>Ids made from eight characters of a uuid\<close>

lemma import_revit_item_Some_id:
  "d_id item = Some (Some i) \<Longrightarrow>
   \<exists>a m. import_revit_item env s (n, item) =
     Ok a (s\<lparr>objects := dict_set (objects s) (Some i) (revit_object env n item), metadata := m\<rparr>)"
  by (auto simp: import_revit_item_def revit_oid_def register_object_def revit_id_or_default_def
                 Let_def split: option.splits)

text \<open>C31: two walls of one export whose uuids share their first eight characters get
  the same id, and the engine keeps one object for both: the second wall silently
  replaces the first.\<close>

theorem uuid_prefix_collision:
  assumes "take 8 (uuids 0) = take 8 (uuids 1)" and "doc_walls d = Some [e1, e2]"
    and "doc_openings d = None" and "doc_floors d = None"
  shows "length (objects (outcome_state
           (import_from_revit env (flatten_elements (export_all uuids t d)) (init_engine t0 f)))) = 1"
proof -
  let ?i = "''wall_'' @ take 8 (uuids 0)"
  have batch: "flatten_elements (export_all uuids t d) = [wall_record (uuids 0) e1, wall_record (uuids 1) e2]"
    using assms(2-4) by (simp add: export_all_flatten)
  have ids: "d_id (wall_record (uuids 0) e1) = Some (Some ?i)" "d_id (wall_record (uuids 1) e2) = Some (Some ?i)"
    using assms(1) by (simp_all add: short_id_def)
  from import_revit_item_Some_id [OF ids(1), of env "init_engine t0 f" 0] obtain a1 s1 where
    i1: "import_revit_item env (init_engine t0 f) (0, wall_record (uuids 0) e1) = Ok a1 s1"
    and o1: "objects s1 = [(Some ?i, revit_object env 0 (wall_record (uuids 0) e1))]"
    by (auto simp: init_engine_def)
  from import_revit_item_Some_id [OF ids(2), of env s1 1] o1 obtain a2 s2 where
    i2: "import_revit_item env s1 (1, wall_record (uuids 1) e2) = Ok a2 s2"
    and o2: "length (objects s2) = 1"
    by auto
  show ?thesis
    using batch i1 i2 o2 by (simp add: import_from_revit_def)
qed

subsection \<open>A run without ArcGIS Online\<close>

text \<open>A geometry of one of the three kinds the Revit exporter writes.\<close>

definition kind_geometry :: "(string, json) pydict \<Rightarrow> bool" where
  "kind_geometry g \<longleftrightarrow>
     dict_get g ''type'' \<in> {Some (JStr ''LineString''), Some (JStr ''Polygon''), Some (JStr ''Point'')}"

lemma flatten_export_records:
  "r \<in> set (flatten_elements (export_all uuids t d)) \<Longrightarrow>
   (\<exists>i. d_id r = Some (Some i)) \<and> (\<exists>g. d_geometry r = Some g \<and> kind_geometry g)"
  by (auto simp: export_all_flatten wall_record_def opening_record_def floor_record_def
                 empty_dict_def short_id_def kind_geometry_def)

lemma import_revit_item_objects:
  "objects (outcome_state (import_revit_item env s (n, item))) =
     dict_set (objects s) (revit_oid env n item) (revit_object env n item)"
  by (auto simp: import_revit_item_def Let_def split: sum.splits)

lemma import_from_revit_kinds:
  assumes items: "\<forall>r \<in> set items. \<exists>g. d_geometry r = Some g \<and> kind_geometry g"
    and s: "\<forall>(k, obj) \<in> set (objects s). kind_geometry (geometry obj)"
  shows "\<forall>(k, obj) \<in> set (objects (outcome_state (import_from_revit env items s))). kind_geometry (geometry obj)"
proof -
  let ?P = "\<lambda>t. \<forall>(k, obj) \<in> set (objects t). kind_geometry (geometry obj)"
  have "?P (outcome_state (run_items (import_revit_item env) s (enumerate 0 items)))"
  proof (rule run_items_invariant_on [where P = ?P])
    fix t :: engine and ni assume Pt: "?P t" and mem: "ni \<in> set (enumerate 0 items)"
    obtain n item where ni: "ni = (n, item)" by (cases ni)
    from in_set_enumerate_snd [OF mem] ni items obtain g where
      "d_geometry item = Some g" "kind_geometry g" by auto
    then have "kind_geometry (geometry (revit_object env n item))"
      by (simp add: revit_object_def new_data_object_def)
    with Pt ni show "?P (outcome_state (import_revit_item env t ni))"
      by (auto simp: import_revit_item_objects dest: dict_set_member)
  qed (rule s)
  then show ?thesis by (simp add: import_from_revit_def split: outcome.splits)
qed

lemma export_known_kinds:
  "\<forall>(k, obj) \<in> set (objects s). kind_geometry (geometry obj) \<Longrightarrow>
   \<forall>r \<in> set (export_to_grasshopper s). known_kind r"
  by (auto simp: export_to_grasshopper_def export_record_def known_kind_def geom_type_def type_lower_def
                 kind_geometry_def empty_dict_def Let_def)

lemma import_from_revit_nonempty:
  assumes "import_from_revit env items s = Ok objs s'" and "items \<noteq> []"
  shows "objects s' \<noteq> []"
proof -
  from assms(1) obtain s0 where run: "run_items (import_revit_item env) s (enumerate 0 items) = Ok objs s0"
    and s': "s' = s0\<lparr>metadata := save_metadata (metadata s0)\<rparr>"
    by (auto simp: import_from_revit_def split: outcome.splits)
  from assms(2) obtain item rest where "items = item # rest" by (cases items) auto
  then have "(0, item) \<in> set (enumerate 0 items)" by simp
  with run_import_revit_Ok [OF run] have "revit_fresh s0 (revit_oid env 0 item)" by blast
  then obtain obj where "get_object s0 (revit_oid env 0 item) = Some obj"
    by (auto simp: revit_fresh_def)
  with s' show ?thesis by (auto simp: get_object_def)
qed

text \<open>C32: with no ArcGIS Online account, writable files, an engine holding no object
  and a document with at least one wall, opening or floor, a run without waiting for
  Grasshopper completes with success: its four steps log \<open>"success"\<close>, and the
  GeoJSON it writes has one feature for each object of the engine.\<close>

theorem pipeline_local_run:
  assumes agol: "w_agol w = None" and wr: "w_write_ok w" and empty: "objects (pl_engine p) = []"
    and doc: "get_or (doc_walls d) [] @ get_or (doc_openings d) [] @ get_or (doc_floors d) [] \<noteq> []"
  shows "\<exists>p' fs. run_full_pipeline w d False p = Inr (Completed True (pl_log p'), p') \<and>
           pl_geojson p' = Some (feature_collection ''EPSG:32633'' fs) \<and>
           length fs = length (objects (pl_engine p')) \<and>
           map le_status (pl_log p') = map le_status (pl_log p) @ replicate 4 ''success''"
proof -
  let ?env = "w_env w" and ?rx = "export_all (w_uuids w) (now (w_env w)) d"
  let ?batch = "flatten_elements ?rx"
  have recs: "\<forall>r \<in> set ?batch. (\<exists>i. d_id r = Some (Some i)) \<and>
      (\<exists>g. d_geometry r = Some g \<and> kind_geometry g)"
    using flatten_export_records by blast
  then have "\<forall>r \<in> set ?batch. d_id r = Some None \<longrightarrow> rid_truthy (d_revit_id r)" by auto
  from import_from_revit_OkI [OF this] obtain objs s' where
    imp: "import_from_revit ?env ?batch (pl_engine p) = Ok objs s'" by blast
  have sync: "sync_revit_to_gh ?env ?batch (pl_engine p) = Ok (export_to_grasshopper s') s'"
    using imp by (simp add: sync_revit_to_gh_def check_conflicts_def)
  have "length ?batch = length (get_or (doc_walls d) [] @ get_or (doc_openings d) [] @ get_or (doc_floors d) [])"
    by (simp add: export_all_flatten)
  with doc have "?batch \<noteq> []" by auto
  from import_from_revit_nonempty [OF imp this] have ne: "export_to_grasshopper s' \<noteq> []"
    by (simp add: export_to_grasshopper_def)
  have "\<forall>(k, obj) \<in> set (objects s'). kind_geometry (geometry obj)"
    using import_from_revit_kinds [of ?batch "pl_engine p" ?env] recs empty imp by auto
  from gh_features_known [OF export_known_kinds [OF this]] obtain fs where
    fs: "gh_features (export_to_grasshopper s') = Inr fs" "length fs = length (objects s')"
    by (auto simp: export_to_grasshopper_def)
  then have gj: "gh_to_geojson (export_to_grasshopper s') ''EPSG:32633'' =
      Inr (feature_collection ''EPSG:32633'' fs)" by (simp add: gh_to_geojson_def)
  from step_1_success [OF wr, of d p] obtain p1 where s1: "step_1_revit_export w d p = (Some ?rx, p1)"
    and e1: "pl_engine p1 = pl_engine p" and l1: "map le_status (pl_log p1) = map le_status (pl_log p) @ [''success'']"
    by blast
  from step_2_success [of w ?rx p1, OF _ wr] sync e1 obtain p2 where
    s2: "step_2_sync_and_version w ?rx p1 = (export_to_grasshopper s', p2)" and e2: "pl_engine p2 = s'"
    and l2: "map le_status (pl_log p2) = map le_status (pl_log p1) @ [''success'']"
    by auto
  from step_3_success [OF wr, of "export_to_grasshopper s'" p2] obtain f p3 where
    s3: "step_3_export_grasshopper w (export_to_grasshopper s') p2 = (Some f, p3)"
    and e3: "pl_engine p3 = s'" and l3: "map le_status (pl_log p3) = map le_status (pl_log p2) @ [''success'']"
    using e2 by auto
  from step_5_geojson_success [OF agol wr gj, of p3] obtain r p5 where
    s5: "step_5_export_arcgis_online w (export_to_grasshopper s') p3 = ((True, r), p5)"
    and e5: "pl_engine p5 = s'" and g5: "pl_geojson p5 = Some (feature_collection ''EPSG:32633'' fs)"
    and l5: "map le_status (pl_log p5) = map le_status (pl_log p3) @ [''success'']"
    using e3 by auto
  have run: "run_full_pipeline w d False p =
      Inr (Completed True (pl_log p5), p5\<lparr>pl_report := Some (Completed True (pl_log p5))\<rparr>)"
    using s1 s2 s3 s5 ne wr by (simp add: run_full_pipeline_def create_completion_report_success)
  show ?thesis
    by (rule exI [of _ "p5\<lparr>pl_report := Some (Completed True (pl_log p5))\<rparr>"], rule exI [of _ fs])
       (simp add: run g5 e5 fs(2) l5 l3 l2 l1 numeral_eq_Suc)
qed

subsection \<open>Grasshopper's soft delete and the engine\<close>

text \<open>A record with its deletion marks cleared: the keys \<open>delete_object\<close> writes and
  no reader of the engine looks at.\<close>

definition strip_deleted :: "obj_dict \<Rightarrow> obj_dict" where
  "strip_deleted d = d\<lparr>d_deleted := None, d_deleted_timestamp := None\<rparr>"

lemma from_dict_deleted [simp]:
  "from_dict env (d\<lparr>d_deleted := x, d_deleted_timestamp := y\<rparr>) = from_dict env d"
  by (simp add: from_dict_def split: option.split)

lemma import_gh_item_strip_deleted:
  "import_gh_item env s d = import_gh_item env s (strip_deleted d)"
  by (simp add: import_gh_item_def strip_deleted_def Let_def split: option.split)

lemma import_from_grasshopper_strip_deleted:
  "map strip_deleted xs = map strip_deleted ys \<Longrightarrow>
   import_from_grasshopper env xs s = import_from_grasshopper env ys s"
  unfolding import_from_grasshopper_def
  by (subst run_items_cong_map [where f = "import_gh_item env" and g = strip_deleted,
        OF import_gh_item_strip_deleted]) simp_all

lemma delete_object_True:
  assumes "delete_object w i h = (True, h')"
  shows "\<exists>a. found_obj i h = Some a \<and> current_data h' = current_data h \<and>
           (\<forall>b. obj_view h' b = (if b = a then (obj_view h a)\<lparr>d_deleted := Some True,
                                    d_deleted_timestamp := Some (gw_now w)\<rparr> else obj_view h b))"
  using assms by (auto simp: delete_object_def obj_view_def split: option.splits)

text \<open>C39: \<open>delete_object\<close> marks the object it finds as deleted, without the
  version bump of the design's tombstone, and the engine's \<open>import_from_grasshopper\<close>
  reads nothing of the mark: importing the helper's records after the delete does exactly
  what importing them before it does, so a deletion made in Grasshopper never reaches
  the engine, Revit or the GIS.\<close>

theorem gh_soft_delete_invisible:
  assumes "delete_object w i h = (True, h')"
  shows "(\<exists>a \<in> set (current_data h'). d_deleted (obj_view h' a) = Some True \<and>
            d_version (obj_view h' a) = d_version (obj_view h a)) \<and>
         import_from_grasshopper env (data_view h') s = import_from_grasshopper env (data_view h) s"
proof -
  obtain a where f: "found_obj i h = Some a" and cd: "current_data h' = current_data h"
    and v: "\<And>b. obj_view h' b = (if b = a then (obj_view h a)\<lparr>d_deleted := Some True,
                                    d_deleted_timestamp := Some (gw_now w)\<rparr> else obj_view h b)"
    using delete_object_True [OF assms] by blast
  have "a \<in> set (current_data h)" using f
    by (auto simp: found_obj_def get_object_by_id_def find_Some_iff split: option.splits if_splits)
  then have "\<exists>a \<in> set (current_data h'). d_deleted (obj_view h' a) = Some True \<and>
            d_version (obj_view h' a) = d_version (obj_view h a)" using cd v by auto
  moreover have "map strip_deleted (data_view h') = map strip_deleted (data_view h)"
    using cd v by (simp add: data_view_def strip_deleted_def)
  ultimately show ?thesis using import_from_grasshopper_strip_deleted by blast
qed


subsection \<open>A wall without curve points in the Grasshopper example\<close>

lemma flatten_export_cases:
  assumes "r \<in> set (flatten_elements (export_all uuids t d))"
  shows "(\<exists>u e. e \<in> set (get_or (doc_walls d) []) \<and> r = wall_record u e) \<or>
         (\<exists>u e. r = opening_record u e) \<or> (\<exists>u e. r = floor_record u e)"
proof -
  let ?W = "get_or (doc_walls d) []"
  consider (w) p where "p \<in> set (enumerate 0 ?W)" "r = wall_record (uuids (fst p)) (snd p)"
    | (o) p where "r = opening_record (uuids (fst p)) (snd p)"
    | (f) p where "r = floor_record (uuids (fst p)) (snd p)"
    using assms unfolding export_all_flatten set_append Un_iff set_map by (elim disjE imageE) auto
  then show ?thesis
  proof cases
    case w
    then show ?thesis using in_set_enumerate_snd [OF w(1)] by blast
  qed blast+
qed

lemma wall_id_prefix [simp]:
  "short_id ''opening_'' u \<noteq> short_id ''wall_'' u'" "short_id ''floor_'' u \<noteq> short_id ''wall_'' u'"
  by (simp_all add: short_id_def)

lemma revit_object_geometry: "geometry (revit_object env n item) = get_or (d_geometry item) []"
  by (simp add: revit_object_def new_data_object_def)

lemma curveless_wall_item:
  assumes walls: "\<forall>e \<in> set (get_or (doc_walls d) []). el_curve_points e = None"
    and mem: "item \<in> set (flatten_elements (export_all uuids t d))"
  shows "(\<exists>u. revit_oid env n item = short_id ''wall_'' u) \<longrightarrow>
           dict_get (geometry (revit_object env n item)) ''coordinates'' = Some (JArr [])"
  using flatten_export_cases [OF mem]
proof (elim disjE exE conjE)
  fix u e assume e: "e \<in> set (get_or (doc_walls d) [])" and it: "item = wall_record u e"
  have "el_curve_points e = None" using walls e by blast
  then have "d_geometry item = Some [(''type'', JStr ''LineString''), (''coordinates'', JArr [])]"
    using it by (simp add: wall_record_def empty_dict_def)
  then show ?thesis by (simp add: revit_object_geometry)
next
  fix u e assume it: "item = opening_record u e"
  have "revit_oid env n item = short_id ''opening_'' u" unfolding it by (simp add: revit_oid_def)
  then show ?thesis by simp
next
  fix u e assume it: "item = floor_record u e"
  have "revit_oid env n item = short_id ''floor_'' u" unfolding it by (simp add: revit_oid_def)
  then show ?thesis by simp
qed

lemma import_from_revit_wall_coords:
  assumes walls: "\<forall>e \<in> set (get_or (doc_walls d) []). el_curve_points e = None"
    and s: "\<forall>(k, obj) \<in> set (objects s). (\<exists>u. k = short_id ''wall_'' u) \<longrightarrow>
              dict_get (geometry obj) ''coordinates'' = Some (JArr [])"
  shows "\<forall>(k, obj) \<in> set (objects (outcome_state (import_from_revit env (flatten_elements (export_all uuids t d)) s))).
           (\<exists>u. k = short_id ''wall_'' u) \<longrightarrow> dict_get (geometry obj) ''coordinates'' = Some (JArr [])"
proof -
  define batch where "batch = flatten_elements (export_all uuids t d)"
  define P where "P (t :: engine) \<longleftrightarrow> (\<forall>(k, obj) \<in> set (objects t). (\<exists>u. k = short_id ''wall_'' u) \<longrightarrow>
              dict_get (geometry obj) ''coordinates'' = Some (JArr []))" for t
  have "P (outcome_state (run_items (import_revit_item env) s (enumerate 0 batch)))"
  proof (rule run_items_invariant_on [where P = P])
    fix t :: engine and ni assume Pt: "P t" and mem: "ni \<in> set (enumerate 0 batch)"
    obtain n item where ni: "ni = (n, item)" by (cases ni)
    from in_set_enumerate_snd [OF mem] ni have "item \<in> set batch" by simp
    from curveless_wall_item [OF walls this [unfolded batch_def]] Pt
    show "P (outcome_state (import_revit_item env t ni))"
      unfolding ni import_revit_item_objects P_def by (rule dict_set_forall [rotated])
  qed (simp add: P_def s)
  then have "P (outcome_state (import_from_revit env batch s))"
    by (simp add: import_from_revit_def P_def split: outcome.splits)
  then show ?thesis by (simp add: P_def batch_def)
qed

text \<open>C40: when every wall of a Revit document lacks \<open>"curve_points"\<close>, the
  exporter writes its coordinates as \<open>[]\<close>, the engine keeps them, and once its export
  to Grasshopper is the latest input, \<open>GrassholperPipeline.process_example\<close> raises
  (\<open>coords[0]\<close> on an empty list) instead of returning the scaled records.\<close>

theorem curveless_walls_crash_gh_processing:
  assumes empty: "objects s = []"
    and imp: "import_from_revit env (flatten_elements (export_all uuids t d)) s = Ok objs s'"
    and walls: "doc_walls d = Some (e # es)" and nopts: "\<forall>e' \<in> set (e # es). el_curve_points e' = None"
    and latest: "filter (\<lambda>f. is_gh_input (fst f)) (gw_inputs w) = f # fs"
      "py_max_by file_mtime f fs = (name, mt, Stored (export_to_grasshopper s'))"
  shows "\<exists>err h'. process_example w mul h = Raised err h'"
proof -
  let ?batch = "flatten_elements (export_all uuids t d)"
  let ?k = "short_id ''wall_'' (uuids 0)"
  from imp obtain s0 where run: "run_items (import_revit_item env) s (enumerate 0 ?batch) = Ok objs s0"
    and s': "s' = s0\<lparr>metadata := save_metadata (metadata s0)\<rparr>"
    by (auto simp: import_from_revit_def split: outcome.splits)
  have m: "(0, wall_record (uuids 0) e) \<in> set (enumerate 0 ?batch)"
    using walls by (simp add: export_all_flatten)
  have "revit_fresh s0 (revit_oid env 0 (wall_record (uuids 0) e))"
    using conjunct1 [OF run_import_revit_Ok [OF run]] m by blast
  then have "revit_fresh s0 ?k" by (simp add: revit_oid_def)
  then obtain obj where "get_object s' ?k = Some obj"
    by (auto simp: revit_fresh_def s' get_object_def)
  then have mem: "(?k, obj) \<in> set (objects s')" by (simp add: get_object_def map_of_SomeD)
  have "\<forall>(k, obj) \<in> set (objects s'). (\<exists>u. k = short_id ''wall_'' u) \<longrightarrow>
          dict_get (geometry obj) ''coordinates'' = Some (JArr [])"
    using import_from_revit_wall_coords [of d s env uuids t] walls nopts empty imp by simp
  with mem have "dict_get (geometry obj) ''coordinates'' = Some (JArr [])" by blast
  moreover have "export_record s' (?k, obj) \<in> set (export_to_grasshopper s')"
    using mem by (simp add: export_to_grasshopper_def)
  ultimately show ?thesis
    using process_example_no_coords [OF latest, of "export_record s' (?k, obj)"]
    by (simp add: export_record_def empty_dict_def Let_def)
qed

subsection \<open>Step 5 with the ArcGIS Online exporter\<close>

text \<open>The exporter the pipeline builds from its credentials
  (\<open>AGOLExporter(agol_username, agol_password, ...)\<close>, integration_pipeline.py lines
  43--44) and step 5's call of \<open>export_to_agol\<close> (lines 237--241). The pipeline logs
  the result it gets back; the log model holds text, so a service id is recorded as its
  \<open>json_text\<close>. By
  \<open>export_to_agol_token_irrelevant\<close> a freshly constructed exporter stands for the
  one the pipeline keeps between runs.\<close>

definition agol_step_exporter ::
  "agol_post \<Rightarrow> bool \<Rightarrow> string \<Rightarrow> string \<Rightarrow> string \<Rightarrow> obj_dict list \<Rightarrow> py_error + bool \<times> string" where
  "agol_step_exporter post write_ok agol_username agol_password service_title gh_modified_data =
     map_sum id (\<lambda>(success, result). (success, json_text result))
       (fst (export_to_agol post write_ok (init_auth agol_username agol_password) gh_modified_data
               service_title ''Auto-exported from Revit via Grasshopper'' ''EPSG:32633'' True))"

text \<open>Against \<open>demo_agol\<close>, which rejects every feature, step 5 reports and logs a
  successful export with the service's id.\<close>

lemma step_5_agol_rejected_upload:
  "step_5_export_arcgis_online
     (demo_world\<lparr>w_agol := Some (agol_step_exporter demo_agol True ''user'' ''pw'' ''Revit-GH Export'')\<rparr>)
     [gj_point] p =
   ((True, ''svc1''),
    log_step (now demo_env) ''export_agol'' ''success'' [Message ''agol_service_id'' ''svc1''] p)"
  using export_to_agol_rejected_features
  by (simp add: step_5_export_arcgis_online_def agol_step_exporter_def json_text_def)

subsection \<open>The configuration and the code\<close>

text \<open>The values \<open>config.py\<close> declares are the ones the code uses as literals: the
  wait for Grasshopper stays within \<open>TIMEOUT_CONFIG["gh_wait_timeout"]\<close>, and
  \<open>DEFAULT_EPSG\<close> names the member \<open>UTM_33N\<close> and is the code the converter is
  called with. No module reads the configuration, so changing it changes nothing.\<close>

lemma config_matches_code:
  "(\<exists>n. dict_get timeout_config ''gh_wait_timeout'' = Some (JNum n) \<and> int (wait_for_file ex 0) \<le> n) \<and>
   coordinate_system_of default_epsg = Inr UTM_33N \<and> default_epsg = ''EPSG:32633''"
proof -
  have "wait_for_file ex 0 \<le> 300" using wait_for_file_from [of 0 ex] by simp
  then show ?thesis
    by (simp add: timeout_config_def coordinate_system_of_def default_epsg_def enum_coordinate_system_def)
qed

subsection \<open>Witnesses\<close>

text \<open>An element with no key, a document with two such walls, and uuids that agree on
  their first eight characters.\<close>

definition blank_element :: revit_element where
  "blank_element = \<lparr>el_id = None, el_name = None, el_length = None, el_height = None,
     el_material = None, el_level = None, el_curve_points = None, el_element_type = None,
     el_width = None, el_family_type = None, el_position = None, el_thickness = None,
     el_boundary_points = None\<rparr>"

definition two_walls_doc :: revit_doc where
  "two_walls_doc = \<lparr>doc_file_path = None, doc_project_name = None, doc_epsg = None, doc_origin = None,
     doc_walls = Some [blank_element, blank_element], doc_openings = None, doc_floors = None\<rparr>"

definition close_uuids :: "nat \<Rightarrow> string" where
  "close_uuids n = ''abcdefgh'' @ replicate n (CHR ''1'')"

theorem gh_roundtrip_bumps_versions_witness:
  "engine_wf w1_engine \<and>
   (\<exists>s'. import_from_grasshopper demo_env (export_to_grasshopper w1_engine) w1_engine = Ok () s' \<and>
      objects s' = [(Some ''w1'', gh_bumped demo_env (wall_at 1 3 ''revit'' 1))] \<and>
      version (gh_bumped demo_env (wall_at 1 3 ''revit'' 1)) = 2)"
proof -
  have wf: "engine_wf w1_engine"
    by (simp add: engine_wf_def w1_engine_def dict_wf_def dict_keys_def wall_at_def new_data_object_def)
  from gh_roundtrip_bumps_versions [OF wf, of demo_env] wf show ?thesis
    by (simp add: w1_engine_def gh_bumped_def version_wall_at)
qed

theorem uuid_prefix_collision_witness:
  "length (objects (outcome_state (import_from_revit demo_env
      (flatten_elements (export_all close_uuids 7 two_walls_doc)) (init_engine 0 Missing)))) = 1"
  using uuid_prefix_collision [of close_uuids two_walls_doc blank_element blank_element demo_env 7 0 Missing]
  by (simp add: close_uuids_def two_walls_doc_def)

theorem pipeline_local_run_witness:
  "\<exists>p' fs. run_full_pipeline (demo_world\<lparr>w_write_ok := True\<rparr>) two_walls_doc False (init_pipeline 0 Missing) =
     Inr (Completed True (pl_log p'), p') \<and>
     pl_geojson p' = Some (feature_collection ''EPSG:32633'' fs) \<and>
     length fs = length (objects (pl_engine p')) \<and>
     map le_status (pl_log p') = replicate 4 ''success''"
  using pipeline_local_run [of "demo_world\<lparr>w_write_ok := True\<rparr>" "init_pipeline 0 Missing" two_walls_doc]
  by (simp add: init_pipeline_def init_engine_def two_walls_doc_def)

theorem gh_soft_delete_invisible_witness:
  "fst (delete_object gh_demo_world (Some ''gh_new_0'') alias_helper) = True \<and>
   (\<exists>a \<in> set (current_data (snd (delete_object gh_demo_world (Some ''gh_new_0'') alias_helper))).
      d_deleted (obj_view (snd (delete_object gh_demo_world (Some ''gh_new_0'') alias_helper)) a) = Some True) \<and>
   import_from_grasshopper demo_env (data_view (snd (delete_object gh_demo_world (Some ''gh_new_0'') alias_helper)))
     (init_engine 0 Missing) =
   import_from_grasshopper demo_env (data_view alias_helper) (init_engine 0 Missing)"
proof -
  have t: "fst (delete_object gh_demo_world (Some ''gh_new_0'') alias_helper) = True" by code_simp
  then have "delete_object gh_demo_world (Some ''gh_new_0'') alias_helper =
               (True, snd (delete_object gh_demo_world (Some ''gh_new_0'') alias_helper))"
    by (simp add: prod_eq_iff)
  from gh_soft_delete_invisible [OF this, of demo_env "init_engine 0 Missing"] t show ?thesis by blast
qed

theorem curveless_walls_crash_gh_processing_witness:
  "\<exists>objs s'. import_from_revit demo_env (flatten_elements (export_all close_uuids 7 two_walls_doc))
       (init_engine 0 Missing) = Ok objs s' \<and>
     (\<exists>err h'. process_example \<lparr>gw_now = 9, gw_inputs = [(''gh_input_7.json'', 7, Stored (export_to_grasshopper s'))],
                                gw_write_ok = True\<rparr> (num_mul (\<lambda>i. 3 * i)) init_gh_helper = Raised err h')"
proof -
  have "\<forall>r \<in> set (flatten_elements (export_all close_uuids 7 two_walls_doc)).
          d_id r = Some None \<longrightarrow> rid_truthy (d_revit_id r)"
    by (simp add: export_all_flatten two_walls_doc_def short_id_def)
  from import_from_revit_OkI [OF this] obtain objs s' where
    imp: "import_from_revit demo_env (flatten_elements (export_all close_uuids 7 two_walls_doc))
            (init_engine 0 Missing) = Ok objs s'" by blast
  have "\<exists>err h'. process_example \<lparr>gw_now = 9, gw_inputs = [(''gh_input_7.json'', 7, Stored (export_to_grasshopper s'))],
                                gw_write_ok = True\<rparr> (num_mul (\<lambda>i. 3 * i)) init_gh_helper = Raised err h'"
    using curveless_walls_crash_gh_processing [of "init_engine 0 Missing" demo_env close_uuids 7 two_walls_doc
        objs s' blank_element "[blank_element]"
        "\<lparr>gw_now = 9, gw_inputs = [(''gh_input_7.json'', 7, Stored (export_to_grasshopper s'))], gw_write_ok = True\<rparr>"
        "(''gh_input_7.json'', 7, Stored (export_to_grasshopper s'))" "[]" "''gh_input_7.json''" 7
        "num_mul (\<lambda>i. 3 * i)" init_gh_helper] imp
    by (simp add: init_engine_def two_walls_doc_def blank_element_def is_gh_input_def)
  with imp show ?thesis by blast
qed

end
